theory Spec2Isabelle
  imports Main
begin

section \<open>Host-language values\<close>

text \<open>
  The server is a TypeScript class (\<^verbatim>\<open>src/index.ts\<close>, class \<^verbatim>\<open>NanoBananaMCP\<close>).
  Strings are byte lists (UTF-8); a value that may be \<^verbatim>\<open>undefined\<close> is an option.
\<close>

type_synonym path = string
type_synonym bytes = string

text \<open>JavaScript truthiness of a possibly undefined string: \<^verbatim>\<open>undefined\<close> and \<^verbatim>\<open>""\<close> are falsy.\<close>

definition truthy :: "string option \<Rightarrow> bool" where
  "truthy v = (case v of None \<Rightarrow> False | Some s \<Rightarrow> s \<noteq> [])"

text \<open>Interpolation of a possibly undefined string in a template literal.\<close>

definition js_string :: "string option \<Rightarrow> string" where
  "js_string v = (case v of None \<Rightarrow> ''undefined'' | Some s \<Rightarrow> s)"

text \<open>\<^verbatim>\<open>Array.prototype.join\<close> with a separator.\<close>

fun join_with :: "string \<Rightarrow> string list \<Rightarrow> string" where
  "join_with sep [] = []"
| "join_with sep [x] = x"
| "join_with sep (x # y # ys) = x @ sep @ join_with sep (y # ys)"

text \<open>Decimal rendering of a natural number (\<^verbatim>\<open>String(n)\<close> in a template literal).\<close>

definition digit_char :: "nat \<Rightarrow> char" where
  "digit_char d = char_of (48 + d)"

fun decimal :: "nat \<Rightarrow> string" where
  "decimal n = (if n < 10 then [digit_char n] else decimal (n div 10) @ [digit_char (n mod 10)])"

declare decimal.simps [simp del]

text \<open>\<^verbatim>\<open>String.prototype.toLowerCase\<close>, on the ASCII letters.\<close>

definition lower_char :: "char \<Rightarrow> char" where
  "lower_char c = (let n = of_char c :: nat in if 65 \<le> n \<and> n \<le> 90 then char_of (n + 32) else c)"

definition toLowerCase :: "string \<Rightarrow> string" where
  "toLowerCase s = map lower_char s"

section \<open>The \<^verbatim>\<open>path\<close> module (POSIX flavour)\<close>

text \<open>
  The source imports Node's \<^verbatim>\<open>path\<close> and uses \<^verbatim>\<open>join\<close>, \<^verbatim>\<open>dirname\<close>,
  \<^verbatim>\<open>basename\<close> and \<^verbatim>\<open>extname\<close>. They are modelled after \<^verbatim>\<open>path.posix\<close>:
  a path is cut at \<^verbatim>\<open>/\<close>, empty and \<^verbatim>\<open>.\<close> segments are dropped, and \<^verbatim>\<open>..\<close>
  removes the segment before it (or is kept, for a relative path with nothing to remove).
\<close>

definition slash :: char where
  "slash = CHR ''/''"

fun split_slash :: "string \<Rightarrow> string list" where
  "split_slash [] = [[]]"
| "split_slash (c # cs) =
     (if c = slash then [] # split_slash cs
      else (case split_slash cs of [] \<Rightarrow> [[c]] | s # ss \<Rightarrow> (c # s) # ss))"

fun normalize_segments :: "bool \<Rightarrow> string list \<Rightarrow> string list \<Rightarrow> string list" where
  "normalize_segments allowAboveRoot acc [] = rev acc"
| "normalize_segments allowAboveRoot acc (s # ss) =
     (if s = [] \<or> s = ''.'' then normalize_segments allowAboveRoot acc ss
      else if s = ''..'' then
        (case acc of
           [] \<Rightarrow> normalize_segments allowAboveRoot (if allowAboveRoot then [''..''] else []) ss
         | t # ts \<Rightarrow>
             if t = ''..''
             then normalize_segments allowAboveRoot (if allowAboveRoot then ''..'' # acc else acc) ss
             else normalize_segments allowAboveRoot ts ss)
      else normalize_segments allowAboveRoot (s # acc) ss)"

definition normalizeString :: "string \<Rightarrow> bool \<Rightarrow> string" where
  "normalizeString p allowAboveRoot =
     join_with ''/'' (normalize_segments allowAboveRoot [] (split_slash p))"

definition path_normalize :: "path \<Rightarrow> path" where
  "path_normalize p =
     (if p = [] then ''.''
      else
        let isAbsolute = (hd p = slash);
            trailingSeparator = (last p = slash);
            q = normalizeString p (\<not> isAbsolute)
        in if q = [] then (if isAbsolute then ''/'' else if trailingSeparator then ''./'' else ''.'')
           else (if isAbsolute then ''/'' else []) @ q @ (if trailingSeparator then ''/'' else []))"

text \<open>\<^verbatim>\<open>path.isAbsolute\<close>\<close>

definition path_isAbsolute :: "path \<Rightarrow> bool" where
  "path_isAbsolute p = (case p of [] \<Rightarrow> False | c # _ \<Rightarrow> c = slash)"

text \<open>\<^verbatim>\<open>path.join(a, b)\<close>: the non-empty arguments joined by \<^verbatim>\<open>/\<close>, then normalised.\<close>

definition path_join :: "path \<Rightarrow> path \<Rightarrow> path" where
  "path_join a b =
     (if a = [] \<and> b = [] then ''.''
      else if a = [] then path_normalize b
      else if b = [] then path_normalize a
      else path_normalize (a @ ''/'' @ b))"

text \<open>
  \<^verbatim>\<open>path.dirname\<close>: scanning from the end down to index 1, trailing slashes are skipped
  and the path is cut at the last slash that follows a segment.
\<close>

definition path_dirname :: "path \<Rightarrow> path" where
  "path_dirname p =
     (if p = [] then ''.''
      else
        let hasRoot = (hd p = slash);
            r = dropWhile (\<lambda>c. c \<noteq> slash) (dropWhile (\<lambda>c. c = slash) (rev (tl p)))
        in if r = [] then (if hasRoot then ''/'' else ''.'')
           else if hasRoot \<and> length r = 1 then ''//''
           else take (length r) p)"

text \<open>\<^verbatim>\<open>path.basename\<close> (no suffix argument): the last segment, trailing slashes ignored.\<close>

definition path_basename :: "path \<Rightarrow> path" where
  "path_basename p = rev (takeWhile (\<lambda>c. c \<noteq> slash) (dropWhile (\<lambda>c. c = slash) (rev p)))"

text \<open>
  \<^verbatim>\<open>path.extname\<close>: from the last dot of the base name to its end; empty when there is
  no dot, when the only dot is the first character, or when the base name is \<^verbatim>\<open>..\<close>.
\<close>

definition path_extname :: "path \<Rightarrow> string" where
  "path_extname p =
     (let b = path_basename p;
          e = rev (takeWhile (\<lambda>c. c \<noteq> CHR ''.'') (rev b))
      in if CHR ''.'' \<notin> set b then []
         else if length b = Suc (length e) then []
         else if b = ''..'' then []
         else CHR ''.'' # e)"

section \<open>Message texts\<close>

abbreviation nl :: string where
  "nl \<equiv> [CHR 0x0A]"

abbreviation dq :: string where
  "dq \<equiv> [CHR 0x22]"

abbreviation sq :: string where
  "sq \<equiv> [CHR 0x27]"

text \<open>The pictographs of the message texts, as the bytes of the source file.\<close>

definition glyph_check :: string where
  "glyph_check = [CHR 0xE2, CHR 0x80, CHR 0x9A, CHR 0xC3, CHR 0xBA, CHR 0xC3, CHR 0x96]"

definition glyph_art :: string where
  "glyph_art = [CHR 0xEF, CHR 0xA3, CHR 0xBF, CHR 0xC3, CHR 0xBC, CHR 0xC3, CHR 0xA9, CHR 0xC2, CHR 0xAE]"

definition glyph_folder :: string where
  "glyph_folder = [CHR 0xEF, CHR 0xA3, CHR 0xBF, CHR 0xC3, CHR 0xBC, CHR 0xC3, CHR 0xAC, CHR 0xC3, CHR 0x85]"

definition glyph_bulb :: string where
  "glyph_bulb = [CHR 0xEF, CHR 0xA3, CHR 0xBF, CHR 0xC3, CHR 0xBC, CHR 0xC3, CHR 0xAD, CHR 0xC2, CHR 0xB0]"

definition glyph_cycle :: string where
  "glyph_cycle = [CHR 0xEF, CHR 0xA3, CHR 0xBF, CHR 0xC3, CHR 0xBC, CHR 0xC3, CHR 0xAE, CHR 0xC3, CHR 0x91]"

definition glyph_clipboard :: string where
  "glyph_clipboard = [CHR 0xEF, CHR 0xA3, CHR 0xBF, CHR 0xC3, CHR 0xBC, CHR 0xC3, CHR 0xAC, CHR 0xC3, CHR 0xA3]"

definition glyph_pin :: string where
  "glyph_pin = [CHR 0xEF, CHR 0xA3, CHR 0xBF, CHR 0xC3, CHR 0xBC, CHR 0xC3, CHR 0xAC, CHR 0xC3, CHR 0xA7]"

definition glyph_cross :: string where
  "glyph_cross = [CHR 0xE2, CHR 0x80, CHR 0x9A, CHR 0xC3, CHR 0xB9, CHR 0xC3, CHR 0xA5]"

definition glyph_memo :: string where
  "glyph_memo = [CHR 0xEF, CHR 0xA3, CHR 0xBF, CHR 0xC3, CHR 0xBC, CHR 0xC3, CHR 0xAC, CHR 0xC3, CHR 0xB9]"

definition glyph_first :: string where
  "glyph_first = [CHR 0xEF, CHR 0xA3, CHR 0xBF, CHR 0xC3, CHR 0xBC, CHR 0xE2, CHR 0x80, CHR 0xA2, CHR 0xC3, CHR 0xA1]"

definition glyph_second :: string where
  "glyph_second = [CHR 0xEF, CHR 0xA3, CHR 0xBF, CHR 0xC3, CHR 0xBC, CHR 0xE2, CHR 0x80, CHR 0xA2, CHR 0xC3, CHR 0xA0]"

definition glyph_camera :: string where
  "glyph_camera = [CHR 0xEF, CHR 0xA3, CHR 0xBF, CHR 0xC3, CHR 0xBC, CHR 0xC3, CHR 0xAC, CHR 0xE2, CHR 0x88, CHR 0x91]"

section \<open>Data model\<close>

text \<open>\<^verbatim>\<open>ConfigSchema\<close> and the type \<^verbatim>\<open>Config\<close> inferred from it.\<close>

record Config =
  geminiApiKey :: string
  workplacePath :: "string option"

datatype config_source = environment | config_file | not_configured

text \<open>The members of the protocol's \<^verbatim>\<open>ErrorCode\<close> that the server uses.\<close>

datatype ErrorCode = InvalidRequest | MethodNotFound | InvalidParams | InternalError

text \<open>
  What a tool can throw: a protocol error (the code and the message given to the
  constructor of \<^verbatim>\<open>McpError\<close>) or another error (its message).
\<close>

datatype exn = McpError ErrorCode string | JsError string

text \<open>The fields of the class. The generative client is represented by the key it was built with.\<close>

record server =
  genAI :: "string option"
  config :: "Config option"
  lastImagePath :: "string option"
  configSource :: config_source

text \<open>
  A tool call: the tool's name and the argument object. The object itself and each of its
  keys may be missing; a value that is there has the type the source casts it to.
\<close>

record tool_arguments =
  apiKey :: "string option"
  prompt :: "string option"
  imagePath :: "string option"
  relative_save_path :: "string option"
  referenceImages :: "string list option"

record CallToolRequest =
  params_name :: string
  params_arguments :: "tool_arguments option"

datatype content_item = TextContent string | ImageContent string string

type_synonym CallToolResult = "content_item list"

text \<open>
  The \<^verbatim>\<open>contents\<close> handed to the generative service (the model name, a constant, is left
  out), and its response.
\<close>

datatype request_part = InlineDataPart string string | TextPart "string option"

datatype contents = PromptContents "string option" | PartsContents "request_part list"

record inline_data =
  inline_data :: "string option"
  inline_mimeType :: "string option"

record response_part =
  part_text :: "string option"
  part_inlineData :: "inline_data option"

record Content =
  content_parts :: "response_part list option"

record Candidate =
  candidate_content :: "Content option"

record GenerateContentResponse =
  candidates :: "Candidate list option"

section \<open>The environment\<close>

text \<open>
  What the process is given and cannot decide: its working directory and environment
  variables, the base64 codec of \<^verbatim>\<open>Buffer\<close>, the generative service (the answer to the
  \<open>n\<close>-th request, or the message of the error it throws), the clock and the random
  generator (the \<open>n\<close>-th reading), the failures of the filesystem calls (the message of the
  error thrown, if any) and the modification time \<^verbatim>\<open>stat\<close> reports.
\<close>

record env =
  cwd :: path
  env_GEMINI_API_KEY :: "string option"
  env_WORKPLACE_PATH :: "string option"
  base64_decode :: "string \<Rightarrow> bytes"
  base64_encode :: "bytes \<Rightarrow> string"
  generateContent :: "nat \<Rightarrow> string \<Rightarrow> contents \<Rightarrow> string + GenerateContentResponse"
  toISOString :: "nat \<Rightarrow> string"
  random_base36 :: "nat \<Rightarrow> string"
  readFile_fails :: "path \<Rightarrow> string option"
  mkdir_fails :: "path \<Rightarrow> string option"
  writeFile_fails :: "path \<Rightarrow> bytes \<Rightarrow> string option"
  mtime_toLocaleString :: "path \<Rightarrow> string"

text \<open>
  What the process changes outside itself: the files, the log of the mutating filesystem
  calls, the requests sent to the generative service (with the key of the client that sent
  them), and how often the clock has been read.
\<close>

datatype fs_event = Mkdir path | WriteFile path bytes

record world =
  files :: "path \<rightharpoonup> bytes"
  fs_log :: "fs_event list"
  sent :: "(string \<times> contents) list"
  clock_reads :: nat

type_synonym state = "server \<times> world"

type_synonym 'a outcome = "(exn + 'a) \<times> state"

section \<open>Filesystem calls\<close>

definition fs_readFile :: "env \<Rightarrow> string option \<Rightarrow> world \<Rightarrow> string + bytes" where
  "fs_readFile E p w =
     (case p of
        None \<Rightarrow> Inl (''The '' @ dq @ ''path'' @ dq @
                    '' argument must be of type string or an instance of Buffer or URL. Received undefined'')
      | Some f \<Rightarrow>
          (case readFile_fails E f of
             Some m \<Rightarrow> Inl m
           | None \<Rightarrow>
               (case files w f of
                  None \<Rightarrow> Inl (''ENOENT: no such file or directory, open '' @ sq @ f @ sq)
                | Some b \<Rightarrow> Inr b)))"

definition fs_mkdir :: "env \<Rightarrow> path \<Rightarrow> world \<Rightarrow> string + world" where
  "fs_mkdir E d w =
     (case mkdir_fails E d of
        Some m \<Rightarrow> Inl m
      | None \<Rightarrow> Inr (w\<lparr>fs_log := fs_log w @ [Mkdir d]\<rparr>))"

definition fs_writeFile :: "env \<Rightarrow> path \<Rightarrow> bytes \<Rightarrow> world \<Rightarrow> string + world" where
  "fs_writeFile E f b w =
     (case writeFile_fails E f b of
        Some m \<Rightarrow> Inl m
      | None \<Rightarrow> Inr (w\<lparr>files := (files w)(f \<mapsto> b), fs_log := fs_log w @ [WriteFile f b]\<rparr>))"

text \<open>\<^verbatim>\<open>fs.access\<close> followed by \<^verbatim>\<open>fs.stat\<close>: the size of the file, if it exists.\<close>

definition fs_stat_size :: "path \<Rightarrow> world \<Rightarrow> nat option" where
  "fs_stat_size f w = (case files w f of None \<Rightarrow> None | Some b \<Rightarrow> Some (length b))"

section \<open>Configuration\<close>

text \<open>
  \<^verbatim>\<open>ConfigSchema.parse\<close>: the key must be a string of length at least 1; a missing key
  is reported by the schema library as \<^verbatim>\<open>Required\<close>. The workplace path is optional.
  A failure is a \<^verbatim>\<open>ZodError\<close>, given here by the message of its first issue.
\<close>

definition ConfigSchema_parse :: "string option \<Rightarrow> string option \<Rightarrow> string + Config" where
  "ConfigSchema_parse k wp =
     (case k of
        None \<Rightarrow> Inl ''Required''
      | Some a \<Rightarrow>
          if a = [] then Inl ''Gemini API key is required''
          else Inr \<lparr>geminiApiKey = a, workplacePath = wp\<rparr>)"

text \<open>\<^verbatim>\<open>this.config?.workplacePath\<close>\<close>

definition config_workplacePath :: "server \<Rightarrow> string option" where
  "config_workplacePath s = (case config s of None \<Rightarrow> None | Some c \<Rightarrow> workplacePath c)"

text \<open>Destructuring an argument object that is \<^verbatim>\<open>undefined\<close> throws a \<^verbatim>\<open>TypeError\<close>.\<close>

definition cannot_destructure :: "string \<Rightarrow> exn" where
  "cannot_destructure property =
     JsError (''Cannot destructure property '' @ sq @ property @ sq @ '' of '' @ sq @
              ''request.params.arguments'' @ sq @ '' as it is undefined.'')"

definition configured_text :: string where
  "configured_text = glyph_check @
     '' Gemini API token configured successfully! You can now use nano-banana image generation features.''"

definition configureGeminiToken :: "CallToolRequest \<Rightarrow> state \<Rightarrow> CallToolResult outcome" where
  "configureGeminiToken request st =
     (case st of (s, w) \<Rightarrow>
        (case params_arguments request of
           None \<Rightarrow> (Inl (cannot_destructure ''apiKey''), s, w)
         | Some a \<Rightarrow>
             (case ConfigSchema_parse (apiKey a) (config_workplacePath s) of
                Inl m \<Rightarrow> (Inl (McpError InvalidParams (''Invalid API key: '' @ m)), s, w)
              | Inr c \<Rightarrow>
                  (Inr [TextContent configured_text],
                   s\<lparr>config := Some c, genAI := Some (geminiApiKey c), configSource := config_file\<rparr>,
                   w))))"

definition ensureConfigured :: "server \<Rightarrow> bool" where
  "ensureConfigured s = (config s \<noteq> None \<and> genAI s \<noteq> None)"

definition loadConfig :: "env \<Rightarrow> server \<Rightarrow> server" where
  "loadConfig E s =
     (if truthy (env_GEMINI_API_KEY E) then
        (case ConfigSchema_parse (env_GEMINI_API_KEY E) (env_WORKPLACE_PATH E) of
           Inr c \<Rightarrow> s\<lparr>config := Some c, genAI := Some (geminiApiKey c), configSource := environment\<rparr>
         | Inl e \<Rightarrow> s\<lparr>configSource := not_configured\<rparr>)
      else s\<lparr>configSource := not_configured\<rparr>)"

text \<open>The fields of a new instance.\<close>

definition new_server :: server where
  "new_server = \<lparr>genAI = None, config = None, lastImagePath = None, configSource = not_configured\<rparr>"

section \<open>Where and under which name an image is saved\<close>

text \<open>\<^verbatim>\<open>this.config?.workplacePath || process.cwd()\<close>\<close>

definition workplaceDir :: "env \<Rightarrow> server \<Rightarrow> path" where
  "workplaceDir E s =
     (case config_workplacePath s of
        None \<Rightarrow> cwd E
      | Some p \<Rightarrow> if p = [] then cwd E else p)"

definition imagesDir :: "env \<Rightarrow> server \<Rightarrow> string option \<Rightarrow> path" where
  "imagesDir E s rsp =
     (case rsp of
        None \<Rightarrow> workplaceDir E s
      | Some r \<Rightarrow> if r = [] then workplaceDir E s else path_join (workplaceDir E s) (path_dirname r))"

text \<open>\<^verbatim>\<open>.replace(/[:.]/g, '-')\<close> and \<^verbatim>\<open>.substring(2, 8)\<close>\<close>

definition replace_colon_period :: "string \<Rightarrow> string" where
  "replace_colon_period t = map (\<lambda>c. if c = CHR '':'' \<or> c = CHR ''.'' then CHR ''-'' else c) t"

definition substring_2_8 :: "string \<Rightarrow> string" where
  "substring_2_8 t = take 6 (drop 2 t)"

definition timestamped_name :: "env \<Rightarrow> string \<Rightarrow> nat \<Rightarrow> string" where
  "timestamped_name E prefix n =
     prefix @ replace_colon_period (toISOString E n) @ ''-'' @ substring_2_8 (random_base36 E n) @ ''.png''"

text \<open>
  The choice of \<^verbatim>\<open>fileName\<close>, made for each image part: the base name of the save path if
  that is truthy, a fresh name otherwise (which reads the clock).
\<close>

definition choose_fileName :: "env \<Rightarrow> string \<Rightarrow> string option \<Rightarrow> world \<Rightarrow> string \<times> world" where
  "choose_fileName E prefix rsp w =
     (if truthy rsp then (path_basename (js_string rsp), w)
      else (timestamped_name E prefix (clock_reads w), w\<lparr>clock_reads := Suc (clock_reads w)\<rparr>))"

definition getMimeType :: "path \<Rightarrow> string" where
  "getMimeType filePath =
     (let ext = toLowerCase (path_extname filePath)
      in if ext = ''.jpg'' \<or> ext = ''.jpeg'' then ''image/jpeg''
         else if ext = ''.png'' then ''image/png''
         else if ext = ''.webp'' then ''image/webp''
         else ''image/jpeg'')"

text \<open>\<^verbatim>\<open>part.inlineData.mimeType || 'image/png'\<close>\<close>

definition mimeType_or_png :: "inline_data \<Rightarrow> string" where
  "mimeType_or_png d = (if truthy (inline_mimeType d) then js_string (inline_mimeType d) else ''image/png'')"

section \<open>Reading the response\<close>

text \<open>\<^verbatim>\<open>response.candidates && response.candidates[0]?.content?.parts\<close>\<close>

definition response_parts :: "GenerateContentResponse \<Rightarrow> response_part list option" where
  "response_parts r =
     (case candidates r of
        None \<Rightarrow> None
      | Some cs \<Rightarrow>
          (case cs of
             [] \<Rightarrow> None
           | c # _ \<Rightarrow> (case candidate_content c of None \<Rightarrow> None | Some ct \<Rightarrow> content_parts ct)))"

text \<open>The local variables of the two image tools while the response is read.\<close>

record locals =
  content :: "content_item list"
  savedFiles :: "path list"
  textContent :: string

definition no_locals :: locals where
  "no_locals = \<lparr>content = [], savedFiles = [], textContent = []\<rparr>"

definition add_text :: "response_part \<Rightarrow> locals \<Rightarrow> locals" where
  "add_text p l =
     (if truthy (part_text p) then l\<lparr>textContent := textContent l @ js_string (part_text p)\<rparr> else l)"

text \<open>
  Writing one image: the file is written, its path is pushed on \<^verbatim>\<open>savedFiles\<close> and stored
  in \<^verbatim>\<open>lastImagePath\<close>, and the image is pushed on \<^verbatim>\<open>content\<close>. A failing write throws.
\<close>

definition save_image ::
  "env \<Rightarrow> path \<Rightarrow> string \<Rightarrow> inline_data \<Rightarrow> locals \<Rightarrow> state \<Rightarrow> (string + locals) \<times> state" where
  "save_image E filePath dat d l st =
     (case st of (s, w) \<Rightarrow>
        (case fs_writeFile E filePath (base64_decode E dat) w of
           Inl m \<Rightarrow> (Inl m, s, w)
         | Inr w' \<Rightarrow>
             (Inr (l\<lparr>savedFiles := savedFiles l @ [filePath],
                     content := content l @ [ImageContent dat (mimeType_or_png d)]\<rparr>),
              s\<lparr>lastImagePath := Some filePath\<rparr>, w')))"

text \<open>The body of the loop of \<^verbatim>\<open>generateImage\<close> over the parts of the response.\<close>

definition generate_part ::
  "env \<Rightarrow> path \<Rightarrow> string option \<Rightarrow> response_part \<Rightarrow> locals \<Rightarrow> state \<Rightarrow> (string + locals) \<times> state" where
  "generate_part E dir rsp p l st =
     (case st of (s, w) \<Rightarrow>
        (case part_inlineData p of
           None \<Rightarrow> (Inr (add_text p l), s, w)
         | Some d \<Rightarrow>
             if truthy (inline_data d) then
               (case choose_fileName E ''generated-'' rsp w of
                  (fileName, w1) \<Rightarrow>
                    save_image E (path_join dir fileName) (js_string (inline_data d)) d (add_text p l) (s, w1))
             else (Inr (add_text p l), s, w)))"

fun generate_parts ::
  "env \<Rightarrow> path \<Rightarrow> string option \<Rightarrow> response_part list \<Rightarrow> locals \<Rightarrow> state \<Rightarrow> (string + locals) \<times> state" where
  "generate_parts E dir rsp [] l st = (Inr l, st)"
| "generate_parts E dir rsp (p # ps) l st =
     (case generate_part E dir rsp p l st of
        (Inl m, st') \<Rightarrow> (Inl m, st')
      | (Inr l', st') \<Rightarrow> generate_parts E dir rsp ps l' st')"

text \<open>
  The body of the loop of \<^verbatim>\<open>editImage\<close>: the file name is chosen for every part that has
  \<^verbatim>\<open>inlineData\<close>, the image is written only if its data is truthy.
\<close>

definition edit_part ::
  "env \<Rightarrow> path \<Rightarrow> string option \<Rightarrow> response_part \<Rightarrow> locals \<Rightarrow> state \<Rightarrow> (string + locals) \<times> state" where
  "edit_part E dir rsp p l st =
     (case st of (s, w) \<Rightarrow>
        (case part_inlineData p of
           None \<Rightarrow> (Inr (add_text p l), s, w)
         | Some d \<Rightarrow>
             (case choose_fileName E ''edited-'' rsp w of
                (fileName, w1) \<Rightarrow>
                  if truthy (inline_data d) then
                    save_image E (path_join dir fileName) (js_string (inline_data d)) d (add_text p l) (s, w1)
                  else (Inr (add_text p l), s, w1))))"

fun edit_parts ::
  "env \<Rightarrow> path \<Rightarrow> string option \<Rightarrow> response_part list \<Rightarrow> locals \<Rightarrow> state \<Rightarrow> (string + locals) \<times> state" where
  "edit_parts E dir rsp [] l st = (Inr l, st)"
| "edit_parts E dir rsp (p # ps) l st =
     (case edit_part E dir rsp p l st of
        (Inl m, st') \<Rightarrow> (Inl m, st')
      | (Inr l', st') \<Rightarrow> edit_parts E dir rsp ps l' st')"

section \<open>\<^verbatim>\<open>generate_image\<close>\<close>

definition not_configured_error :: exn where
  "not_configured_error =
     McpError InvalidRequest ''Gemini API token not configured. Use configure_gemini_token first.''"

text \<open>Calling a method of the client when \<^verbatim>\<open>this.genAI\<close> is \<^verbatim>\<open>null\<close>.\<close>

definition null_client_message :: string where
  "null_client_message = ''Cannot read properties of null (reading '' @ sq @ ''models'' @ sq @ '')''"

text \<open>\<^verbatim>\<open>savedFiles.map((f) => `- ${f}`).join('\n')\<close>\<close>

definition bullet_list :: "string list \<Rightarrow> string" where
  "bullet_list fs = join_with nl (map (\<lambda>f. ''- '' @ f) fs)"

definition generated_saved_text :: "path list \<Rightarrow> string" where
  "generated_saved_text fs =
     nl @ nl @ glyph_folder @ '' Image saved to:'' @ nl @ bullet_list fs @
     nl @ nl @ glyph_bulb @ '' View the image by:'' @
     nl @ ''1. Opening the file at the path above'' @
     nl @ ''2. Clicking on '' @ dq @ ''Called generate_image'' @ dq @
       '' in Cursor to expand the MCP call details'' @
     nl @ nl @ glyph_cycle @ '' To modify this image, use: continue_editing'' @
     nl @ glyph_clipboard @ '' To check current image info, use: get_last_image_info''"

definition no_image_generated_text :: string where
  "no_image_generated_text =
     nl @ nl @ ''Note: No image was generated. The model may have returned only text.'' @
     nl @ nl @ glyph_bulb @
       '' Tip: Try running the command again - sometimes the first call needs to warm up the model.''"

definition generate_headline :: "string option \<Rightarrow> string" where
  "generate_headline prompt_arg =
     glyph_art @ '' Image generated with nano-banana (Gemini 2.5 Flash Image)!'' @ nl @ nl @
       ''Prompt: '' @ dq @ js_string prompt_arg @ dq"

definition description_text :: "string \<Rightarrow> string" where
  "description_text t = (if t \<noteq> [] then nl @ nl @ ''Description: '' @ t else [])"

definition generate_statusText :: "string option \<Rightarrow> locals \<Rightarrow> string" where
  "generate_statusText prompt_arg l =
     generate_headline prompt_arg @
     description_text (textContent l) @
     (if length (savedFiles l) > 0 then generated_saved_text (savedFiles l)
      else no_image_generated_text)"

text \<open>
  The \<^verbatim>\<open>try\<close> block of \<^verbatim>\<open>generateImage\<close>: the request is sent, the save directory is
  created, the parts are read, and the status text is put in front of the images.
  A thrown error leaves with its message.
\<close>

definition generate_try :: "env \<Rightarrow> tool_arguments \<Rightarrow> state \<Rightarrow> (string + CallToolResult) \<times> state" where
  "generate_try E a st =
     (case st of (s, w) \<Rightarrow>
        (case genAI s of
           None \<Rightarrow> (Inl null_client_message, s, w)
         | Some key \<Rightarrow>
             (let w1 = w\<lparr>sent := sent w @ [(key, PromptContents (prompt a))]\<rparr>
              in case generateContent E (length (sent w)) key (PromptContents (prompt a)) of
                   Inl m \<Rightarrow> (Inl m, s, w1)
                 | Inr response \<Rightarrow>
                     (case fs_mkdir E (imagesDir E s (relative_save_path a)) w1 of
                        Inl m \<Rightarrow> (Inl m, s, w1)
                      | Inr w2 \<Rightarrow>
                          (case generate_parts E (imagesDir E s (relative_save_path a))
                                  (relative_save_path a)
                                  (case response_parts response of None \<Rightarrow> [] | Some ps \<Rightarrow> ps)
                                  no_locals (s, w2) of
                             (Inl m, st') \<Rightarrow> (Inl m, st')
                           | (Inr l, st') \<Rightarrow>
                               (Inr (TextContent (generate_statusText (prompt a) l) # content l), st'))))))"

definition generateImage :: "env \<Rightarrow> CallToolRequest \<Rightarrow> state \<Rightarrow> CallToolResult outcome" where
  "generateImage E request st =
     (case st of (s, w) \<Rightarrow>
        if \<not> ensureConfigured s then (Inl not_configured_error, s, w)
        else
          (case params_arguments request of
             None \<Rightarrow> (Inl (cannot_destructure ''prompt''), s, w)
           | Some a \<Rightarrow>
               (case generate_try E a (s, w) of
                  (Inl m, st') \<Rightarrow> (Inl (McpError InternalError (''Failed to generate image: '' @ m)), st')
                | (Inr r, st') \<Rightarrow> (Inr r, st'))))"

section \<open>\<^verbatim>\<open>edit_image\<close>\<close>

text \<open>
  The loop over \<^verbatim>\<open>referenceImages\<close>: a reference that is read is pushed on
  \<^verbatim>\<open>imageParts\<close>, one that fails to read is passed over.
\<close>

fun add_reference_images :: "env \<Rightarrow> world \<Rightarrow> path list \<Rightarrow> request_part list \<Rightarrow> request_part list" where
  "add_reference_images E w [] imageParts = imageParts"
| "add_reference_images E w (refPath # refs) imageParts =
     (case fs_readFile E (Some refPath) w of
        Inl m \<Rightarrow> add_reference_images E w refs imageParts
      | Inr refBuffer \<Rightarrow>
          add_reference_images E w refs
            (imageParts @ [InlineDataPart (base64_encode E refBuffer) (getMimeType refPath)]))"

text \<open>The parts sent for an edit whose main image has been read.\<close>

definition edit_imageParts ::
  "env \<Rightarrow> world \<Rightarrow> path \<Rightarrow> bytes \<Rightarrow> string list option \<Rightarrow> string option \<Rightarrow> request_part list" where
  "edit_imageParts E w main imageBuffer refs prompt_arg =
     add_reference_images E w (case refs of None \<Rightarrow> [] | Some rs \<Rightarrow> rs)
       [InlineDataPart (base64_encode E imageBuffer) (getMimeType main)]
     @ [TextPart prompt_arg]"

definition edited_saved_text :: "path list \<Rightarrow> string" where
  "edited_saved_text fs =
     nl @ nl @ glyph_folder @ '' Edited image saved to:'' @ nl @ bullet_list fs @
     nl @ nl @ glyph_bulb @ '' View the edited image by:'' @
     nl @ ''1. Opening the file at the path above'' @
     nl @ ''2. Clicking on '' @ dq @ ''Called edit_image'' @ dq @
       '' in Cursor to expand the MCP call details'' @
     nl @ nl @ glyph_cycle @ '' To continue editing, use: continue_editing'' @
     nl @ glyph_clipboard @ '' To check current image info, use: get_last_image_info''"

definition no_image_edited_text :: string where
  "no_image_edited_text =
     nl @ nl @ ''Note: No edited image was generated.'' @
     nl @ nl @ glyph_bulb @
       '' Tip: Try running the command again - sometimes the first call needs to warm up the model.''"

definition edit_headline :: "tool_arguments \<Rightarrow> string" where
  "edit_headline a =
     glyph_art @ '' Image edited with nano-banana!'' @ nl @ nl @
       ''Original: '' @ js_string (imagePath a) @ nl @
       ''Edit prompt: '' @ dq @ js_string (prompt a) @ dq @
     (case referenceImages a of
        None \<Rightarrow> []
      | Some rs \<Rightarrow>
          if length rs > 0 then nl @ nl @ ''Reference images used:'' @ nl @ bullet_list rs else [])"

definition edit_statusText :: "tool_arguments \<Rightarrow> locals \<Rightarrow> string" where
  "edit_statusText a l =
     edit_headline a @
     description_text (textContent l) @
     (if length (savedFiles l) > 0 then edited_saved_text (savedFiles l)
      else no_image_edited_text)"

definition edit_try :: "env \<Rightarrow> tool_arguments \<Rightarrow> state \<Rightarrow> (string + CallToolResult) \<times> state" where
  "edit_try E a st =
     (case st of (s, w) \<Rightarrow>
        (case fs_readFile E (imagePath a) w of
           Inl m \<Rightarrow> (Inl m, s, w)
         | Inr imageBuffer \<Rightarrow>
             (let imageParts =
                    edit_imageParts E w (js_string (imagePath a)) imageBuffer (referenceImages a) (prompt a)
              in case genAI s of
                   None \<Rightarrow> (Inl null_client_message, s, w)
                 | Some key \<Rightarrow>
                     (let w1 = w\<lparr>sent := sent w @ [(key, PartsContents imageParts)]\<rparr>
                      in case generateContent E (length (sent w)) key (PartsContents imageParts) of
                           Inl m \<Rightarrow> (Inl m, s, w1)
                         | Inr response \<Rightarrow>
                             (case fs_mkdir E (imagesDir E s (relative_save_path a)) w1 of
                                Inl m \<Rightarrow> (Inl m, s, w1)
                              | Inr w2 \<Rightarrow>
                                  (case edit_parts E (imagesDir E s (relative_save_path a))
                                          (relative_save_path a)
                                          (case response_parts response of None \<Rightarrow> [] | Some ps \<Rightarrow> ps)
                                          no_locals (s, w2) of
                                     (Inl m, st') \<Rightarrow> (Inl m, st')
                                   | (Inr l, st') \<Rightarrow>
                                       (Inr (TextContent (edit_statusText a l) # content l), st')))))))"

definition editImage :: "env \<Rightarrow> CallToolRequest \<Rightarrow> state \<Rightarrow> CallToolResult outcome" where
  "editImage E request st =
     (case st of (s, w) \<Rightarrow>
        if \<not> ensureConfigured s then (Inl not_configured_error, s, w)
        else
          (case params_arguments request of
             None \<Rightarrow> (Inl (cannot_destructure ''imagePath''), s, w)
           | Some a \<Rightarrow>
               (case edit_try E a (s, w) of
                  (Inl m, st') \<Rightarrow> (Inl (McpError InternalError (''Failed to edit image: '' @ m)), st')
                | (Inr r, st') \<Rightarrow> (Inr r, st'))))"

section \<open>The status queries\<close>

definition environment_source_text :: string where
  "environment_source_text =
     nl @ glyph_pin @ '' Source: Environment variable (GEMINI_API_KEY)'' @
     nl @ glyph_bulb @ '' This is the most secure configuration method.''"

definition config_file_source_text :: string where
  "config_file_source_text =
     nl @ glyph_pin @ '' Source: Local configuration file (.nano-banana-config.json)'' @
     nl @ glyph_bulb @ '' Consider using environment variables for better security.''"

definition is_configured_text :: string where
  "is_configured_text = glyph_check @ '' Gemini API token is configured and ready to use''"

definition workplace_text :: "env \<Rightarrow> server \<Rightarrow> string" where
  "workplace_text E s =
     nl @ nl @ glyph_folder @ '' Images will be saved to: '' @ workplaceDir E s @
     (if truthy (config_workplacePath s) then '' (custom workplace path)''
      else '' (current working directory)'') @
     nl @ glyph_bulb @ '' Configure workplace_path via environment variable WORKPLACE_PATH.''"

definition is_not_configured_text :: string where
  "is_not_configured_text =
     glyph_cross @ '' Gemini API token is not configured'' @
     nl @ nl @ glyph_memo @ '' Configuration options:'' @
     nl @ ''1. '' @ glyph_first @ '' Environment variables (Recommended)'' @
     nl @ ''   - GEMINI_API_KEY: Your API key (required)'' @
     nl @ ''   - WORKPLACE_PATH: Custom workplace directory (optional)'' @
     nl @ ''2. '' @ glyph_second @ '' Use configure_gemini_token tool'' @
     nl @ nl @ glyph_bulb @ '' For the most secure setup, add this to your MCP configuration:'' @
     nl @ dq @ ''env'' @ dq @ '': {'' @
     nl @ ''  '' @ dq @ ''GEMINI_API_KEY'' @ dq @ '': '' @ dq @ ''your-api-key-here'' @ dq @ '','' @
     nl @ ''  '' @ dq @ ''WORKPLACE_PATH'' @ dq @ '': '' @ dq @ ''/path/to/your/workplace'' @ dq @
     nl @ ''}''"

definition getConfigurationStatus :: "env \<Rightarrow> state \<Rightarrow> CallToolResult outcome" where
  "getConfigurationStatus E st =
     (case st of (s, w) \<Rightarrow>
        if config s \<noteq> None \<and> genAI s \<noteq> None then
          (Inr [TextContent
                  (is_configured_text @
                   (case configSource s of
                      environment \<Rightarrow> environment_source_text
                    | config_file \<Rightarrow> config_file_source_text
                    | not_configured \<Rightarrow> []) @
                   workplace_text E s)], s, w)
        else (Inr [TextContent is_not_configured_text], s, w))"

definition no_previous_image_text :: string where
  "no_previous_image_text =
     glyph_camera @ '' No previous image found.'' @ nl @ nl @
     ''Please generate or edit an image first, then this command will show information about your last image.''"

text \<open>\<^verbatim>\<open>Math.round(stats.size / 1024)\<close>\<close>

definition round_kb :: "nat \<Rightarrow> nat" where
  "round_kb n = (n + 512) div 1024"

definition last_image_text :: "env \<Rightarrow> path \<Rightarrow> nat \<Rightarrow> string" where
  "last_image_text E f n =
     glyph_camera @ '' Last Image Information:'' @ nl @ nl @
     ''Path: '' @ f @ nl @
     ''File Size: '' @ decimal (round_kb n) @ '' KB'' @ nl @
     ''Last Modified: '' @ mtime_toLocaleString E f @ nl @ nl @
     glyph_bulb @ '' Use continue_editing to make further changes to this image.''"

definition file_not_found_text :: "path \<Rightarrow> string" where
  "file_not_found_text f =
     glyph_camera @ '' Last Image Information:'' @ nl @ nl @
     ''Path: '' @ f @ nl @
     ''Status: '' @ glyph_cross @ '' File not found'' @ nl @ nl @
     glyph_bulb @ '' The image file may have been moved or deleted. Please generate a new image.''"

definition getLastImageInfo :: "env \<Rightarrow> state \<Rightarrow> CallToolResult outcome" where
  "getLastImageInfo E st =
     (case st of (s, w) \<Rightarrow>
        if \<not> truthy (lastImagePath s) then (Inr [TextContent no_previous_image_text], s, w)
        else
          (case fs_stat_size (js_string (lastImagePath s)) w of
             Some n \<Rightarrow> (Inr [TextContent (last_image_text E (js_string (lastImagePath s)) n)], s, w)
           | None \<Rightarrow> (Inr [TextContent (file_not_found_text (js_string (lastImagePath s)))], s, w)))"

section \<open>The tool-call handler\<close>

text \<open>
  The handler of \<^verbatim>\<open>CallToolRequestSchema\<close>: the call goes to the tool of that name; a
  protocol error is thrown on as it is, any other error is wrapped in an internal error.
\<close>

definition dispatch :: "env \<Rightarrow> CallToolRequest \<Rightarrow> state \<Rightarrow> CallToolResult outcome" where
  "dispatch E request st =
     (if params_name request = ''configure_gemini_token'' then configureGeminiToken request st
      else if params_name request = ''generate_image'' then generateImage E request st
      else if params_name request = ''edit_image'' then editImage E request st
      else if params_name request = ''get_configuration_status'' then getConfigurationStatus E st
      else if params_name request = ''get_last_image_info'' then getLastImageInfo E st
      else (Inl (McpError MethodNotFound (''Unknown tool: '' @ params_name request)), st))"

definition call_tool :: "env \<Rightarrow> CallToolRequest \<Rightarrow> state \<Rightarrow> CallToolResult outcome" where
  "call_tool E request st =
     (case dispatch E request st of
        (Inl (McpError c m), st') \<Rightarrow> (Inl (McpError c m), st')
      | (Inl (JsError m), st') \<Rightarrow> (Inl (McpError InternalError (''Tool execution failed: '' @ m)), st')
      | (Inr r, st') \<Rightarrow> (Inr r, st'))"

section \<open>Observing a call\<close>

text \<open>The filesystem calls a step has added to the log, and the paths written among them.\<close>

definition new_events :: "world \<Rightarrow> world \<Rightarrow> fs_event list" where
  "new_events w w' = drop (length (fs_log w)) (fs_log w')"

fun written_paths :: "fs_event list \<Rightarrow> path list" where
  "written_paths [] = []"
| "written_paths (Mkdir d # es) = written_paths es"
| "written_paths (WriteFile f b # es) = f # written_paths es"

text \<open>The image parts of a response that carry data, the entry returned for one, and the text parts.\<close>

definition image_datas :: "response_part list \<Rightarrow> inline_data list" where
  "image_datas ps =
     List.map_filter
       (\<lambda>p. case part_inlineData p of
               None \<Rightarrow> None
             | Some d \<Rightarrow>
                 (case inline_data d of
                    None \<Rightarrow> None
                  | Some x \<Rightarrow> if x = [] then None else Some d)) ps"

definition image_entry :: "inline_data \<Rightarrow> content_item" where
  "image_entry d = ImageContent (js_string (inline_data d)) (mimeType_or_png d)"

definition image_write :: "env \<Rightarrow> path \<Rightarrow> inline_data \<Rightarrow> fs_event" where
  "image_write E f d = WriteFile f (base64_decode E (js_string (inline_data d)))"

definition texts :: "response_part list \<Rightarrow> string" where
  "texts ps = concat (map (\<lambda>p. case part_text p of None \<Rightarrow> [] | Some t \<Rightarrow> t) ps)"

text \<open>The answer of the generative service to the request sent last, and its parts.\<close>

definition last_answer :: "env \<Rightarrow> world \<Rightarrow> string + GenerateContentResponse" where
  "last_answer E w =
     (case rev (sent w) of
        [] \<Rightarrow> Inl []
      | (key, c) # _ \<Rightarrow> generateContent E (length (sent w) - 1) key c)"

definition answer_parts :: "string + GenerateContentResponse \<Rightarrow> response_part list" where
  "answer_parts r =
     (case r of
        Inl m \<Rightarrow> []
      | Inr response \<Rightarrow> (case response_parts response of None \<Rightarrow> [] | Some ps \<Rightarrow> ps))"

text \<open>
  What reading the image parts \<open>ds\<close> of a response does to the server and the world, when
  the files written are \<open>fs\<close>: the writes are logged in order, one for each of the first
  images; the last of them is the file that exists under its path and is the last image
  path of the server; nothing is sent and the configuration stays. With a truthy save
  path every file has its base name; without, each file has a name made from a clock
  reading of its own.
\<close>

definition saved_as ::
  "env \<Rightarrow> path \<Rightarrow> string \<Rightarrow> string option \<Rightarrow> inline_data list \<Rightarrow> state \<Rightarrow> state \<Rightarrow> path list \<Rightarrow> bool" where
  "saved_as E dir prefix rsp ds st st' fs =
     (length fs \<le> length ds \<and>
      fs_log (snd st') = fs_log (snd st) @ map2 (image_write E) fs ds \<and>
      (fs = [] \<longrightarrow> files (snd st') = files (snd st)) \<and>
      (fs \<noteq> [] \<longrightarrow>
         files (snd st') (last fs) =
           Some (base64_decode E (js_string (inline_data (ds ! (length fs - 1)))))) \<and>
      lastImagePath (fst st') = (if fs = [] then lastImagePath (fst st) else Some (last fs)) \<and>
      sent (snd st') = sent (snd st) \<and>
      config (fst st') = config (fst st) \<and>
      genAI (fst st') = genAI (fst st) \<and>
      configSource (fst st') = configSource (fst st) \<and>
      clock_reads (snd st) \<le> clock_reads (snd st') \<and>
      (truthy rsp \<longrightarrow> (\<forall>f \<in> set fs. f = path_join dir (path_basename (js_string rsp)))) \<and>
      (\<not> truthy rsp \<longrightarrow>
         (\<exists>ks. sorted_wrt (<) ks \<and>
               (\<forall>k \<in> set ks. clock_reads (snd st) \<le> k \<and> k < clock_reads (snd st')) \<and>
               fs = map (\<lambda>k. path_join dir (timestamped_name E prefix k)) ks)))"

text \<open>What a loop that ends without an error has collected.\<close>

definition collected :: "response_part list \<Rightarrow> locals \<Rightarrow> locals \<Rightarrow> path list \<Rightarrow> bool" where
  "collected ps l l' fs =
     (length fs = length (image_datas ps) \<and>
      savedFiles l' = savedFiles l @ fs \<and>
      content l' = content l @ map image_entry (image_datas ps) \<and>
      textContent l' = textContent l @ texts ps)"

section \<open>An example run\<close>

definition example_decode :: "string \<Rightarrow> bytes" where
  "example_decode d =
     (if d = ''QUJD'' then ''ABC'' else if d = ''QUJDREVGRw=='' then ''ABCDEFG'' else [])"

definition example_encode :: "bytes \<Rightarrow> string" where
  "example_encode b =
     (if b = ''ABC'' then ''QUJD'' else if b = ''ABCDEFG'' then ''QUJDREVGRw=='' else [])"

definition small_image :: response_part where
  "small_image =
     \<lparr>part_text = None,
      part_inlineData = Some \<lparr>inline_data = Some ''QUJD'', inline_mimeType = Some ''image/png''\<rparr>\<rparr>"

definition large_image :: response_part where
  "large_image =
     \<lparr>part_text = None,
      part_inlineData = Some \<lparr>inline_data = Some ''QUJDREVGRw=='', inline_mimeType = None\<rparr>\<rparr>"

definition caption :: response_part where
  "caption = \<lparr>part_text = Some ''A red ball.'', part_inlineData = None\<rparr>"

definition response_with :: "response_part list \<Rightarrow> GenerateContentResponse" where
  "response_with ps =
     \<lparr>candidates = Some [\<lparr>candidate_content = Some \<lparr>content_parts = Some ps\<rparr>\<rparr>]\<rparr>"

text \<open>
  A service that refuses a request without a prompt, answers the prompt \<^verbatim>\<open>two balls\<close>
  with a small and a large image, the prompt \<^verbatim>\<open>describe a ball\<close> with text only, and
  anything else with a caption and a small image; and a disk on which a write of more than
  four bytes finds no space left.
\<close>

definition example_env :: env where
  "example_env =
     \<lparr>cwd = ''/home/user'',
      env_GEMINI_API_KEY = Some ''key-1'',
      env_WORKPLACE_PATH = Some ''/work'',
      base64_decode = example_decode,
      base64_encode = example_encode,
      generateContent =
        (\<lambda>n key c.
           if c = PromptContents None then Inl ''Request contains an invalid argument.''
           else if c = PromptContents (Some ''two balls'') then Inr (response_with [small_image, large_image])
           else if c = PromptContents (Some ''describe a ball'') then Inr (response_with [caption])
           else Inr (response_with [caption, small_image])),
      toISOString = (\<lambda>n. ''2025-01-01T00:00:0'' @ [digit_char (n mod 10)] @ ''.000Z''),
      random_base36 = (\<lambda>n. ''0.'' @ [digit_char (n mod 10)] @ ''k3x9fzq2''),
      readFile_fails = (\<lambda>f. None),
      mkdir_fails = (\<lambda>d. None),
      writeFile_fails =
        (\<lambda>f b. if length b > 4 then Some ''ENOSPC: no space left on device, write'' else None),
      mtime_toLocaleString = (\<lambda>f. ''1/1/2025, 12:00:00 AM'')\<rparr>"

definition example_world :: world where
  "example_world =
     \<lparr>files = [''/work/in.jpg'' \<mapsto> ''ABC'', ''/work/style.PNG'' \<mapsto> ''ABCDEFG''],
      fs_log = [],
      sent = [],
      clock_reads = 0\<rparr>"

text \<open>The server after start-up in the example environment: configured from the environment.\<close>

definition example_server :: server where
  "example_server = loadConfig example_env new_server"

definition no_arguments :: tool_arguments where
  "no_arguments =
     \<lparr>apiKey = None, prompt = None, imagePath = None, relative_save_path = None,
      referenceImages = None\<rparr>"

definition tool_call :: "string \<Rightarrow> tool_arguments \<Rightarrow> CallToolRequest" where
  "tool_call tool a = \<lparr>params_name = tool, params_arguments = Some a\<rparr>"

definition red_ball_arguments :: tool_arguments where
  "red_ball_arguments =
     no_arguments\<lparr>prompt := Some ''a red ball'', relative_save_path := Some ''out/pic.png''\<rparr>"

definition two_balls_arguments :: tool_arguments where
  "two_balls_arguments = no_arguments\<lparr>prompt := Some ''two balls''\<rparr>"

definition describe_arguments :: tool_arguments where
  "describe_arguments = no_arguments\<lparr>prompt := Some ''describe a ball''\<rparr>"

definition blue_edit_arguments :: tool_arguments where
  "blue_edit_arguments =
     no_arguments\<lparr>imagePath := Some ''/work/in.jpg'', prompt := Some ''make it blue'',
       referenceImages := Some [''/nope.png'', ''/work/style.PNG'']\<rparr>"

text \<open>A server that has saved an image before.\<close>

definition old_image_server :: server where
  "old_image_server = example_server\<lparr>lastImagePath := Some ''/work/old.png''\<rparr>"

text \<open>The same environment with a relative workplace path, and the server started in it.\<close>

definition relative_env :: env where
  "relative_env = example_env\<lparr>env_WORKPLACE_PATH := Some ''./images''\<rparr>"

definition relative_server :: server where
  "relative_server = loadConfig relative_env new_server"

text \<open>What these calls return.\<close>

definition red_ball_result :: "path \<Rightarrow> CallToolResult" where
  "red_ball_result f =
     [TextContent
        (generate_statusText (Some ''a red ball'')
           \<lparr>content = [ImageContent ''QUJD'' ''image/png''], savedFiles = [f],
            textContent = ''A red ball.''\<rparr>),
      ImageContent ''QUJD'' ''image/png'']"

definition blue_edit_result :: CallToolResult where
  "blue_edit_result =
     [TextContent
        (edit_statusText blue_edit_arguments
           \<lparr>content = [ImageContent ''QUJD'' ''image/png''],
            savedFiles = [''/work/edited-2025-01-01T00-00-00-000Z-0k3x9f.png''],
            textContent = ''A red ball.''\<rparr>),
      ImageContent ''QUJD'' ''image/png'']"

text \<open>The worlds these calls leave behind.\<close>

definition red_ball_world :: world where
  "red_ball_world =
     example_world\<lparr>files := (files example_world)(''/work/out/pic.png'' \<mapsto> ''ABC''),
       fs_log := [Mkdir ''/work/out'', WriteFile ''/work/out/pic.png'' ''ABC''],
       sent := [(''key-1'', PromptContents (Some ''a red ball''))]\<rparr>"

definition two_balls_world :: world where
  "two_balls_world =
     example_world\<lparr>files := (files example_world)
         (''/work/generated-2025-01-01T00-00-00-000Z-0k3x9f.png'' \<mapsto> ''ABC''),
       fs_log := [Mkdir ''/work'',
                  WriteFile ''/work/generated-2025-01-01T00-00-00-000Z-0k3x9f.png'' ''ABC''],
       sent := [(''key-1'', PromptContents (Some ''two balls''))],
       clock_reads := 2\<rparr>"

definition describe_world :: world where
  "describe_world =
     example_world\<lparr>fs_log := [Mkdir ''/work''],
       sent := [(''key-1'', PromptContents (Some ''describe a ball''))]\<rparr>"

definition blue_edit_world :: world where
  "blue_edit_world =
     example_world\<lparr>files := (files example_world)
         (''/work/edited-2025-01-01T00-00-00-000Z-0k3x9f.png'' \<mapsto> ''ABC''),
       fs_log := [Mkdir ''/work'',
                  WriteFile ''/work/edited-2025-01-01T00-00-00-000Z-0k3x9f.png'' ''ABC''],
       sent := [(''key-1'',
                 PartsContents
                   [InlineDataPart ''QUJD'' ''image/jpeg'',
                    InlineDataPart ''QUJDREVGRw=='' ''image/png'',
                    TextPart (Some ''make it blue'')])],
       clock_reads := 1\<rparr>"

definition relative_world :: world where
  "relative_world =
     example_world\<lparr>files := (files example_world)(''images/out/pic.png'' \<mapsto> ''ABC''),
       fs_log := [Mkdir ''images/out'', WriteFile ''images/out/pic.png'' ''ABC''],
       sent := [(''key-1'', PromptContents (Some ''a red ball''))]\<rparr>"

text \<open>The same environment with a disk that has room for every write.\<close>

definition spacious_env :: env where
  "spacious_env = example_env\<lparr>writeFile_fails := (\<lambda>f b. None)\<rparr>"

text \<open>The same environment with a workplace in which no directory can be made.\<close>

definition readonly_env :: env where
  "readonly_env =
     example_env\<lparr>mkdir_fails := (\<lambda>d. Some (''EACCES: permission denied, mkdir '' @ sq @ d @ sq))\<rparr>"

text \<open>The prompt answered with two images, with a save path.\<close>

definition two_pics_arguments :: tool_arguments where
  "two_pics_arguments =
     no_arguments\<lparr>prompt := Some ''two balls'', relative_save_path := Some ''out/pic.png''\<rparr>"

text \<open>A call that has no argument object.\<close>

definition bare_call :: "string \<Rightarrow> CallToolRequest" where
  "bare_call tool = \<lparr>params_name = tool, params_arguments = None\<rparr>"

section \<open>Dispatch\<close>

lemma dispatch_generate:
  "params_name request = ''generate_image'' \<Longrightarrow> dispatch E request st = generateImage E request st"
  by (simp add: dispatch_def)

lemma dispatch_edit:
  "params_name request = ''edit_image'' \<Longrightarrow> dispatch E request st = editImage E request st"
  by (simp add: dispatch_def)

lemma dispatch_configure:
  "params_name request = ''configure_gemini_token'' \<Longrightarrow>
   dispatch E request st = configureGeminiToken request st"
  by (simp add: dispatch_def)


lemma dispatch_info:
  "params_name request = ''get_last_image_info'' \<Longrightarrow>
   dispatch E request st = getLastImageInfo E st"
  by (simp add: dispatch_def)

section \<open>The image tools before configuration\<close>

lemma unconfigured_generate:
  "config s = None \<Longrightarrow> generateImage E request (s, w) = (Inl not_configured_error, s, w)"
  by (simp add: generateImage_def ensureConfigured_def)

lemma unconfigured_edit:
  "config s = None \<Longrightarrow> editImage E request (s, w) = (Inl not_configured_error, s, w)"
  by (simp add: editImage_def ensureConfigured_def)

text \<open>
  Claim C1. A \<^verbatim>\<open>generate_image\<close> or \<^verbatim>\<open>edit_image\<close> call made while no configuration is
  live fails with the invalid-request error that tells the caller to use
  \<^verbatim>\<open>configure_gemini_token\<close> first, whatever its arguments are. The server and the world
  are returned as they were: no request has been sent to the generative service, no
  directory made and no file written.
\<close>

theorem not_configured_no_effect:
  assumes "config s = None"
    and "params_name request = ''generate_image'' \<or> params_name request = ''edit_image''"
  shows "call_tool E request (s, w) =
           (Inl (McpError InvalidRequest
                   ''Gemini API token not configured. Use configure_gemini_token first.''), s, w)"
  using assms
  by (auto simp: call_tool_def dispatch_generate dispatch_edit unconfigured_generate
      unconfigured_edit not_configured_error_def)

theorem not_configured_no_effect_witness:
  "config new_server = None \<and>
   call_tool example_env (tool_call ''edit_image'' (no_arguments\<lparr>imagePath := Some ''/work/in.jpg'',
       prompt := Some ''make it blue''\<rparr>)) (new_server, example_world) =
     (Inl (McpError InvalidRequest
             ''Gemini API token not configured. Use configure_gemini_token first.''),
      new_server, example_world)"
  using not_configured_no_effect [of new_server
      "tool_call ''edit_image'' (no_arguments\<lparr>imagePath := Some ''/work/in.jpg'',
         prompt := Some ''make it blue''\<rparr>)" example_env example_world]
  by (simp add: new_server_def tool_call_def)

section \<open>Setting the key\<close>

lemma configure_rejected:
  assumes "params_arguments request = Some a"
    and "ConfigSchema_parse (apiKey a) (config_workplacePath s) = Inl m"
  shows "configureGeminiToken request (s, w) =
           (Inl (McpError InvalidParams (''Invalid API key: '' @ m)), s, w)"
  using assms by (simp add: configureGeminiToken_def)

lemma configure_accepted:
  assumes "params_arguments request = Some a" and "apiKey a = Some k" and "k \<noteq> []"
  shows "configureGeminiToken request (s, w) =
           (Inr [TextContent configured_text],
            s\<lparr>config := Some \<lparr>geminiApiKey = k, workplacePath = config_workplacePath s\<rparr>,
               genAI := Some k, configSource := config_file\<rparr>, w)"
  using assms by (simp add: configureGeminiToken_def ConfigSchema_parse_def)

lemma call_tool_configure:
  "params_name request = ''configure_gemini_token'' \<Longrightarrow>
   configureGeminiToken request st = (Inr r, st') \<Longrightarrow> call_tool E request st = (Inr r, st')"
  by (simp add: call_tool_def dispatch_configure)

lemma call_tool_configure_error:
  "params_name request = ''configure_gemini_token'' \<Longrightarrow>
   configureGeminiToken request st = (Inl (McpError c m), st') \<Longrightarrow>
   call_tool E request st = (Inl (McpError c m), st')"
  by (simp add: call_tool_def dispatch_configure)

text \<open>
  Claim C3. A \<^verbatim>\<open>configure_gemini_token\<close> call whose key is the empty string fails with
  an invalid-params error, and the server (key, workplace path, client and source) and
  the world are returned as they were.
\<close>

theorem empty_key_rejected:
  assumes "params_name request = ''configure_gemini_token''"
    and "params_arguments request = Some a"
    and "apiKey a = Some []"
  shows "call_tool E request (s, w) =
           (Inl (McpError InvalidParams ''Invalid API key: Gemini API key is required''), s, w)"
proof -
  have "ConfigSchema_parse (apiKey a) (config_workplacePath s) = Inl ''Gemini API key is required''"
    using assms(3) by (simp add: ConfigSchema_parse_def)
  from configure_rejected [OF assms(2) this]
  show ?thesis
    using assms(1) by (simp add: call_tool_configure_error)
qed

theorem empty_key_rejected_witness:
  "call_tool example_env (tool_call ''configure_gemini_token'' (no_arguments\<lparr>apiKey := Some []\<rparr>))
     (example_server, example_world) =
   (Inl (McpError InvalidParams ''Invalid API key: Gemini API key is required''),
    example_server, example_world)"
  using empty_key_rejected [of "tool_call ''configure_gemini_token'' (no_arguments\<lparr>apiKey := Some []\<rparr>)"
      "no_arguments\<lparr>apiKey := Some []\<rparr>" example_env example_server example_world]
  by (simp add: tool_call_def)

text \<open>
  Claim C4. A \<^verbatim>\<open>configure_gemini_token\<close> call with a non-empty key succeeds; the new
  configuration holds that key and the workplace path of the configuration it replaces
  (none, if there was no configuration). The client is rebuilt with the key, the source
  becomes \<^verbatim>\<open>config_file\<close>, and nothing else changes.
\<close>

theorem configure_keeps_workplace:
  assumes "params_name request = ''configure_gemini_token''"
    and "params_arguments request = Some a"
    and "apiKey a = Some k"
    and "k \<noteq> []"
  shows "call_tool E request (s, w) =
           (Inr [TextContent configured_text],
            s\<lparr>config := Some \<lparr>geminiApiKey = k,
                              workplacePath = (case config s of None \<Rightarrow> None
                                               | Some c \<Rightarrow> workplacePath c)\<rparr>,
               genAI := Some k, configSource := config_file\<rparr>, w)"
  using call_tool_configure [OF assms(1) configure_accepted [OF assms(2-4)]]
  by (simp add: config_workplacePath_def)

theorem configure_keeps_workplace_witness:
  "call_tool example_env (tool_call ''configure_gemini_token'' (no_arguments\<lparr>apiKey := Some ''key-2''\<rparr>))
     (example_server, example_world) =
   (Inr [TextContent configured_text],
    \<lparr>genAI = Some ''key-2'',
     config = Some \<lparr>geminiApiKey = ''key-2'', workplacePath = Some ''/work''\<rparr>,
     lastImagePath = None, configSource = config_file\<rparr>, example_world)"
  using configure_keeps_workplace [of "tool_call ''configure_gemini_token'' (no_arguments\<lparr>apiKey := Some ''key-2''\<rparr>)"
      "no_arguments\<lparr>apiKey := Some ''key-2''\<rparr>" "''key-2''" example_env example_server example_world]
  by (simp add: tool_call_def example_server_def loadConfig_def example_env_def truthy_def
      ConfigSchema_parse_def new_server_def)

section \<open>The loops over the parts of a response\<close>

lemma image_datas_Nil [simp]: "image_datas [] = []"
  by (simp add: image_datas_def map_filter_simps)

lemma image_datas_Cons:
  "image_datas (p # ps) =
     (case part_inlineData p of
        None \<Rightarrow> image_datas ps
      | Some d \<Rightarrow> if truthy (inline_data d) then d # image_datas ps else image_datas ps)"
  by (simp add: image_datas_def map_filter_simps truthy_def split: option.splits)

lemma texts_Nil [simp]: "texts [] = []"
  by (simp add: texts_def)

lemma texts_Cons:
  "texts (p # ps) = (if truthy (part_text p) then js_string (part_text p) else []) @ texts ps"
  by (simp add: texts_def truthy_def js_string_def split: option.splits)

lemma add_text_fields [simp]:
  "savedFiles (add_text p l) = savedFiles l"
  "content (add_text p l) = content l"
  "textContent (add_text p l) =
     textContent l @ (if truthy (part_text p) then js_string (part_text p) else [])"
  by (simp_all add: add_text_def)

lemma save_image_cases:
  assumes "save_image E f dat d l (s, w) = (res, s', w')"
  obtains (fails) m where "res = Inl m" "s' = s" "w' = w"
  | (written) "res = Inr (l\<lparr>savedFiles := savedFiles l @ [f],
                            content := content l @ [ImageContent dat (mimeType_or_png d)]\<rparr>)"
      "s' = s\<lparr>lastImagePath := Some f\<rparr>"
      "w' = w\<lparr>files := (files w)(f \<mapsto> base64_decode E dat),
               fs_log := fs_log w @ [WriteFile f (base64_decode E dat)]\<rparr>"
  using assms
  by (auto simp: save_image_def fs_writeFile_def split: option.splits)

text \<open>One turn of the loop of \<^verbatim>\<open>generateImage\<close>.\<close>

lemma generate_part_cases:
  assumes "generate_part E dir rsp p l (s, w) = (res, s', w')"
  obtains (no_image) "image_datas (p # ps) = image_datas ps" "res = Inr (add_text p l)" "s' = s" "w' = w"
  | (image) d fileName w1 where
      "image_datas (p # ps) = d # image_datas ps"
      "choose_fileName E ''generated-'' rsp w = (fileName, w1)"
      "save_image E (path_join dir fileName) (js_string (inline_data d)) d (add_text p l) (s, w1)
         = (res, s', w')"
  using assms
  by (auto simp: generate_part_def image_datas_Cons split: option.splits if_splits prod.splits)

lemma choose_fileName_cases:
  assumes "choose_fileName E prefix rsp w = (fileName, w1)"
  obtains (given) "truthy rsp" "fileName = path_basename (js_string rsp)" "w1 = w"
  | (fresh) "\<not> truthy rsp" "fileName = timestamped_name E prefix (clock_reads w)"
      "w1 = w\<lparr>clock_reads := Suc (clock_reads w)\<rparr>"
  using assms by (auto simp: choose_fileName_def split: if_splits)


lemma saved_as_none: "saved_as E dir prefix rsp ds st st []"
  by (auto simp: saved_as_def intro: exI [of _ "[]"])

lemma saved_as_tick:
  assumes "saved_as E dir prefix rsp ds (s, w\<lparr>clock_reads := Suc (clock_reads w)\<rparr>) st' fs"
  shows "saved_as E dir prefix rsp ds (s, w) st' fs"
proof -
  have "\<exists>ks. sorted_wrt (<) ks \<and>
      (\<forall>k \<in> set ks. clock_reads w \<le> k \<and> k < clock_reads (snd st')) \<and>
      fs = map (\<lambda>k. path_join dir (timestamped_name E prefix k)) ks"
    if "\<not> truthy rsp"
  proof -
    from assms that obtain ks where "sorted_wrt (<) ks"
      "\<forall>k \<in> set ks. Suc (clock_reads w) \<le> k \<and> k < clock_reads (snd st')"
      "fs = map (\<lambda>k. path_join dir (timestamped_name E prefix k)) ks"
      by (auto simp: saved_as_def)
    then show ?thesis
      by (intro exI [of _ ks]) auto
  qed
  with assms show ?thesis
    by (simp add: saved_as_def)
qed

lemma saved_as_failed:
  assumes "choose_fileName E prefix rsp w = (fileName, w1)"
  shows "saved_as E dir prefix rsp ds (s, w) (s, w1) []"
  using assms
  by (auto elim!: choose_fileName_cases intro: saved_as_none saved_as_tick)

lemma saved_as_given:
  assumes rest: "saved_as E dir prefix rsp ds
                   (s\<lparr>lastImagePath := Some f\<rparr>,
                    w\<lparr>files := (files w)(f \<mapsto> base64_decode E (js_string (inline_data d))),
                      fs_log := fs_log w @ [image_write E f d]\<rparr>) st' fs"
    and "truthy rsp" and "f = path_join dir (path_basename (js_string rsp))"
  shows "saved_as E dir prefix rsp (d # ds) (s, w) st' (f # fs)"
  using assms
  by (cases fs) (auto simp: saved_as_def)

lemma saved_as_fresh:
  assumes rest: "saved_as E dir prefix rsp ds
                   (s\<lparr>lastImagePath := Some f\<rparr>,
                    w\<lparr>clock_reads := Suc (clock_reads w),
                      files := (files w)(f \<mapsto> base64_decode E (js_string (inline_data d))),
                      fs_log := fs_log w @ [image_write E f d]\<rparr>) st' fs"
    and "\<not> truthy rsp" and "f = path_join dir (timestamped_name E prefix (clock_reads w))"
  shows "saved_as E dir prefix rsp (d # ds) (s, w) st' (f # fs)"
proof -
  from rest \<open>\<not> truthy rsp\<close> obtain ks where ks: "sorted_wrt (<) ks"
    "\<forall>k \<in> set ks. Suc (clock_reads w) \<le> k \<and> k < clock_reads (snd st')"
    "fs = map (\<lambda>k. path_join dir (timestamped_name E prefix k)) ks"
    and le: "Suc (clock_reads w) \<le> clock_reads (snd st')"
    by (auto simp: saved_as_def)
  have names: "\<exists>ks'. sorted_wrt (<) ks' \<and>
      (\<forall>k \<in> set ks'. clock_reads w \<le> k \<and> k < clock_reads (snd st')) \<and>
      f # fs = map (\<lambda>k. path_join dir (timestamped_name E prefix k)) ks'"
    using ks le assms(3)
    by (intro exI [of _ "clock_reads w # ks"]) auto
  show ?thesis
    using rest names \<open>\<not> truthy rsp\<close>
    by (cases fs) (simp_all add: saved_as_def)
qed


lemma saved_as_written:
  assumes name: "choose_fileName E prefix rsp w = (fileName, w1)"
    and rest: "saved_as E dir prefix rsp ds
                 (s\<lparr>lastImagePath := Some (path_join dir fileName)\<rparr>,
                  w1\<lparr>files := (files w1)(path_join dir fileName \<mapsto>
                                  base64_decode E (js_string (inline_data d))),
                     fs_log := fs_log w1 @
                       [WriteFile (path_join dir fileName) (base64_decode E (js_string (inline_data d)))]\<rparr>)
                 st' fs"
  shows "saved_as E dir prefix rsp (d # ds) (s, w) st' (path_join dir fileName # fs)"
  using name
proof (cases rule: choose_fileName_cases)
  case given
  with rest show ?thesis
    by (intro saved_as_given) (simp_all add: image_write_def)
next
  case fresh
  with rest show ?thesis
    by (intro saved_as_fresh) (simp_all add: image_write_def)
qed

lemma collected_none: "collected [] l l []"
  by (simp add: collected_def)

lemma collected_text:
  assumes "collected ps (add_text p l) l' fs" and "image_datas (p # ps) = image_datas ps"
  shows "collected (p # ps) l l' fs"
  using assms by (simp add: collected_def texts_Cons)

lemma collected_image:
  assumes "collected ps
             ((add_text p l)\<lparr>savedFiles := savedFiles (add_text p l) @ [f],
                content := content (add_text p l) @
                  [ImageContent (js_string (inline_data d)) (mimeType_or_png d)]\<rparr>) l' fs"
    and "image_datas (p # ps) = d # image_datas ps"
  shows "collected (p # ps) l l' (f # fs)"
  using assms by (simp add: collected_def texts_Cons image_entry_def)

lemma generate_parts_saved:
  assumes "generate_parts E dir rsp ps l (s, w) = (res, s', w')"
  shows "\<exists>fs. saved_as E dir ''generated-'' rsp (image_datas ps) (s, w) (s', w') fs \<and>
              (\<forall>l'. res = Inr l' \<longrightarrow> collected ps l l' fs) \<and>
              (\<forall>m. res = Inl m \<longrightarrow> length fs < length (image_datas ps))"
  using assms
proof (induction ps arbitrary: l s w)
  case Nil
  then show ?case
    by (auto intro: saved_as_none collected_none)
next
  case (Cons p ps)
  obtain r1 s1 w1 where step: "generate_part E dir rsp p l (s, w) = (r1, s1, w1)"
    by (metis prod_cases3)
  from step show ?case
  proof (cases rule: generate_part_cases [where ps = ps])
    case no_image
    with step Cons.prems have "generate_parts E dir rsp ps (add_text p l) (s, w) = (res, s', w')"
      by simp
    from Cons.IH [OF this] obtain fs where
      "saved_as E dir ''generated-'' rsp (image_datas ps) (s, w) (s', w') fs"
      "\<forall>l'. res = Inr l' \<longrightarrow> collected ps (add_text p l) l' fs"
      "\<forall>m. res = Inl m \<longrightarrow> length fs < length (image_datas ps)"
      by blast
    with no_image(1) show ?thesis
      by (intro exI [of _ fs]) (auto intro: collected_text)
  next
    case (image d fileName w0)
    from image(3) show ?thesis
    proof (cases rule: save_image_cases)
      case (fails m)
      with step Cons.prems have "res = Inl m" "s' = s" "w' = w0"
        by simp_all
      with image(1,2) show ?thesis
        by (auto intro: saved_as_failed exI [of _ "[]"])
    next
      case written
      with step Cons.prems have "generate_parts E dir rsp ps
          ((add_text p l)\<lparr>savedFiles := savedFiles (add_text p l) @ [path_join dir fileName],
             content := content (add_text p l) @
               [ImageContent (js_string (inline_data d)) (mimeType_or_png d)]\<rparr>)
          (s\<lparr>lastImagePath := Some (path_join dir fileName)\<rparr>,
           w0\<lparr>files := (files w0)(path_join dir fileName \<mapsto>
                           base64_decode E (js_string (inline_data d))),
              fs_log := fs_log w0 @
                [WriteFile (path_join dir fileName) (base64_decode E (js_string (inline_data d)))]\<rparr>)
          = (res, s', w')"
        by simp
      from Cons.IH [OF this] obtain fs where
        fs: "saved_as E dir ''generated-'' rsp (image_datas ps)
               (s\<lparr>lastImagePath := Some (path_join dir fileName)\<rparr>,
                w0\<lparr>files := (files w0)(path_join dir fileName \<mapsto>
                                base64_decode E (js_string (inline_data d))),
                   fs_log := fs_log w0 @
                     [WriteFile (path_join dir fileName) (base64_decode E (js_string (inline_data d)))]\<rparr>)
               (s', w') fs"
        and col: "\<forall>l'. res = Inr l' \<longrightarrow> collected ps
             ((add_text p l)\<lparr>savedFiles := savedFiles (add_text p l) @ [path_join dir fileName],
                content := content (add_text p l) @
                  [ImageContent (js_string (inline_data d)) (mimeType_or_png d)]\<rparr>) l' fs"
        and short: "\<forall>m. res = Inl m \<longrightarrow> length fs < length (image_datas ps)"
        by blast
      have "saved_as E dir ''generated-'' rsp (image_datas (p # ps)) (s, w) (s', w')
              (path_join dir fileName # fs)"
        using saved_as_written [OF image(2) fs] image(1) by simp
      moreover have "\<forall>l'. res = Inr l' \<longrightarrow> collected (p # ps) l l' (path_join dir fileName # fs)"
        using col image(1) by (auto intro: collected_image)
      moreover have "\<forall>m. res = Inl m \<longrightarrow>
          length (path_join dir fileName # fs) < length (image_datas (p # ps))"
        using short image(1) by simp
      ultimately show ?thesis
        by blast
    qed
  qed
qed


text \<open>One turn of the loop of \<^verbatim>\<open>editImage\<close>.\<close>

lemma edit_part_cases:
  assumes "edit_part E dir rsp p l (s, w) = (res, s', w')"
  obtains (no_image) "image_datas (p # ps) = image_datas ps" "res = Inr (add_text p l)" "s' = s" "w' = w"
  | (no_data) fileName where "image_datas (p # ps) = image_datas ps" "res = Inr (add_text p l)" "s' = s"
      "choose_fileName E ''edited-'' rsp w = (fileName, w')"
  | (image) d fileName w1 where
      "image_datas (p # ps) = d # image_datas ps"
      "choose_fileName E ''edited-'' rsp w = (fileName, w1)"
      "save_image E (path_join dir fileName) (js_string (inline_data d)) d (add_text p l) (s, w1)
         = (res, s', w')"
  using assms
  by (auto simp: edit_part_def image_datas_Cons split: option.splits if_splits prod.splits)

lemma saved_as_named:
  assumes "choose_fileName E prefix rsp w = (fileName, w1)"
    and "saved_as E dir prefix rsp ds (s, w1) st' fs"
  shows "saved_as E dir prefix rsp ds (s, w) st' fs"
  using assms
  by (auto elim!: choose_fileName_cases intro: saved_as_tick)

lemma edit_parts_saved:
  assumes "edit_parts E dir rsp ps l (s, w) = (res, s', w')"
  shows "\<exists>fs. saved_as E dir ''edited-'' rsp (image_datas ps) (s, w) (s', w') fs \<and>
              (\<forall>l'. res = Inr l' \<longrightarrow> collected ps l l' fs) \<and>
              (\<forall>m. res = Inl m \<longrightarrow> length fs < length (image_datas ps))"
  using assms
proof (induction ps arbitrary: l s w)
  case Nil
  then show ?case
    by (auto intro: saved_as_none collected_none)
next
  case (Cons p ps)
  obtain r1 s1 w1 where step: "edit_part E dir rsp p l (s, w) = (r1, s1, w1)"
    by (metis prod_cases3)
  from step show ?case
  proof (cases rule: edit_part_cases [where ps = ps])
    case no_image
    with step Cons.prems have "edit_parts E dir rsp ps (add_text p l) (s, w) = (res, s', w')"
      by simp
    from Cons.IH [OF this] obtain fs where
      "saved_as E dir ''edited-'' rsp (image_datas ps) (s, w) (s', w') fs"
      "\<forall>l'. res = Inr l' \<longrightarrow> collected ps (add_text p l) l' fs"
      "\<forall>m. res = Inl m \<longrightarrow> length fs < length (image_datas ps)"
      by blast
    with no_image(1) show ?thesis
      by (intro exI [of _ fs]) (auto intro: collected_text)
  next
    case (no_data fileName)
    with step Cons.prems have "edit_parts E dir rsp ps (add_text p l) (s, w1) = (res, s', w')"
      by simp
    from Cons.IH [OF this] obtain fs where
      "saved_as E dir ''edited-'' rsp (image_datas ps) (s, w1) (s', w') fs"
      "\<forall>l'. res = Inr l' \<longrightarrow> collected ps (add_text p l) l' fs"
      "\<forall>m. res = Inl m \<longrightarrow> length fs < length (image_datas ps)"
      by blast
    with no_data(1,4) step show ?thesis
      by (intro exI [of _ fs]) (auto intro: collected_text saved_as_named)
  next
    case (image d fileName w0)
    from image(3) show ?thesis
    proof (cases rule: save_image_cases)
      case (fails m)
      with step Cons.prems have "res = Inl m" "s' = s" "w' = w0"
        by simp_all
      with image(1,2) show ?thesis
        by (auto intro: saved_as_failed exI [of _ "[]"])
    next
      case written
      with step Cons.prems have "edit_parts E dir rsp ps
          ((add_text p l)\<lparr>savedFiles := savedFiles (add_text p l) @ [path_join dir fileName],
             content := content (add_text p l) @
               [ImageContent (js_string (inline_data d)) (mimeType_or_png d)]\<rparr>)
          (s\<lparr>lastImagePath := Some (path_join dir fileName)\<rparr>,
           w0\<lparr>files := (files w0)(path_join dir fileName \<mapsto>
                           base64_decode E (js_string (inline_data d))),
              fs_log := fs_log w0 @
                [WriteFile (path_join dir fileName) (base64_decode E (js_string (inline_data d)))]\<rparr>)
          = (res, s', w')"
        by simp
      from Cons.IH [OF this] obtain fs where
        fs: "saved_as E dir ''edited-'' rsp (image_datas ps)
               (s\<lparr>lastImagePath := Some (path_join dir fileName)\<rparr>,
                w0\<lparr>files := (files w0)(path_join dir fileName \<mapsto>
                                base64_decode E (js_string (inline_data d))),
                   fs_log := fs_log w0 @
                     [WriteFile (path_join dir fileName) (base64_decode E (js_string (inline_data d)))]\<rparr>)
               (s', w') fs"
        and col: "\<forall>l'. res = Inr l' \<longrightarrow> collected ps
             ((add_text p l)\<lparr>savedFiles := savedFiles (add_text p l) @ [path_join dir fileName],
                content := content (add_text p l) @
                  [ImageContent (js_string (inline_data d)) (mimeType_or_png d)]\<rparr>) l' fs"
        and short: "\<forall>m. res = Inl m \<longrightarrow> length fs < length (image_datas ps)"
        by blast
      have "saved_as E dir ''edited-'' rsp (image_datas (p # ps)) (s, w) (s', w')
              (path_join dir fileName # fs)"
        using saved_as_written [OF image(2) fs] image(1) by simp
      moreover have "\<forall>l'. res = Inr l' \<longrightarrow> collected (p # ps) l l' (path_join dir fileName # fs)"
        using col image(1) by (auto intro: collected_image)
      moreover have "\<forall>m. res = Inl m \<longrightarrow>
          length (path_join dir fileName # fs) < length (image_datas (p # ps))"
        using short image(1) by simp
      ultimately show ?thesis
        by blast
    qed
  qed
qed

section \<open>The outcomes of an image call\<close>

lemma last_answer_sent:
  "last_answer E (w\<lparr>sent := xs @ [(key, c)]\<rparr>) = generateContent E (length xs) key c"
  by (simp add: last_answer_def)

lemma last_answer_eq:
  assumes "sent w' = xs @ [(key, c)]"
  shows "last_answer E w' = generateContent E (length xs) key c"
  using assms by (simp add: last_answer_def)

text \<open>What can become of the \<^verbatim>\<open>try\<close> block of \<^verbatim>\<open>generateImage\<close>.\<close>

lemma generate_try_cases:
  assumes "generate_try E a (s, w) = (res, s', w')"
  obtains (no_client) "genAI s = None" "res = Inl null_client_message" "s' = s" "w' = w"
  | (service_error) key m where "genAI s = Some key"
      "generateContent E (length (sent w)) key (PromptContents (prompt a)) = Inl m"
      "res = Inl m" "s' = s" "w' = w\<lparr>sent := sent w @ [(key, PromptContents (prompt a))]\<rparr>"
  | (mkdir_error) key response m where "genAI s = Some key"
      "generateContent E (length (sent w)) key (PromptContents (prompt a)) = Inr response"
      "mkdir_fails E (imagesDir E s (relative_save_path a)) = Some m"
      "res = Inl m" "s' = s" "w' = w\<lparr>sent := sent w @ [(key, PromptContents (prompt a))]\<rparr>"
  | (read) key response lres where "genAI s = Some key"
      "generateContent E (length (sent w)) key (PromptContents (prompt a)) = Inr response"
      "mkdir_fails E (imagesDir E s (relative_save_path a)) = None"
      "generate_parts E (imagesDir E s (relative_save_path a)) (relative_save_path a)
         (answer_parts (Inr response)) no_locals
         (s, w\<lparr>sent := sent w @ [(key, PromptContents (prompt a))],
               fs_log := fs_log w @ [Mkdir (imagesDir E s (relative_save_path a))]\<rparr>) = (lres, s', w')"
      "res = (case lres of Inl m \<Rightarrow> Inl m
              | Inr l \<Rightarrow> Inr (TextContent (generate_statusText (prompt a) l) # content l))"
proof (cases "genAI s")
  case None
  with assms show ?thesis
    by (intro no_client) (simp_all add: generate_try_def)
next
  case (Some key)
  show ?thesis
  proof (cases "generateContent E (length (sent w)) key (PromptContents (prompt a))")
    case (Inl m)
    with assms Some show ?thesis
      by (intro service_error [of key m]) (simp_all add: generate_try_def Let_def)
  next
    case (Inr response)
    show ?thesis
    proof (cases "mkdir_fails E (imagesDir E s (relative_save_path a))")
      case (Some m)
      with assms \<open>genAI s = Some key\<close> Inr show ?thesis
        by (intro mkdir_error [of key response m]) (simp_all add: generate_try_def Let_def fs_mkdir_def)
    next
      case None
      obtain lres s1 w1 where loop:
        "generate_parts E (imagesDir E s (relative_save_path a)) (relative_save_path a)
           (answer_parts (Inr response)) no_locals
           (s, w\<lparr>sent := sent w @ [(key, PromptContents (prompt a))],
                 fs_log := fs_log w @ [Mkdir (imagesDir E s (relative_save_path a))]\<rparr>) = (lres, s1, w1)"
        by (metis prod_cases3)
      with assms \<open>genAI s = Some key\<close> Inr None show ?thesis
        by (intro read [of key response lres])
          (auto simp: generate_try_def Let_def fs_mkdir_def answer_parts_def split: sum.splits)
    qed
  qed
qed


lemma saved_as_sent:
  "saved_as E dir prefix rsp ds (s, w) (s', w') fs \<Longrightarrow> sent w' = sent w"
  by (simp add: saved_as_def)

text \<open>What can become of a \<^verbatim>\<open>generate_image\<close> call.\<close>

lemma generate_call_cases:
  assumes tool: "params_name request = ''generate_image''"
    and call: "call_tool E request (s, w) = (res, s', w')"
  obtains (early) c m where "res = Inl (McpError c m)" "s' = s" "w' = w"
      "\<not> ensureConfigured s \<or> params_arguments request = None"
  | (service_error) a key rq m where "params_arguments request = Some a" "ensureConfigured s"
      "genAI s = Some key" "rq = (key, PromptContents (prompt a))"
      "res = Inl (McpError InternalError (''Failed to generate image: '' @ m))" "s' = s"
      "w' = w\<lparr>sent := sent w @ [rq]\<rparr>" "last_answer E w' = Inl m"
  | (mkdir_error) a key rq m where "params_arguments request = Some a" "ensureConfigured s"
      "genAI s = Some key" "rq = (key, PromptContents (prompt a))"
      "res = Inl (McpError InternalError (''Failed to generate image: '' @ m))" "s' = s"
      "w' = w\<lparr>sent := sent w @ [rq]\<rparr>"
      "mkdir_fails E (imagesDir E s (relative_save_path a)) = Some m"
  | (read) a key rq response lres fs where "params_arguments request = Some a" "ensureConfigured s"
      "genAI s = Some key" "rq = (key, PromptContents (prompt a))"
      "sent w' = sent w @ [rq]" "last_answer E w' = Inr response"
      "mkdir_fails E (imagesDir E s (relative_save_path a)) = None"
      "saved_as E (imagesDir E s (relative_save_path a)) ''generated-'' (relative_save_path a)
         (image_datas (answer_parts (last_answer E w')))
         (s, w\<lparr>sent := sent w @ [rq],
               fs_log := fs_log w @ [Mkdir (imagesDir E s (relative_save_path a))]\<rparr>) (s', w') fs"
      "\<forall>l'. (lres :: string + locals) = Inr l' \<longrightarrow>
         collected (answer_parts (last_answer E w')) no_locals l' fs \<and>
         res = Inr (TextContent (generate_statusText (prompt a) l') # content l')"
      "\<forall>m. lres = Inl m \<longrightarrow>
         length fs < length (image_datas (answer_parts (last_answer E w'))) \<and>
         res = Inl (McpError InternalError (''Failed to generate image: '' @ m))"
proof (cases "ensureConfigured s")
  case False
  with tool call show ?thesis
    by (intro early [of InvalidRequest
          "''Gemini API token not configured. Use configure_gemini_token first.''"])
      (auto simp: call_tool_def dispatch_generate generateImage_def not_configured_error_def)
next
  case True
  show ?thesis
  proof (cases "params_arguments request")
    case None
    with tool call True show ?thesis
      by (intro early [of InternalError])
        (auto simp: call_tool_def dispatch_generate generateImage_def cannot_destructure_def)
  next
    case (Some a)
    obtain tres s1 w1 where tried: "generate_try E a (s, w) = (tres, s1, w1)"
      by (metis prod_cases3)
    with tool call True Some have
      res: "res = (case tres of Inl m \<Rightarrow> Inl (McpError InternalError (''Failed to generate image: '' @ m))
                   | Inr r \<Rightarrow> Inr r)"
      and st: "s1 = s'" "w1 = w'"
      by (auto simp: call_tool_def dispatch_generate generateImage_def split: sum.splits)
    from tried show ?thesis
    proof (cases rule: generate_try_cases)
      case no_client
      with True show ?thesis
        by (simp add: ensureConfigured_def)
    next
      case (service_error key m)
      have w': "w' = w\<lparr>sent := sent w @ [(key, PromptContents (prompt a))]\<rparr>"
        using service_error(5) st by simp
      have "last_answer E w' = Inl m"
        unfolding w' using service_error(2) by (simp add: last_answer_sent)
      moreover have "res = Inl (McpError InternalError (''Failed to generate image: '' @ m))" "s' = s"
        using res st service_error(3,4) by simp_all
      ultimately show ?thesis
        using Some True w' service_error(1)
        by (intro that(2) [where a = a and rq = "(key, PromptContents (prompt a))" and m = m
              and key = key]) simp_all
    next
      case (mkdir_error key response m)
      have "w' = w\<lparr>sent := sent w @ [(key, PromptContents (prompt a))]\<rparr>"
        using mkdir_error(6) st by simp
      moreover have "res = Inl (McpError InternalError (''Failed to generate image: '' @ m))" "s' = s"
        using res st mkdir_error(4,5) by simp_all
      ultimately show ?thesis
        using Some True mkdir_error(1,3)
        by (intro that(3) [where a = a and rq = "(key, PromptContents (prompt a))" and m = m
              and key = key]) simp_all
    next
      case (read key response lres)
      let ?rq = "(key, PromptContents (prompt a))"
      from read(4) st have "generate_parts E (imagesDir E s (relative_save_path a))
          (relative_save_path a) (answer_parts (Inr response)) no_locals
          (s, w\<lparr>sent := sent w @ [?rq],
                fs_log := fs_log w @ [Mkdir (imagesDir E s (relative_save_path a))]\<rparr>) = (lres, s', w')"
        by simp
      from generate_parts_saved [OF this] obtain fs where
        fs: "saved_as E (imagesDir E s (relative_save_path a)) ''generated-'' (relative_save_path a)
               (image_datas (answer_parts (Inr response)))
               (s, w\<lparr>sent := sent w @ [?rq],
                     fs_log := fs_log w @ [Mkdir (imagesDir E s (relative_save_path a))]\<rparr>) (s', w') fs"
        and col: "\<forall>l'. lres = Inr l' \<longrightarrow> collected (answer_parts (Inr response)) no_locals l' fs"
        and short: "\<forall>m. lres = Inl m \<longrightarrow> length fs < length (image_datas (answer_parts (Inr response)))"
        by blast
      from saved_as_sent [OF fs] have sent: "sent w' = sent w @ [?rq]"
        by simp
      with read(2) have answer: "last_answer E w' = Inr response"
        by (simp add: last_answer_eq)
      show ?thesis
        using Some True sent answer read(1,3) fs col short res read(5)
        by (intro that(4) [where a = a and rq = ?rq and response = response and fs = fs
              and lres = lres and key = key])
          auto
    qed
  qed
qed


text \<open>What can become of the \<^verbatim>\<open>try\<close> block of \<^verbatim>\<open>editImage\<close>.\<close>

lemma edit_try_cases:
  assumes "edit_try E a (s, w) = (res, s', w')"
  obtains (unreadable) m where "fs_readFile E (imagePath a) w = Inl m" "res = Inl m" "s' = s" "w' = w"
  | (no_client) "genAI s = None" "s' = s" "w' = w"
  | (service_error) b key m where "fs_readFile E (imagePath a) w = Inr b" "genAI s = Some key"
      "generateContent E (length (sent w)) key
         (PartsContents (edit_imageParts E w (js_string (imagePath a)) b (referenceImages a) (prompt a)))
       = Inl m"
      "res = Inl m" "s' = s"
      "w' = w\<lparr>sent := sent w @
         [(key, PartsContents
                  (edit_imageParts E w (js_string (imagePath a)) b (referenceImages a) (prompt a)))]\<rparr>"
  | (mkdir_error) b key response m where "fs_readFile E (imagePath a) w = Inr b" "genAI s = Some key"
      "generateContent E (length (sent w)) key
         (PartsContents (edit_imageParts E w (js_string (imagePath a)) b (referenceImages a) (prompt a)))
       = Inr response"
      "mkdir_fails E (imagesDir E s (relative_save_path a)) = Some m"
      "res = Inl m" "s' = s"
      "w' = w\<lparr>sent := sent w @
         [(key, PartsContents
                  (edit_imageParts E w (js_string (imagePath a)) b (referenceImages a) (prompt a)))]\<rparr>"
  | (read) b key response lres where "fs_readFile E (imagePath a) w = Inr b" "genAI s = Some key"
      "generateContent E (length (sent w)) key
         (PartsContents (edit_imageParts E w (js_string (imagePath a)) b (referenceImages a) (prompt a)))
       = Inr response"
      "mkdir_fails E (imagesDir E s (relative_save_path a)) = None"
      "edit_parts E (imagesDir E s (relative_save_path a)) (relative_save_path a)
         (answer_parts (Inr response)) no_locals
         (s, w\<lparr>sent := sent w @
                 [(key, PartsContents
                          (edit_imageParts E w (js_string (imagePath a)) b (referenceImages a) (prompt a)))],
               fs_log := fs_log w @ [Mkdir (imagesDir E s (relative_save_path a))]\<rparr>) = (lres, s', w')"
      "res = (case lres of Inl m \<Rightarrow> Inl m
              | Inr l \<Rightarrow> Inr (TextContent (edit_statusText a l) # content l))"
proof (cases "fs_readFile E (imagePath a) w")
  case (Inl m)
  with assms show ?thesis
    by (intro unreadable [of m]) (simp_all add: edit_try_def)
next
  case (Inr b)
  let ?c = "PartsContents (edit_imageParts E w (js_string (imagePath a)) b (referenceImages a) (prompt a))"
  show ?thesis
  proof (cases "genAI s")
    case None
    with assms Inr show ?thesis
      by (intro no_client) (simp_all add: edit_try_def Let_def)
  next
    case (Some key)
    show ?thesis
    proof (cases "generateContent E (length (sent w)) key ?c")
      case (Inl m)
      with assms Some \<open>fs_readFile E (imagePath a) w = Inr b\<close> show ?thesis
        by (intro service_error [of b key m]) (simp_all add: edit_try_def Let_def)
    next
      case response: (Inr response)
      show ?thesis
      proof (cases "mkdir_fails E (imagesDir E s (relative_save_path a))")
        case (Some m)
        with assms \<open>genAI s = Some key\<close> response \<open>fs_readFile E (imagePath a) w = Inr b\<close>
        show ?thesis
          by (intro mkdir_error [of b key response m])
            (simp_all add: edit_try_def Let_def fs_mkdir_def)
      next
        case None
        obtain lres s1 w1 where loop:
          "edit_parts E (imagesDir E s (relative_save_path a)) (relative_save_path a)
             (answer_parts (Inr response)) no_locals
             (s, w\<lparr>sent := sent w @ [(key, ?c)],
                   fs_log := fs_log w @ [Mkdir (imagesDir E s (relative_save_path a))]\<rparr>) = (lres, s1, w1)"
          by (metis prod_cases3)
        with assms \<open>genAI s = Some key\<close> response None \<open>fs_readFile E (imagePath a) w = Inr b\<close>
        show ?thesis
          by (intro read [of b key response lres])
            (auto simp: edit_try_def Let_def fs_mkdir_def answer_parts_def split: sum.splits)
      qed
    qed
  qed
qed


text \<open>What can become of an \<^verbatim>\<open>edit_image\<close> call.\<close>

lemma edit_call_cases:
  assumes tool: "params_name request = ''edit_image''"
    and call: "call_tool E request (s, w) = (res, s', w')"
  obtains (early) c m where "res = Inl (McpError c m)" "s' = s" "w' = w"
      "\<not> ensureConfigured s \<or> params_arguments request = None \<or>
       (\<exists>a m. params_arguments request = Some a \<and> fs_readFile E (imagePath a) w = Inl m)"
  | (service_error) a b key rq m where "params_arguments request = Some a" "ensureConfigured s"
      "fs_readFile E (imagePath a) w = Inr b" "genAI s = Some key"
      "rq = (key, PartsContents
                    (edit_imageParts E w (js_string (imagePath a)) b (referenceImages a) (prompt a)))"
      "res = Inl (McpError InternalError (''Failed to edit image: '' @ m))" "s' = s"
      "w' = w\<lparr>sent := sent w @ [rq]\<rparr>" "last_answer E w' = Inl m"
  | (mkdir_error) a b key rq m where "params_arguments request = Some a" "ensureConfigured s"
      "fs_readFile E (imagePath a) w = Inr b" "genAI s = Some key"
      "rq = (key, PartsContents
                    (edit_imageParts E w (js_string (imagePath a)) b (referenceImages a) (prompt a)))"
      "res = Inl (McpError InternalError (''Failed to edit image: '' @ m))" "s' = s"
      "w' = w\<lparr>sent := sent w @ [rq]\<rparr>"
      "mkdir_fails E (imagesDir E s (relative_save_path a)) = Some m"
  | (read) a b key rq response lres fs where "params_arguments request = Some a" "ensureConfigured s"
      "fs_readFile E (imagePath a) w = Inr b" "genAI s = Some key"
      "rq = (key, PartsContents
                    (edit_imageParts E w (js_string (imagePath a)) b (referenceImages a) (prompt a)))"
      "sent w' = sent w @ [rq]" "last_answer E w' = Inr response"
      "mkdir_fails E (imagesDir E s (relative_save_path a)) = None"
      "saved_as E (imagesDir E s (relative_save_path a)) ''edited-'' (relative_save_path a)
         (image_datas (answer_parts (last_answer E w')))
         (s, w\<lparr>sent := sent w @ [rq],
               fs_log := fs_log w @ [Mkdir (imagesDir E s (relative_save_path a))]\<rparr>) (s', w') fs"
      "\<forall>l'. (lres :: string + locals) = Inr l' \<longrightarrow>
         collected (answer_parts (last_answer E w')) no_locals l' fs \<and>
         res = Inr (TextContent (edit_statusText a l') # content l')"
      "\<forall>m. lres = Inl m \<longrightarrow>
         length fs < length (image_datas (answer_parts (last_answer E w'))) \<and>
         res = Inl (McpError InternalError (''Failed to edit image: '' @ m))"
proof (cases "ensureConfigured s")
  case False
  with tool call show ?thesis
    by (intro early [of InvalidRequest
          "''Gemini API token not configured. Use configure_gemini_token first.''"])
      (auto simp: call_tool_def dispatch_edit editImage_def not_configured_error_def)
next
  case True
  show ?thesis
  proof (cases "params_arguments request")
    case None
    with tool call True show ?thesis
      by (intro early [of InternalError])
        (auto simp: call_tool_def dispatch_edit editImage_def cannot_destructure_def)
  next
    case (Some a)
    obtain tres s1 w1 where tried: "edit_try E a (s, w) = (tres, s1, w1)"
      by (metis prod_cases3)
    with tool call True Some have
      res: "res = (case tres of Inl m \<Rightarrow> Inl (McpError InternalError (''Failed to edit image: '' @ m))
                   | Inr r \<Rightarrow> Inr r)"
      and st: "s1 = s'" "w1 = w'"
      by (auto simp: call_tool_def dispatch_edit editImage_def split: sum.splits)
    from tried show ?thesis
    proof (cases rule: edit_try_cases)
      case (unreadable m)
      with res st Some show ?thesis
        by (intro that(1) [where c = InternalError and m = "''Failed to edit image: '' @ m"]) auto
    next
      case no_client
      with True show ?thesis
        by (simp add: ensureConfigured_def)
    next
      case (service_error b key m)
      let ?rq = "(key, PartsContents
                    (edit_imageParts E w (js_string (imagePath a)) b (referenceImages a) (prompt a)))"
      have w': "w' = w\<lparr>sent := sent w @ [?rq]\<rparr>"
        using service_error(6) st by simp
      have "last_answer E w' = Inl m"
        unfolding w' using service_error(3) by (simp add: last_answer_sent)
      moreover have "res = Inl (McpError InternalError (''Failed to edit image: '' @ m))" "s' = s"
        using res st service_error(4,5) by simp_all
      ultimately show ?thesis
        using Some True w' service_error(1,2)
        by (intro that(2) [where a = a and rq = ?rq and m = m and b = b and key = key]) simp_all
    next
      case (mkdir_error b key response m)
      let ?rq = "(key, PartsContents
                    (edit_imageParts E w (js_string (imagePath a)) b (referenceImages a) (prompt a)))"
      have "w' = w\<lparr>sent := sent w @ [?rq]\<rparr>"
        using mkdir_error(7) st by simp
      moreover have "res = Inl (McpError InternalError (''Failed to edit image: '' @ m))" "s' = s"
        using res st mkdir_error(5,6) by simp_all
      ultimately show ?thesis
        using Some True mkdir_error(1,2,4)
        by (intro that(3) [where a = a and rq = ?rq and m = m and b = b and key = key]) simp_all
    next
      case (read b key response lres)
      let ?rq = "(key, PartsContents
                    (edit_imageParts E w (js_string (imagePath a)) b (referenceImages a) (prompt a)))"
      from read(5) st have "edit_parts E (imagesDir E s (relative_save_path a))
          (relative_save_path a) (answer_parts (Inr response)) no_locals
          (s, w\<lparr>sent := sent w @ [?rq],
                fs_log := fs_log w @ [Mkdir (imagesDir E s (relative_save_path a))]\<rparr>) = (lres, s', w')"
        by simp
      from edit_parts_saved [OF this] obtain fs where
        fs: "saved_as E (imagesDir E s (relative_save_path a)) ''edited-'' (relative_save_path a)
               (image_datas (answer_parts (Inr response)))
               (s, w\<lparr>sent := sent w @ [?rq],
                     fs_log := fs_log w @ [Mkdir (imagesDir E s (relative_save_path a))]\<rparr>) (s', w') fs"
        and col: "\<forall>l'. lres = Inr l' \<longrightarrow> collected (answer_parts (Inr response)) no_locals l' fs"
        and short: "\<forall>m. lres = Inl m \<longrightarrow> length fs < length (image_datas (answer_parts (Inr response)))"
        by blast
      from saved_as_sent [OF fs] have sent: "sent w' = sent w @ [?rq]"
        by simp
      with read(3) have answer: "last_answer E w' = Inr response"
        by (simp add: last_answer_eq)
      show ?thesis
        using Some True sent answer read(1,2,4) fs col short res read(6)
        by (intro that(4) [where a = a and rq = ?rq and response = response and fs = fs
              and lres = lres and b = b and key = key])
          auto
    qed
  qed
qed

lemma written_paths_map2:
  "length fs \<le> length ds \<Longrightarrow> written_paths (map2 (image_write E) fs ds) = fs"
proof (induction fs arbitrary: ds)
  case Nil
  then show ?case by simp
next
  case (Cons f fs)
  then show ?case
    by (cases ds) (simp_all add: image_write_def)
qed

lemma saved_as_call:
  assumes "saved_as E dir prefix rsp ds
             (s, w\<lparr>sent := xs, fs_log := fs_log w @ [Mkdir dir]\<rparr>) (s', w') fs"
  shows "new_events w w' = Mkdir dir # map2 (image_write E) fs ds"
    and "written_paths (new_events w w') = fs"
    and "length fs \<le> length ds"
    and "lastImagePath s' = (if fs = [] then lastImagePath s else Some (last fs))"
    and "fs = [] \<Longrightarrow> files w' = files w"
    and "fs \<noteq> [] \<Longrightarrow>
           files w' (last fs) = Some (base64_decode E (js_string (inline_data (ds ! (length fs - 1)))))"
    and "clock_reads w \<le> clock_reads w'"
    and "truthy rsp \<Longrightarrow> \<forall>f \<in> set fs. f = path_join dir (path_basename (js_string rsp))"
    and "\<not> truthy rsp \<Longrightarrow>
           \<exists>ks. sorted_wrt (<) ks \<and>
                (\<forall>k \<in> set ks. clock_reads w \<le> k \<and> k < clock_reads w') \<and>
                fs = map (\<lambda>k. path_join dir (timestamped_name E prefix k)) ks"
    and "config s' = config s" "genAI s' = genAI s" "configSource s' = configSource s"
proof -
  from assms show events: "new_events w w' = Mkdir dir # map2 (image_write E) fs ds"
    by (simp add: saved_as_def new_events_def)
  from assms show len: "length fs \<le> length ds"
    by (simp add: saved_as_def)
  from events len show "written_paths (new_events w w') = fs"
    by (simp add: written_paths_map2)
  from assms show "lastImagePath s' = (if fs = [] then lastImagePath s else Some (last fs))"
    by (simp add: saved_as_def)
  from assms show "fs = [] \<Longrightarrow> files w' = files w"
    by (simp add: saved_as_def)
  from assms show "fs \<noteq> [] \<Longrightarrow>
      files w' (last fs) = Some (base64_decode E (js_string (inline_data (ds ! (length fs - 1)))))"
    by (simp add: saved_as_def)
  from assms show "clock_reads w \<le> clock_reads w'"
    by (simp add: saved_as_def)
  from assms show "truthy rsp \<Longrightarrow> \<forall>f \<in> set fs. f = path_join dir (path_basename (js_string rsp))"
    by (simp add: saved_as_def)
  from assms show "\<not> truthy rsp \<Longrightarrow>
      \<exists>ks. sorted_wrt (<) ks \<and>
           (\<forall>k \<in> set ks. clock_reads w \<le> k \<and> k < clock_reads w') \<and>
           fs = map (\<lambda>k. path_join dir (timestamped_name E prefix k)) ks"
    by (simp add: saved_as_def)
  from assms show "config s' = config s" "genAI s' = genAI s" "configSource s' = configSource s"
    by (simp_all add: saved_as_def)
qed

text \<open>The outcomes of the two image tools, side by side.\<close>

lemma image_call_cases:
  assumes tool: "(params_name request = ''generate_image'' \<and> prefix = ''generated-'') \<or>
                 (params_name request = ''edit_image'' \<and> prefix = ''edited-'')"
    and call: "call_tool E request (s, w) = (res, s', w')"
  obtains (early) c m where "res = Inl (McpError c m)" "s' = s" "w' = w"
  | (no_answer) a rq c m where "params_arguments request = Some a"
      "res = Inl (McpError c m)" "s' = s" "w' = w\<lparr>sent := sent w @ [rq]\<rparr>"
      "(\<exists>e. last_answer E w' = Inl e) \<or> mkdir_fails E (imagesDir E s (relative_save_path a)) \<noteq> None"
  | (read) a rq response lres fs where "params_arguments request = Some a"
      "sent w' = sent w @ [rq]" "last_answer E w' = Inr response"
      "mkdir_fails E (imagesDir E s (relative_save_path a)) = None"
      "saved_as E (imagesDir E s (relative_save_path a)) prefix (relative_save_path a)
         (image_datas (answer_parts (last_answer E w')))
         (s, w\<lparr>sent := sent w @ [rq],
               fs_log := fs_log w @ [Mkdir (imagesDir E s (relative_save_path a))]\<rparr>) (s', w') fs"
      "\<forall>l'. (lres :: string + locals) = Inr l' \<longrightarrow>
         collected (answer_parts (last_answer E w')) no_locals l' fs \<and>
         res = Inr (TextContent (if params_name request = ''generate_image''
                                 then generate_statusText (prompt a) l'
                                 else edit_statusText a l') # content l')"
      "\<forall>m. lres = Inl m \<longrightarrow>
         length fs < length (image_datas (answer_parts (last_answer E w'))) \<and>
         (\<exists>c e. res = Inl (McpError c e))"
  using tool
proof
  assume gen: "params_name request = ''generate_image'' \<and> prefix = ''generated-''"
  then have name: "params_name request = ''generate_image''" and prefix: "prefix = ''generated-''"
    by simp_all
  from name call show ?thesis
  proof (cases rule: generate_call_cases)
    case (early c m)
    then show ?thesis by (intro that(1) [of c m])
  next
    case (service_error a key rq m)
    then show ?thesis
      by (intro that(2) [where a = a and rq = rq and c = InternalError]) auto
  next
    case (mkdir_error a key rq m)
    then show ?thesis
      by (intro that(2) [where a = a and rq = rq and c = InternalError]) auto
  next
    case (read a key rq response lres fs)
    then show ?thesis
      using name prefix
      by (intro that(3) [where a = a and rq = rq and response = response and lres = lres and fs = fs])
        auto
  qed
next
  assume ed: "params_name request = ''edit_image'' \<and> prefix = ''edited-''"
  then have name: "params_name request = ''edit_image''" and prefix: "prefix = ''edited-''"
    by simp_all
  from name call show ?thesis
  proof (cases rule: edit_call_cases)
    case (early c m)
    then show ?thesis by (intro that(1) [of c m])
  next
    case (service_error a b key rq m)
    then show ?thesis
      by (intro that(2) [where a = a and rq = rq and c = InternalError]) auto
  next
    case (mkdir_error a b key rq m)
    then show ?thesis
      by (intro that(2) [where a = a and rq = rq and c = InternalError]) auto
  next
    case (read a b key rq response lres fs)
    then show ?thesis
      using name prefix
      by (intro that(3) [where a = a and rq = rq and response = response and lres = lres and fs = fs])
        auto
  qed
qed

section \<open>The example run, evaluated\<close>

lemmas path_eval = path_join_def path_normalize_def normalizeString_def path_dirname_def
  path_basename_def slash_def

lemmas call_eval = call_tool_def dispatch_def tool_call_def generateImage_def editImage_def
  ensureConfigured_def generate_try_def edit_try_def Let_def fs_mkdir_def fs_writeFile_def
  fs_readFile_def imagesDir_def workplaceDir_def config_workplacePath_def response_parts_def
  generate_part_def edit_part_def choose_fileName_def save_image_def add_text_def no_locals_def
  truthy_def js_string_def timestamped_name_def replace_colon_period_def substring_2_8_def
  mimeType_or_png_def no_arguments_def


lemma example_server_eq:
  "example_server =
     \<lparr>genAI = Some ''key-1'',
      config = Some \<lparr>geminiApiKey = ''key-1'', workplacePath = Some ''/work''\<rparr>,
      lastImagePath = None, configSource = environment\<rparr>"
  by (simp add: example_server_def loadConfig_def new_server_def example_env_def truthy_def
      ConfigSchema_parse_def)

lemma digit_chars: "digit_char 0 = CHR ''0''" "digit_char 1 = CHR ''1''"
  by code_simp+

lemma example_mime_types:
  "getMimeType ''/work/in.jpg'' = ''image/jpeg''"
  "getMimeType ''/work/style.PNG'' = ''image/png''"
  by code_simp+

lemmas example_eval = example_env_def example_world_def example_decode_def example_encode_def
  response_with_def caption_def small_image_def large_image_def digit_chars example_mime_types

lemmas arguments_eval = red_ball_result_def blue_edit_result_def red_ball_world_def two_balls_world_def describe_world_def
  blue_edit_world_def relative_world_def red_ball_arguments_def two_balls_arguments_def describe_arguments_def
  blue_edit_arguments_def

lemma relative_server_eq:
  "relative_server =
     \<lparr>genAI = Some ''key-1'',
      config = Some \<lparr>geminiApiKey = ''key-1'', workplacePath = Some ''./images''\<rparr>,
      lastImagePath = None, configSource = environment\<rparr>"
  by (simp add: relative_server_def relative_env_def loadConfig_def new_server_def example_env_def
      truthy_def ConfigSchema_parse_def)

lemma example_red_ball:
  "call_tool example_env (tool_call ''generate_image'' red_ball_arguments)
     (example_server, example_world) =
   (Inr (red_ball_result ''/work/out/pic.png''),
    example_server\<lparr>lastImagePath := Some ''/work/out/pic.png''\<rparr>,
    red_ball_world)"
  by (simp add: example_server_eq arguments_eval call_eval example_eval path_eval)

lemma example_two_balls:
  "call_tool example_env (tool_call ''generate_image'' two_balls_arguments)
     (old_image_server, example_world) =
   (Inl (McpError InternalError ''Failed to generate image: ENOSPC: no space left on device, write''),
    old_image_server\<lparr>lastImagePath := Some ''/work/generated-2025-01-01T00-00-00-000Z-0k3x9f.png''\<rparr>,
    two_balls_world)"
  by (simp add: old_image_server_def example_server_eq arguments_eval call_eval example_eval path_eval)

lemma example_describe:
  "call_tool example_env (tool_call ''generate_image'' describe_arguments)
     (example_server, example_world) =
   (Inr [TextContent
           (generate_statusText (Some ''describe a ball'')
              \<lparr>content = [], savedFiles = [], textContent = ''A red ball.''\<rparr>)],
    example_server,
    describe_world)"
  by (simp add: example_server_eq arguments_eval call_eval example_eval path_eval)

lemma example_blue_edit:
  "call_tool example_env (tool_call ''edit_image'' blue_edit_arguments)
     (example_server, example_world) =
   (Inr blue_edit_result,
    example_server\<lparr>lastImagePath := Some ''/work/edited-2025-01-01T00-00-00-000Z-0k3x9f.png''\<rparr>,
    blue_edit_world)"
  by (simp add: example_server_eq arguments_eval call_eval example_eval path_eval
      edit_imageParts_def)

lemma relative_red_ball:
  "call_tool relative_env (tool_call ''generate_image'' red_ball_arguments)
     (relative_server, example_world) =
   (Inr (red_ball_result ''images/out/pic.png''),
    relative_server\<lparr>lastImagePath := Some ''images/out/pic.png''\<rparr>,
    relative_world)"
  by (simp add: relative_server_eq relative_env_def arguments_eval call_eval example_eval path_eval)

section \<open>The last image path\<close>

lemma new_events_same [simp]: "new_events w w = []"
  by (simp add: new_events_def)

lemma new_events_sent [simp]: "new_events w (w\<lparr>sent := xs\<rparr>) = []"
  by (simp add: new_events_def)

lemma configure_keeps_image:
  assumes "configureGeminiToken request (s, w) = (res, s', w')"
  shows "lastImagePath s' = lastImagePath s \<and> w' = w"
  using assms
  by (auto simp: configureGeminiToken_def split: option.splits sum.splits)

lemma status_keeps_image:
  assumes "getConfigurationStatus E (s, w) = (res, s', w')"
  shows "lastImagePath s' = lastImagePath s \<and> w' = w"
  using assms
  by (auto simp: getConfigurationStatus_def split: if_splits)

lemma info_keeps_image:
  assumes "getLastImageInfo E (s, w) = (res, s', w')"
  shows "lastImagePath s' = lastImagePath s \<and> w' = w"
  using assms
  by (auto simp: getLastImageInfo_def split: if_splits option.splits)

lemma other_tools_quiet:
  assumes "params_name request \<noteq> ''generate_image''" and "params_name request \<noteq> ''edit_image''"
    and "call_tool E request (s, w) = (res, s', w')"
  shows "lastImagePath s' = lastImagePath s \<and> w' = w"
proof -
  obtain r1 s1 w1 where d: "dispatch E request (s, w) = (r1, s1, w1)"
    by (metis prod_cases3)
  with assms(3) have st: "s1 = s'" "w1 = w'"
    by (auto simp: call_tool_def split: sum.splits exn.splits)
  from d assms(1,2) have "lastImagePath s1 = lastImagePath s \<and> w1 = w"
    by (auto simp: dispatch_def split: if_splits
        dest: configure_keeps_image status_keeps_image info_keeps_image)
  with st show ?thesis
    by simp
qed

lemma image_call_last_path:
  assumes tool: "params_name request = ''generate_image'' \<or> params_name request = ''edit_image''"
    and call: "call_tool E request (s, w) = (res, s', w')"
  shows "lastImagePath s' =
           (if written_paths (new_events w w') = [] then lastImagePath s
            else Some (last (written_paths (new_events w w'))))"
proof -
  from tool obtain prefix where
    "(params_name request = ''generate_image'' \<and> prefix = ''generated-'') \<or>
     (params_name request = ''edit_image'' \<and> prefix = ''edited-'')"
    by auto
  from this call show ?thesis
  proof (cases rule: image_call_cases)
    case (early c m)
    then show ?thesis by simp
  next
    case (no_answer a rq c m)
    then show ?thesis by simp
  next
    case (read a rq response lres fs)
    from saved_as_call(2,4) [OF read(5)] show ?thesis
      by simp
  qed
qed

text \<open>
  Claim C10, as amended. Whatever the call, the last image path afterwards is the path
  of the last file the call has written, and the path it was before if the call has
  written none. So a path once set is never reset to absent, and a call of another tool
  than the two image tools leaves the path, and the world, as they were. (A failing
  image call is not in general without effect on the path: see the counterexample.)
\<close>

theorem last_image_path_kept:
  assumes "call_tool E request (s, w) = (res, s', w')"
  shows "lastImagePath s' =
           (if written_paths (new_events w w') = [] then lastImagePath s
            else Some (last (written_paths (new_events w w')))) \<and>
         (lastImagePath s \<noteq> None \<longrightarrow> lastImagePath s' \<noteq> None) \<and>
         (params_name request \<noteq> ''generate_image'' \<and> params_name request \<noteq> ''edit_image'' \<longrightarrow>
            lastImagePath s' = lastImagePath s \<and> w' = w)"
proof (cases "params_name request = ''generate_image'' \<or> params_name request = ''edit_image''")
  case True
  from image_call_last_path [OF True assms] True show ?thesis
    by auto
next
  case False
  with other_tools_quiet [of request E s w res s' w'] assms show ?thesis
    by auto
qed

theorem last_image_path_kept_witness:
  "call_tool example_env (tool_call ''generate_image'' red_ball_arguments)
     (example_server, example_world) =
     (Inr (red_ball_result ''/work/out/pic.png''),
      example_server\<lparr>lastImagePath := Some ''/work/out/pic.png''\<rparr>, red_ball_world) \<and>
   written_paths (new_events example_world red_ball_world) = [''/work/out/pic.png''] \<and>
   lastImagePath (example_server\<lparr>lastImagePath := Some ''/work/out/pic.png''\<rparr>) =
     Some (last (written_paths (new_events example_world red_ball_world)))"
  using example_red_ball last_image_path_kept [OF example_red_ball]
  by (simp add: new_events_def red_ball_world_def example_world_def)

text \<open>
  The claim as stated lets every failing \<^verbatim>\<open>generate_image\<close> call leave the last image
  path unchanged. Here the service answers with two images and the disk is full at the
  second: the call fails, and the path has moved from the old image to the first one.
\<close>

theorem failed_call_counterexample:
  "call_tool example_env (tool_call ''generate_image'' two_balls_arguments)
     (old_image_server, example_world) =
     (Inl (McpError InternalError ''Failed to generate image: ENOSPC: no space left on device, write''),
      old_image_server\<lparr>lastImagePath := Some ''/work/generated-2025-01-01T00-00-00-000Z-0k3x9f.png''\<rparr>,
      two_balls_world) \<and>
   lastImagePath old_image_server = Some ''/work/old.png'' \<and>
   lastImagePath (old_image_server
       \<lparr>lastImagePath := Some ''/work/generated-2025-01-01T00-00-00-000Z-0k3x9f.png''\<rparr>) \<noteq>
     lastImagePath old_image_server"
  using example_two_balls by (simp add: old_image_server_def)

section \<open>What a finished loop has collected\<close>

lemma collected_locals:
  assumes "collected ps no_locals l' fs"
  shows "content l' = map image_entry (image_datas ps)" "savedFiles l' = fs" "textContent l' = texts ps"
    "length fs = length (image_datas ps)"
  using assms by (simp_all add: collected_def no_locals_def)

section \<open>The request of an edit\<close>

lemma add_reference_images_eq:
  "add_reference_images E w refs imageParts =
     imageParts @
     List.map_filter
       (\<lambda>r. case fs_readFile E (Some r) w of
               Inl m \<Rightarrow> None
             | Inr rb \<Rightarrow> Some (InlineDataPart (base64_encode E rb) (getMimeType r))) refs"
  by (induction refs arbitrary: imageParts) (simp_all add: map_filter_simps split: sum.splits)

text \<open>
  Claim C6. An \<^verbatim>\<open>edit_image\<close> call whose main image can be read sends, if the server
  is configured, exactly one request (and no request otherwise). Its parts are the main
  image with its mime type, then the reference images that can be read, each with its
  mime type and in the order given, then the prompt. A reference that cannot be read is
  left out, and the request is sent all the same.
\<close>

theorem edit_request_parts:
  assumes tool: "params_name request = ''edit_image''"
    and args: "params_arguments request = Some a"
    and main: "imagePath a = Some p"
    and readable: "fs_readFile E (Some p) w = Inr b"
    and call: "call_tool E request (s, w) = (res, s', w')"
  shows "sent w' = sent w @
           (case genAI s of
              None \<Rightarrow> []
            | Some key \<Rightarrow>
                if config s = None then []
                else [(key, PartsContents
                              (InlineDataPart (base64_encode E b) (getMimeType p) #
                               List.map_filter
                                 (\<lambda>r. case fs_readFile E (Some r) w of
                                         Inl m \<Rightarrow> None
                                       | Inr rb \<Rightarrow>
                                           Some (InlineDataPart (base64_encode E rb) (getMimeType r)))
                                 (case referenceImages a of None \<Rightarrow> [] | Some rs \<Rightarrow> rs) @
                               [TextPart (prompt a)]))])"
proof -
  have parts: "edit_imageParts E w (js_string (imagePath a)) b (referenceImages a) (prompt a) =
      InlineDataPart (base64_encode E b) (getMimeType p) #
      List.map_filter
        (\<lambda>r. case fs_readFile E (Some r) w of
                Inl m \<Rightarrow> None
              | Inr rb \<Rightarrow> Some (InlineDataPart (base64_encode E rb) (getMimeType r)))
        (case referenceImages a of None \<Rightarrow> [] | Some rs \<Rightarrow> rs) @
      [TextPart (prompt a)]"
    using main by (simp add: edit_imageParts_def add_reference_images_eq js_string_def)
  from tool call show ?thesis
  proof (cases rule: edit_call_cases)
    case (early c m)
    with args main readable show ?thesis
      by (auto simp: ensureConfigured_def split: option.splits)
  next
    case (service_error a' b' key' rq m)
    with args main readable parts show ?thesis
      by (auto simp: ensureConfigured_def)
  next
    case (mkdir_error a' b' key' rq m)
    with args main readable parts show ?thesis
      by (auto simp: ensureConfigured_def)
  next
    case (read a' b' key' rq response lres fs)
    with args main readable parts show ?thesis
      by (auto simp: ensureConfigured_def)
  qed
qed

theorem edit_request_parts_witness:
  "fs_readFile example_env (Some ''/work/in.jpg'') example_world = Inr ''ABC'' \<and>
   fs_readFile example_env (Some ''/nope.png'') example_world =
     Inl (''ENOENT: no such file or directory, open '' @ sq @ ''/nope.png'' @ sq) \<and>
   fs_readFile example_env (Some ''/work/style.PNG'') example_world = Inr ''ABCDEFG'' \<and>
   call_tool example_env (tool_call ''edit_image'' blue_edit_arguments)
     (example_server, example_world) =
     (Inr blue_edit_result,
      example_server\<lparr>lastImagePath := Some ''/work/edited-2025-01-01T00-00-00-000Z-0k3x9f.png''\<rparr>,
      blue_edit_world) \<and>
   sent blue_edit_world =
     sent example_world @
     [(''key-1'',
       PartsContents
         [InlineDataPart ''QUJD'' ''image/jpeg'', InlineDataPart ''QUJDREVGRw=='' ''image/png'',
          TextPart (Some ''make it blue'')])]"
proof -
  have tool: "params_name (tool_call ''edit_image'' blue_edit_arguments) = ''edit_image''"
    and args: "params_arguments (tool_call ''edit_image'' blue_edit_arguments) = Some blue_edit_arguments"
    and main: "imagePath blue_edit_arguments = Some ''/work/in.jpg''"
    by (simp_all add: tool_call_def blue_edit_arguments_def no_arguments_def)
  have reads: "fs_readFile example_env (Some ''/work/in.jpg'') example_world = Inr ''ABC''"
    "fs_readFile example_env (Some ''/nope.png'') example_world =
       Inl (''ENOENT: no such file or directory, open '' @ sq @ ''/nope.png'' @ sq)"
    "fs_readFile example_env (Some ''/work/style.PNG'') example_world = Inr ''ABCDEFG''"
    by (simp_all add: fs_readFile_def example_env_def example_world_def)
  from edit_request_parts [OF tool args main reads(1) example_blue_edit] reads example_blue_edit
  show ?thesis
    by (simp add: blue_edit_world_def example_world_def)
qed

section \<open>From a write to the report of the last image\<close>

lemma path_normalize_nonempty: "path_normalize p \<noteq> []"
  by (simp add: path_normalize_def Let_def)

lemma path_join_nonempty: "path_join a b \<noteq> []"
  by (simp add: path_join_def path_normalize_nonempty)

lemma path_normalize_absolute:
  "path_isAbsolute p \<Longrightarrow> path_isAbsolute (path_normalize p)"
  by (cases p) (auto simp: path_isAbsolute_def path_normalize_def Let_def slash_def)

lemma path_join_absolute:
  "path_isAbsolute a \<Longrightarrow> path_isAbsolute (path_join a b)"
proof -
  assume abs: "path_isAbsolute a"
  then have "a \<noteq> []" and "path_isAbsolute (a @ ''/'' @ b)"
    by (cases a; simp add: path_isAbsolute_def)+
  with abs show ?thesis
    by (simp add: path_join_def path_normalize_absolute)
qed

lemma imagesDir_absolute:
  "path_isAbsolute (workplaceDir E s) \<Longrightarrow> path_isAbsolute (imagesDir E s rsp)"
  by (auto simp: imagesDir_def path_join_absolute split: option.splits)

lemma saved_as_joined:
  assumes "saved_as E dir prefix rsp ds st st' fs" and "f \<in> set fs"
  shows "\<exists>n. f = path_join dir n"
proof (cases "truthy rsp")
  case True
  with assms show ?thesis
    by (auto simp: saved_as_def)
next
  case False
  with assms show ?thesis
    by (auto simp: saved_as_def)
qed

lemma split_slash_nonempty: "split_slash p \<noteq> []"
  by (induction p) (auto split: list.splits)

lemma split_slash_append: "split_slash (a @ slash # b) = split_slash a @ split_slash b"
proof (induction a)
  case Nil
  then show ?case by simp
next
  case (Cons c a)
  then show ?case
    using split_slash_nonempty [of a]
    by (cases "split_slash a") auto
qed

lemma split_slash_plain: "slash \<notin> set seg \<Longrightarrow> split_slash seg = [seg]"
  by (induction seg) auto

lemma normalize_segments_append:
  "normalize_segments allow acc (xs @ ys) =
     normalize_segments allow (rev (normalize_segments allow acc xs)) ys"
  by (induction xs arbitrary: acc) (auto split: list.splits)

lemma join_with_snoc:
  "xs \<noteq> [] \<Longrightarrow> join_with sep (xs @ [x]) = join_with sep xs @ sep @ x"
  by (induction sep xs rule: join_with.induct) auto

text \<open>
  Joining a plain segment onto an absolute path that is in normal form and does not end
  in a slash appends it.
\<close>

lemma path_join_plain:
  assumes absolute: "path_isAbsolute wd" and normal: "path_normalize wd = wd"
    and no_slash: "last wd \<noteq> slash"
    and seg: "seg \<noteq> []" "slash \<notin> set seg" "seg \<noteq> ''.''" "seg \<noteq> ''..''"
  shows "path_join wd seg = wd @ ''/'' @ seg"
proof -
  let ?N = "normalize_segments False [] (split_slash wd)"
  from absolute have wd: "wd \<noteq> []" "hd wd = slash"
    by (cases wd; simp add: path_isAbsolute_def)+
  from normal wd no_slash have q: "join_with ''/'' ?N \<noteq> []" and eq: "wd = ''/'' @ join_with ''/'' ?N"
    by (auto simp: path_normalize_def normalizeString_def Let_def slash_def split: if_splits)
  then have N: "?N \<noteq> []"
    by auto
  have "split_slash (wd @ ''/'' @ seg) = split_slash wd @ [seg]"
    using split_slash_append [of wd seg] seg(2) by (simp add: split_slash_plain slash_def)
  then have "normalize_segments False [] (split_slash (wd @ ''/'' @ seg)) = ?N @ [seg]"
    using seg by (simp add: normalize_segments_append)
  then have "normalizeString (wd @ ''/'' @ seg) False = join_with ''/'' ?N @ ''/'' @ seg"
    using N by (simp add: normalizeString_def join_with_snoc)
  moreover have "last (wd @ ''/'' @ seg) \<noteq> slash"
  proof -
    from seg(1) have "last seg \<in> set seg"
      by (rule last_in_set)
    with seg(2) have "last seg \<noteq> slash"
      by metis
    with seg(1) show ?thesis
      by (simp add: last_append)
  qed
  moreover have "hd (wd @ ''/'' @ seg) = slash"
    using wd by simp
  ultimately have "path_normalize (wd @ ''/'' @ seg) = ''/'' @ join_with ''/'' ?N @ ''/'' @ seg"
    by (simp add: path_normalize_def Let_def)
  with eq have "path_normalize (wd @ ''/'' @ seg) = wd @ ''/'' @ seg"
    by simp
  with wd seg(1) show ?thesis
    by (simp add: path_join_def)
qed

lemma path_join_out_pic:
  assumes absolute: "path_isAbsolute wd" and normal: "path_normalize wd = wd"
    and no_slash: "last wd \<noteq> slash"
  shows "path_join (path_join wd ''out'') ''pic.png'' = wd @ ''/out/pic.png''"
proof -
  have out: "path_join wd ''out'' = wd @ ''/out''"
    using path_join_plain [OF assms, of "''out''"] by (simp add: slash_def)
  from absolute have "wd \<noteq> []"
    by (cases wd) (simp_all add: path_isAbsolute_def)
  then have "path_normalize (wd @ ''/out'') = wd @ ''/out''"
    using out by (simp add: path_join_def)
  moreover have "path_isAbsolute (wd @ ''/out'')"
    using absolute by (cases wd) (simp_all add: path_isAbsolute_def)
  moreover have "last (wd @ ''/out'') \<noteq> slash"
    by (simp add: slash_def)
  ultimately have "path_join (wd @ ''/out'') ''pic.png'' = (wd @ ''/out'') @ ''/'' @ ''pic.png''"
    by (intro path_join_plain) (simp_all add: slash_def)
  with out show ?thesis
    by simp
qed

lemma out_pic_dirname: "path_dirname ''out/pic.png'' = ''out''"
  by (simp add: path_dirname_def slash_def)

lemma out_pic_basename: "path_basename ''out/pic.png'' = ''pic.png''"
  by (simp add: path_basename_def slash_def)

section \<open>The request of a generation\<close>

lemma generate_sends:
  assumes tool: "params_name request = ''generate_image''"
    and args: "params_arguments request = Some a"
    and configured: "config s = Some c" "genAI s = Some key"
    and call: "call_tool E request (s, w) = (res, s', w')"
  shows "sent w' = sent w @ [(key, PromptContents (prompt a))]"
  using tool call
proof (cases rule: generate_call_cases)
  case (early c m)
  with args configured show ?thesis
    by (simp add: ensureConfigured_def)
next
  case (service_error a' key' rq m)
  with args configured show ?thesis by simp
next
  case (mkdir_error a' key' rq m)
  with args configured show ?thesis by simp
next
  case (read a' key' rq response lres fs)
  with args configured show ?thesis by simp
qed

section \<open>Evaluating the texts and the generated names\<close>

text \<open>An image part counted by \<^const>\<open>image_datas\<close> has data, and the data is not empty.\<close>

lemma image_datas_data:
  assumes "d \<in> set (image_datas ps)"
  shows "\<exists>x. inline_data d = Some x \<and> x \<noteq> []"
  using assms
  by (induction ps) (auto simp: image_datas_Cons truthy_def split: option.splits if_splits)

lemma image_datas_the:
  assumes "d \<in> set (image_datas ps)"
  shows "js_string (inline_data d) = the (inline_data d)"
  using image_datas_data [OF assms] by (auto simp: js_string_def)

lemma path_isAbsolute_take: "path_isAbsolute p = (take 1 p = ''/'')"
  by (cases p) (simp_all add: path_isAbsolute_def slash_def)

lemmas glyph_eval = glyph_art_def glyph_folder_def glyph_bulb_def glyph_cycle_def glyph_clipboard_def
  glyph_camera_def glyph_check_def glyph_pin_def

lemmas text_eval = generate_statusText_def generate_headline_def description_text_def
  generated_saved_text_def no_image_generated_text_def edit_statusText_def edit_headline_def
  edited_saved_text_def no_image_edited_text_def bullet_list_def js_string_def

lemma digit_char_Suc: "digit_char (Suc 0) = CHR ''1''"
  by code_simp

text \<open>Joining a generated name onto the workplace directory of the example appends it.\<close>

lemma work_plain:
  assumes "seg \<noteq> []" "slash \<notin> set seg" "seg \<noteq> ''.''" "seg \<noteq> ''..''"
  shows "path_join ''/work'' seg = ''/work/'' @ seg"
  using path_join_plain [OF _ _ _ assms, of "''/work''"]
  by (simp add: path_isAbsolute_def path_normalize_def normalizeString_def slash_def)

lemma work_names:
  "path_join ''/work'' ''generated-2025-01-01T00-00-00-000Z-0k3x9f.png'' =
     ''/work/generated-2025-01-01T00-00-00-000Z-0k3x9f.png''"
  "path_join ''/work'' ''generated-2025-01-01T00-00-01-000Z-1k3x9f.png'' =
     ''/work/generated-2025-01-01T00-00-01-000Z-1k3x9f.png''"
  "path_join ''/work'' ''edited-2025-01-01T00-00-00-000Z-0k3x9f.png'' =
     ''/work/edited-2025-01-01T00-00-00-000Z-0k3x9f.png''"
  by (simp_all add: work_plain slash_def)

text \<open>The unfolding of a call on the example server, without the functions of the path module.\<close>

lemmas run_eval = call_tool_def dispatch_def tool_call_def generateImage_def editImage_def
  ensureConfigured_def generate_try_def edit_try_def Let_def fs_mkdir_def fs_writeFile_def
  fs_readFile_def imagesDir_def workplaceDir_def config_workplacePath_def response_parts_def
  generate_part_def edit_part_def choose_fileName_def save_image_def add_text_def no_locals_def
  truthy_def js_string_def timestamped_name_def replace_colon_period_def substring_2_8_def
  mimeType_or_png_def no_arguments_def edit_imageParts_def example_server_eq example_env_def
  example_world_def example_decode_def example_encode_def response_with_def caption_def
  small_image_def large_image_def digit_chars digit_char_Suc example_mime_types spacious_env_def
  readonly_env_def red_ball_arguments_def two_balls_arguments_def two_pics_arguments_def
  describe_arguments_def blue_edit_arguments_def

section \<open>Calls that lack an argument\<close>

text \<open>
  Claim C2, as amended. Only \<^verbatim>\<open>configure_gemini_token\<close> checks an argument, and only
  when there is an argument object: a call whose object lacks \<^verbatim>\<open>apiKey\<close> fails with
  an invalid-params error and changes nothing. A call of one of the three tools that has
  no argument object fails with an internal error when the object is taken apart, and
  changes nothing. The image tools do not check their arguments: on a configured server
  an \<^verbatim>\<open>edit_image\<close> call whose object lacks \<^verbatim>\<open>imagePath\<close> fails when the image is read,
  with an internal error, before anything is sent or written; and a \<^verbatim>\<open>generate_image\<close>
  call whose object lacks \<^verbatim>\<open>prompt\<close> is not refused: its request is sent, with an
  undefined prompt.
\<close>

theorem missing_arguments:
  assumes call: "call_tool E request (s, w) = (res, s', w')"
  shows "(params_name request = ''configure_gemini_token'' \<longrightarrow>
            (params_arguments request = None \<longrightarrow>
               res = Inl (McpError InternalError
                            (''Tool execution failed: Cannot destructure property '' @ sq @ ''apiKey'' @ sq @
                             '' of '' @ sq @ ''request.params.arguments'' @ sq @ '' as it is undefined.'')) \<and>
               s' = s \<and> w' = w) \<and>
            (\<forall>a. params_arguments request = Some a \<and> apiKey a = None \<longrightarrow>
               res = Inl (McpError InvalidParams ''Invalid API key: Required'') \<and> s' = s \<and> w' = w)) \<and>
         (params_name request = ''edit_image'' \<and> config s \<noteq> None \<and> genAI s \<noteq> None \<longrightarrow>
            (params_arguments request = None \<longrightarrow>
               res = Inl (McpError InternalError
                            (''Tool execution failed: Cannot destructure property '' @ sq @ ''imagePath'' @ sq @
                             '' of '' @ sq @ ''request.params.arguments'' @ sq @ '' as it is undefined.'')) \<and>
               s' = s \<and> w' = w) \<and>
            (\<forall>a. params_arguments request = Some a \<and> imagePath a = None \<longrightarrow>
               res = Inl (McpError InternalError
                            (''Failed to edit image: The '' @ dq @ ''path'' @ dq @
                             '' argument must be of type string or an instance of Buffer or URL. Received undefined'')) \<and>
               s' = s \<and> w' = w)) \<and>
         (params_name request = ''generate_image'' \<and> config s \<noteq> None \<and> genAI s \<noteq> None \<longrightarrow>
            (params_arguments request = None \<longrightarrow>
               res = Inl (McpError InternalError
                            (''Tool execution failed: Cannot destructure property '' @ sq @ ''prompt'' @ sq @
                             '' of '' @ sq @ ''request.params.arguments'' @ sq @ '' as it is undefined.'')) \<and>
               s' = s \<and> w' = w) \<and>
            (\<forall>a key. params_arguments request = Some a \<and> prompt a = None \<and> genAI s = Some key \<longrightarrow>
               sent w' = sent w @ [(key, PromptContents None)]))"
proof (intro conjI impI allI)
  assume "params_name request = ''configure_gemini_token''" and "params_arguments request = None"
  with call
  show "res = Inl (McpError InternalError
                     (''Tool execution failed: Cannot destructure property '' @ sq @ ''apiKey'' @ sq @
                      '' of '' @ sq @ ''request.params.arguments'' @ sq @ '' as it is undefined.''))"
    and "s' = s" and "w' = w"
    by (simp_all add: call_tool_def dispatch_def configureGeminiToken_def cannot_destructure_def)
next
  fix a
  assume "params_name request = ''configure_gemini_token''"
    and "params_arguments request = Some a \<and> apiKey a = None"
  with call
  show "res = Inl (McpError InvalidParams ''Invalid API key: Required'')" and "s' = s" and "w' = w"
    by (simp_all add: call_tool_def dispatch_def configureGeminiToken_def ConfigSchema_parse_def)
next
  assume "params_name request = ''edit_image'' \<and> config s \<noteq> None \<and> genAI s \<noteq> None"
    and "params_arguments request = None"
  with call
  show "res = Inl (McpError InternalError
                     (''Tool execution failed: Cannot destructure property '' @ sq @ ''imagePath'' @ sq @
                      '' of '' @ sq @ ''request.params.arguments'' @ sq @ '' as it is undefined.''))"
    and "s' = s" and "w' = w"
    by (simp_all add: call_tool_def dispatch_def editImage_def ensureConfigured_def
        cannot_destructure_def)
next
  fix a
  assume "params_name request = ''edit_image'' \<and> config s \<noteq> None \<and> genAI s \<noteq> None"
    and "params_arguments request = Some a \<and> imagePath a = None"
  with call
  show "res = Inl (McpError InternalError
                     (''Failed to edit image: The '' @ dq @ ''path'' @ dq @
                      '' argument must be of type string or an instance of Buffer or URL. Received undefined''))"
    and "s' = s" and "w' = w"
    by (simp_all add: call_tool_def dispatch_def editImage_def ensureConfigured_def edit_try_def
        fs_readFile_def)
next
  assume "params_name request = ''generate_image'' \<and> config s \<noteq> None \<and> genAI s \<noteq> None"
    and "params_arguments request = None"
  with call
  show "res = Inl (McpError InternalError
                     (''Tool execution failed: Cannot destructure property '' @ sq @ ''prompt'' @ sq @
                      '' of '' @ sq @ ''request.params.arguments'' @ sq @ '' as it is undefined.''))"
    and "s' = s" and "w' = w"
    by (simp_all add: call_tool_def dispatch_def generateImage_def ensureConfigured_def
        cannot_destructure_def)
next
  fix a key
  assume "params_name request = ''generate_image'' \<and> config s \<noteq> None \<and> genAI s \<noteq> None"
    and "params_arguments request = Some a \<and> prompt a = None \<and> genAI s = Some key"
  then obtain c where "params_name request = ''generate_image''" "params_arguments request = Some a"
    "config s = Some c" "genAI s = Some key" and "prompt a = None"
    by auto
  from generate_sends [OF this(1-4) call] this(5)
  show "sent w' = sent w @ [(key, PromptContents None)]"
    by simp
qed

text \<open>
  The six cases on the example server, which is configured: the three tools without an
  argument object, and with an argument object that lacks the required argument.
\<close>

theorem missing_arguments_witness:
  "call_tool example_env (bare_call ''configure_gemini_token'') (example_server, example_world) =
     (Inl (McpError InternalError
             (''Tool execution failed: Cannot destructure property '' @ sq @ ''apiKey'' @ sq @
              '' of '' @ sq @ ''request.params.arguments'' @ sq @ '' as it is undefined.'')),
      example_server, example_world) \<and>
   call_tool example_env (tool_call ''configure_gemini_token'' no_arguments)
     (example_server, example_world) =
     (Inl (McpError InvalidParams ''Invalid API key: Required''), example_server, example_world) \<and>
   call_tool example_env (bare_call ''edit_image'') (example_server, example_world) =
     (Inl (McpError InternalError
             (''Tool execution failed: Cannot destructure property '' @ sq @ ''imagePath'' @ sq @
              '' of '' @ sq @ ''request.params.arguments'' @ sq @ '' as it is undefined.'')),
      example_server, example_world) \<and>
   call_tool example_env (tool_call ''edit_image'' (no_arguments\<lparr>prompt := Some ''make it blue''\<rparr>))
     (example_server, example_world) =
     (Inl (McpError InternalError
             (''Failed to edit image: The '' @ dq @ ''path'' @ dq @
              '' argument must be of type string or an instance of Buffer or URL. Received undefined'')),
      example_server, example_world) \<and>
   call_tool example_env (bare_call ''generate_image'') (example_server, example_world) =
     (Inl (McpError InternalError
             (''Tool execution failed: Cannot destructure property '' @ sq @ ''prompt'' @ sq @
              '' of '' @ sq @ ''request.params.arguments'' @ sq @ '' as it is undefined.'')),
      example_server, example_world) \<and>
   sent (snd (snd (call_tool example_env (tool_call ''generate_image'' no_arguments)
                     (example_server, example_world)))) =
     [(''key-1'', PromptContents None)]"
proof -
  have configured: "config example_server \<noteq> None" "genAI example_server = Some ''key-1''"
    by (simp_all add: example_server_eq)
  obtain res s' w' where sends: "call_tool example_env (tool_call ''generate_image'' no_arguments)
      (example_server, example_world) = (res, s', w')"
    by (metis prod_cases3)
  from missing_arguments [OF sends] configured
  have "sent w' = sent example_world @ [(''key-1'', PromptContents None)]"
    by (simp add: tool_call_def no_arguments_def)
  with sends have "sent (snd (snd (call_tool example_env (tool_call ''generate_image'' no_arguments)
                     (example_server, example_world)))) =
     [(''key-1'', PromptContents None)]"
    by (simp add: example_world_def)
  moreover have "call_tool example_env (bare_call ''configure_gemini_token'') (example_server, example_world) =
     (Inl (McpError InternalError
             (''Tool execution failed: Cannot destructure property '' @ sq @ ''apiKey'' @ sq @
              '' of '' @ sq @ ''request.params.arguments'' @ sq @ '' as it is undefined.'')),
      example_server, example_world)"
    "call_tool example_env (tool_call ''configure_gemini_token'' no_arguments)
     (example_server, example_world) =
     (Inl (McpError InvalidParams ''Invalid API key: Required''), example_server, example_world)"
    "call_tool example_env (bare_call ''edit_image'') (example_server, example_world) =
     (Inl (McpError InternalError
             (''Tool execution failed: Cannot destructure property '' @ sq @ ''imagePath'' @ sq @
              '' of '' @ sq @ ''request.params.arguments'' @ sq @ '' as it is undefined.'')),
      example_server, example_world)"
    "call_tool example_env (tool_call ''edit_image'' (no_arguments\<lparr>prompt := Some ''make it blue''\<rparr>))
     (example_server, example_world) =
     (Inl (McpError InternalError
             (''Failed to edit image: The '' @ dq @ ''path'' @ dq @
              '' argument must be of type string or an instance of Buffer or URL. Received undefined'')),
      example_server, example_world)"
    "call_tool example_env (bare_call ''generate_image'') (example_server, example_world) =
     (Inl (McpError InternalError
             (''Tool execution failed: Cannot destructure property '' @ sq @ ''prompt'' @ sq @
              '' of '' @ sq @ ''request.params.arguments'' @ sq @ '' as it is undefined.'')),
      example_server, example_world)"
    by (simp_all add: run_eval bare_call_def configureGeminiToken_def ConfigSchema_parse_def
        cannot_destructure_def)
  ultimately show ?thesis
    by (intro conjI)
qed

text \<open>
  The claim as stated has every call that lacks a required argument fail with an
  invalid-arguments error before anything is sent or written. On the configured example
  server a call of any of the three tools without an argument object, and an
  \<^verbatim>\<open>edit_image\<close> call without \<^verbatim>\<open>imagePath\<close>, fail with an internal error instead, and a
  \<^verbatim>\<open>generate_image\<close> call without \<^verbatim>\<open>prompt\<close> sends its request, and fails with an
  internal error only when the service refuses it.
\<close>

theorem unvalidated_arguments_counterexample:
  "call_tool example_env (bare_call ''configure_gemini_token'') (example_server, example_world) =
     (Inl (McpError InternalError
             (''Tool execution failed: Cannot destructure property '' @ sq @ ''apiKey'' @ sq @
              '' of '' @ sq @ ''request.params.arguments'' @ sq @ '' as it is undefined.'')),
      example_server, example_world) \<and>
   call_tool example_env (bare_call ''generate_image'') (example_server, example_world) =
     (Inl (McpError InternalError
             (''Tool execution failed: Cannot destructure property '' @ sq @ ''prompt'' @ sq @
              '' of '' @ sq @ ''request.params.arguments'' @ sq @ '' as it is undefined.'')),
      example_server, example_world) \<and>
   call_tool example_env (bare_call ''edit_image'') (example_server, example_world) =
     (Inl (McpError InternalError
             (''Tool execution failed: Cannot destructure property '' @ sq @ ''imagePath'' @ sq @
              '' of '' @ sq @ ''request.params.arguments'' @ sq @ '' as it is undefined.'')),
      example_server, example_world) \<and>
   call_tool example_env (tool_call ''edit_image'' (no_arguments\<lparr>prompt := Some ''make it blue''\<rparr>))
     (example_server, example_world) =
     (Inl (McpError InternalError
             (''Failed to edit image: The '' @ dq @ ''path'' @ dq @
              '' argument must be of type string or an instance of Buffer or URL. Received undefined'')),
      example_server, example_world) \<and>
   call_tool example_env (tool_call ''generate_image'' no_arguments) (example_server, example_world) =
     (Inl (McpError InternalError ''Failed to generate image: Request contains an invalid argument.''),
      example_server,
      example_world\<lparr>sent := [(''key-1'', PromptContents None)]\<rparr>)"
  by (simp add: run_eval bare_call_def configureGeminiToken_def cannot_destructure_def)

section \<open>File names\<close>

text \<open>
  Claim C5. Every file an image call writes is named as follows. If the call gives a
  save path (present and truthy, that is, not the empty string), every file is written
  under the base name of that path (what follows its last slash, slashes at its end
  aside), in the directory part of the path under the workplace directory; all image
  parts share it, and the file holds the image written last. If the call gives none, each
  file is written to the workplace directory under the prefix (\<^verbatim>\<open>generated-\<close> or
  \<^verbatim>\<open>edited-\<close>), the time stamp of a clock reading of its own in which every colon
  and every period is replaced by a hyphen, a hyphen, the six characters of a random
  token that follow its first two, and \<^verbatim>\<open>.png\<close>. In a call that succeeds, every image
  part that carries data has been written.
\<close>

theorem saved_file_names:
  assumes tool: "(params_name request = ''generate_image'' \<and> prefix = ''generated-'') \<or>
                 (params_name request = ''edit_image'' \<and> prefix = ''edited-'')"
    and call: "call_tool E request (s, w) = (res, s', w')"
  shows "(\<forall>a r. params_arguments request = Some a \<and> relative_save_path a = Some r \<and> r \<noteq> [] \<longrightarrow>
            (\<forall>f \<in> set (written_paths (new_events w w')).
               f = path_join (path_join (workplaceDir E s) (path_dirname r))
                     (rev (takeWhile (\<lambda>c. c \<noteq> CHR ''/'') (dropWhile (\<lambda>c. c = CHR ''/'') (rev r)))))) \<and>
         ((\<forall>a. params_arguments request = Some a \<longrightarrow>
                 relative_save_path a = None \<or> relative_save_path a = Some []) \<longrightarrow>
            (\<exists>ks. sorted_wrt (<) ks \<and>
                  (\<forall>k \<in> set ks. clock_reads w \<le> k \<and> k < clock_reads w') \<and>
                  written_paths (new_events w w') =
                    map (\<lambda>k. path_join (workplaceDir E s)
                                (prefix @
                                 map (\<lambda>c. if c = CHR '':'' \<or> c = CHR ''.'' then CHR ''-'' else c)
                                   (toISOString E k) @
                                 ''-'' @ take 6 (drop 2 (random_base36 E k)) @ ''.png'')) ks)) \<and>
         (written_paths (new_events w w') \<noteq> [] \<longrightarrow>
            files w' (last (written_paths (new_events w w'))) =
              Some (base64_decode E (the (inline_data
                      (image_datas (answer_parts (last_answer E w')) !
                         (length (written_paths (new_events w w')) - 1)))))) \<and>
         (\<forall>r. res = Inr r \<longrightarrow>
            length (written_paths (new_events w w')) =
              length (image_datas (answer_parts (last_answer E w'))))"
  using tool call
proof (cases rule: image_call_cases)
  case (early c m)
  then show ?thesis
    by (auto intro: exI [of _ "[]"])
next
  case (no_answer a' rq c m)
  then show ?thesis
    by (auto intro: exI [of _ "[]"])
next
  case (read a' rq response lres fs)
  note eff = saved_as_call [OF read(5)]
  have given: "\<forall>f \<in> set (written_paths (new_events w w')).
      f = path_join (path_join (workplaceDir E s) (path_dirname r))
            (rev (takeWhile (\<lambda>c. c \<noteq> CHR ''/'') (dropWhile (\<lambda>c. c = CHR ''/'') (rev r))))"
    if "params_arguments request = Some a" "relative_save_path a = Some r" "r \<noteq> []" for a r
  proof -
    from that(1) read(1) have "a' = a"
      by simp
    with eff(8) eff(2) that(2,3) show ?thesis
      by (simp add: truthy_def js_string_def imagesDir_def path_basename_def slash_def)
  qed
  have fresh: "\<exists>ks. sorted_wrt (<) ks \<and>
      (\<forall>k \<in> set ks. clock_reads w \<le> k \<and> k < clock_reads w') \<and>
      written_paths (new_events w w') =
        map (\<lambda>k. path_join (workplaceDir E s)
                    (prefix @
                     map (\<lambda>c. if c = CHR '':'' \<or> c = CHR ''.'' then CHR ''-'' else c)
                       (toISOString E k) @
                     ''-'' @ take 6 (drop 2 (random_base36 E k)) @ ''.png'')) ks"
    if "\<forall>a. params_arguments request = Some a \<longrightarrow>
          relative_save_path a = None \<or> relative_save_path a = Some []"
  proof -
    from that read(1) have "relative_save_path a' = None \<or> relative_save_path a' = Some []"
      by simp
    then have "\<not> truthy (relative_save_path a')"
      and "imagesDir E s (relative_save_path a') = workplaceDir E s"
      by (auto simp: truthy_def imagesDir_def)
    with eff(9) eff(2) show ?thesis
      by (simp add: timestamped_name_def replace_colon_period_def substring_2_8_def)
  qed
  have last: "files w' (last (written_paths (new_events w w'))) =
      Some (base64_decode E (the (inline_data
              (image_datas (answer_parts (last_answer E w')) !
                 (length (written_paths (new_events w w')) - 1)))))"
    if "written_paths (new_events w w') \<noteq> []"
  proof -
    from that eff(2,3) have "length fs - 1 < length (image_datas (answer_parts (last_answer E w')))"
      by (cases fs) simp_all
    then have "image_datas (answer_parts (last_answer E w')) ! (length fs - 1) \<in>
        set (image_datas (answer_parts (last_answer E w')))"
      by (rule nth_mem)
    from image_datas_the [OF this] eff(6) eff(2) that show ?thesis
      by simp
  qed
  have all: "length (written_paths (new_events w w')) =
      length (image_datas (answer_parts (last_answer E w')))" if "res = Inr r" for r
  proof (cases lres)
    case (Inl m)
    with read(7) that show ?thesis
      by auto
  next
    case (Inr l')
    with read(6) eff(2) show ?thesis
      by (simp add: collected_def)
  qed
  from given fresh last all show ?thesis
    by blast
qed

text \<open>
  Four calls on the example server, whose workplace directory is \<^verbatim>\<open>/work\<close>: with the
  save path \<^verbatim>\<open>out/pic.png\<close> and one image; with the same save path and two images,
  which are written to the same file one after the other; without a save path and with
  two images, named from two clock readings; and an edit without a save path.
\<close>

theorem saved_file_names_witness:
  "relative_save_path red_ball_arguments = Some ''out/pic.png'' \<and>
   fs_log (snd (snd (call_tool example_env (tool_call ''generate_image'' red_ball_arguments)
                       (example_server, example_world)))) =
     [Mkdir ''/work/out'', WriteFile ''/work/out/pic.png'' ''ABC''] \<and>
   relative_save_path two_pics_arguments = Some ''out/pic.png'' \<and>
   fs_log (snd (snd (call_tool spacious_env (tool_call ''generate_image'' two_pics_arguments)
                       (example_server, example_world)))) =
     [Mkdir ''/work/out'', WriteFile ''/work/out/pic.png'' ''ABC'',
      WriteFile ''/work/out/pic.png'' ''ABCDEFG''] \<and>
   files (snd (snd (call_tool spacious_env (tool_call ''generate_image'' two_pics_arguments)
                      (example_server, example_world)))) ''/work/out/pic.png'' = Some ''ABCDEFG'' \<and>
   relative_save_path two_balls_arguments = None \<and>
   toISOString spacious_env 0 = ''2025-01-01T00:00:00.000Z'' \<and>
   random_base36 spacious_env 0 = ''0.0k3x9fzq2'' \<and>
   toISOString spacious_env 1 = ''2025-01-01T00:00:01.000Z'' \<and>
   random_base36 spacious_env 1 = ''0.1k3x9fzq2'' \<and>
   fs_log (snd (snd (call_tool spacious_env (tool_call ''generate_image'' two_balls_arguments)
                       (example_server, example_world)))) =
     [Mkdir ''/work'',
      WriteFile ''/work/generated-2025-01-01T00-00-00-000Z-0k3x9f.png'' ''ABC'',
      WriteFile ''/work/generated-2025-01-01T00-00-01-000Z-1k3x9f.png'' ''ABCDEFG''] \<and>
   relative_save_path blue_edit_arguments = None \<and>
   fs_log (snd (snd (call_tool example_env (tool_call ''edit_image'' blue_edit_arguments)
                       (example_server, example_world)))) =
     [Mkdir ''/work'', WriteFile ''/work/edited-2025-01-01T00-00-00-000Z-0k3x9f.png'' ''ABC'']"
proof -
  have generate: "(params_name (tool_call ''generate_image'' a) = ''generate_image'' \<and>
        ''generated-'' = ''generated-'') \<or>
      (params_name (tool_call ''generate_image'' a) = ''edit_image'' \<and> ''generated-'' = ''edited-'')"
    and edit: "(params_name (tool_call ''edit_image'' a) = ''generate_image'' \<and>
        ''edited-'' = ''generated-'') \<or>
      (params_name (tool_call ''edit_image'' a) = ''edit_image'' \<and> ''edited-'' = ''edited-'')" for a
    by (simp_all add: tool_call_def)
  have paths: "relative_save_path red_ball_arguments = Some ''out/pic.png''"
    "relative_save_path two_pics_arguments = Some ''out/pic.png''"
    "relative_save_path two_balls_arguments = None"
    "relative_save_path blue_edit_arguments = None"
    by (simp_all add: red_ball_arguments_def two_pics_arguments_def two_balls_arguments_def
        blue_edit_arguments_def no_arguments_def)
  have clock: "toISOString spacious_env 0 = ''2025-01-01T00:00:00.000Z''"
    "random_base36 spacious_env 0 = ''0.0k3x9fzq2''"
    "toISOString spacious_env 1 = ''2025-01-01T00:00:01.000Z''"
    "random_base36 spacious_env 1 = ''0.1k3x9fzq2''"
    by (simp_all add: spacious_env_def example_env_def digit_chars digit_char_Suc)
  have one_named: "call_tool example_env (tool_call ''generate_image'' red_ball_arguments)
      (example_server, example_world) =
    (Inr (red_ball_result ''/work/out/pic.png''),
     example_server\<lparr>lastImagePath := Some ''/work/out/pic.png''\<rparr>,
     example_world\<lparr>files := (files example_world)(''/work/out/pic.png'' \<mapsto> ''ABC''),
       fs_log := [Mkdir ''/work/out'', WriteFile ''/work/out/pic.png'' ''ABC''],
       sent := [(''key-1'', PromptContents (Some ''a red ball''))]\<rparr>)"
    by (simp add: run_eval path_eval red_ball_result_def)
  have two_named: "call_tool spacious_env (tool_call ''generate_image'' two_pics_arguments)
      (example_server, example_world) =
    (Inr [TextContent
            (generate_statusText (Some ''two balls'')
               \<lparr>content = [ImageContent ''QUJD'' ''image/png'',
                            ImageContent ''QUJDREVGRw=='' ''image/png''],
                savedFiles = [''/work/out/pic.png'', ''/work/out/pic.png''],
                textContent = []\<rparr>),
          ImageContent ''QUJD'' ''image/png'', ImageContent ''QUJDREVGRw=='' ''image/png''],
     example_server\<lparr>lastImagePath := Some ''/work/out/pic.png''\<rparr>,
     example_world\<lparr>files := (files example_world)(''/work/out/pic.png'' \<mapsto> ''ABCDEFG''),
       fs_log := [Mkdir ''/work/out'', WriteFile ''/work/out/pic.png'' ''ABC'',
                  WriteFile ''/work/out/pic.png'' ''ABCDEFG''],
       sent := [(''key-1'', PromptContents (Some ''two balls''))]\<rparr>)"
    by (simp add: run_eval path_eval)
  have two_fresh: "call_tool spacious_env (tool_call ''generate_image'' two_balls_arguments)
      (example_server, example_world) =
    (Inr [TextContent
            (generate_statusText (Some ''two balls'')
               \<lparr>content = [ImageContent ''QUJD'' ''image/png'',
                            ImageContent ''QUJDREVGRw=='' ''image/png''],
                savedFiles = [''/work/generated-2025-01-01T00-00-00-000Z-0k3x9f.png'',
                              ''/work/generated-2025-01-01T00-00-01-000Z-1k3x9f.png''],
                textContent = []\<rparr>),
          ImageContent ''QUJD'' ''image/png'', ImageContent ''QUJDREVGRw=='' ''image/png''],
     example_server\<lparr>lastImagePath := Some ''/work/generated-2025-01-01T00-00-01-000Z-1k3x9f.png''\<rparr>,
     example_world\<lparr>files := (files example_world)
         (''/work/generated-2025-01-01T00-00-00-000Z-0k3x9f.png'' \<mapsto> ''ABC'',
          ''/work/generated-2025-01-01T00-00-01-000Z-1k3x9f.png'' \<mapsto> ''ABCDEFG''),
       fs_log := [Mkdir ''/work'',
                  WriteFile ''/work/generated-2025-01-01T00-00-00-000Z-0k3x9f.png'' ''ABC'',
                  WriteFile ''/work/generated-2025-01-01T00-00-01-000Z-1k3x9f.png'' ''ABCDEFG''],
       sent := [(''key-1'', PromptContents (Some ''two balls''))],
       clock_reads := 2\<rparr>)"
    by (simp add: run_eval work_names)
  have edit_fresh: "call_tool example_env (tool_call ''edit_image'' blue_edit_arguments)
      (example_server, example_world) =
    (Inr blue_edit_result,
     example_server\<lparr>lastImagePath := Some ''/work/edited-2025-01-01T00-00-00-000Z-0k3x9f.png''\<rparr>,
     example_world\<lparr>files := (files example_world)
         (''/work/edited-2025-01-01T00-00-00-000Z-0k3x9f.png'' \<mapsto> ''ABC''),
       fs_log := [Mkdir ''/work'',
                  WriteFile ''/work/edited-2025-01-01T00-00-00-000Z-0k3x9f.png'' ''ABC''],
       sent := [(''key-1'',
                 PartsContents
                   [InlineDataPart ''QUJD'' ''image/jpeg'',
                    InlineDataPart ''QUJDREVGRw=='' ''image/png'',
                    TextPart (Some ''make it blue'')])],
       clock_reads := 1\<rparr>)"
    by (simp add: run_eval work_names blue_edit_result_def)
  note named = saved_file_names [OF generate one_named] saved_file_names [OF generate two_named]
  note fresh = saved_file_names [OF generate two_fresh] saved_file_names [OF edit edit_fresh]
  from named fresh paths clock show ?thesis
    by (simp add: one_named two_named two_fresh edit_fresh)
qed

section \<open>The text and the images returned\<close>

text \<open>
  Claim C7, as amended. The content of a successful image call is one text entry
  followed by one image entry (data and mime type, \<^verbatim>\<open>image/png\<close> if the part names
  none) for each image part of the response, in their order; the files written are one
  per image entry, in the same order, after the save directory has been made. The text
  is the headline of the tool with the prompt, then, if the response has text, a
  description made of its text parts in order, then the list of the files saved or, with
  no image, the note that no image was generated. A response without image parts makes
  the call succeed with that text alone, provided the save directory can be made: the
  directory is made before the parts are read (see the counterexample).
\<close>

theorem result_content:
  assumes tool: "params_name request = ''generate_image'' \<or> params_name request = ''edit_image''"
    and call: "call_tool E request (s, w) = (res, s', w')"
  shows "(\<forall>r. res = Inr r \<longrightarrow>
            (\<exists>a. params_arguments request = Some a \<and>
               r = TextContent
                     (if params_name request = ''generate_image''
                      then glyph_art @ '' Image generated with nano-banana (Gemini 2.5 Flash Image)!'' @ nl @ nl @
                           ''Prompt: '' @ dq @ (case prompt a of None \<Rightarrow> ''undefined'' | Some v \<Rightarrow> v) @ dq @
                           (if texts (answer_parts (last_answer E w')) \<noteq> [] then nl @ nl @ ''Description: '' @ texts (answer_parts (last_answer E w')) else []) @
                           (if written_paths (new_events w w') \<noteq> []
                            then nl @ nl @ glyph_folder @ '' Image saved to:'' @ nl @
                                 join_with nl (map (\<lambda>f. ''- '' @ f) (written_paths (new_events w w'))) @
                                 nl @ nl @ glyph_bulb @ '' View the image by:'' @
                                 nl @ ''1. Opening the file at the path above'' @
                                 nl @ ''2. Clicking on '' @ dq @ ''Called generate_image'' @ dq @
                                   '' in Cursor to expand the MCP call details'' @
                                 nl @ nl @ glyph_cycle @ '' To modify this image, use: continue_editing'' @
                                 nl @ glyph_clipboard @ '' To check current image info, use: get_last_image_info''
                            else nl @ nl @ ''Note: No image was generated. The model may have returned only text.'' @
                                 nl @ nl @ glyph_bulb @
                                   '' Tip: Try running the command again - sometimes the first call needs to warm up the model.'')
                      else glyph_art @ '' Image edited with nano-banana!'' @ nl @ nl @
                           ''Original: '' @ (case imagePath a of None \<Rightarrow> ''undefined'' | Some v \<Rightarrow> v) @ nl @
                           ''Edit prompt: '' @ dq @ (case prompt a of None \<Rightarrow> ''undefined'' | Some v \<Rightarrow> v) @ dq @
                           (case referenceImages a of
                              None \<Rightarrow> []
                            | Some rs \<Rightarrow>
                                if 0 < length rs then nl @ nl @ ''Reference images used:'' @ nl @ join_with nl (map (\<lambda>f. ''- '' @ f) rs) else []) @
                           (if texts (answer_parts (last_answer E w')) \<noteq> [] then nl @ nl @ ''Description: '' @ texts (answer_parts (last_answer E w')) else []) @
                           (if written_paths (new_events w w') \<noteq> []
                            then nl @ nl @ glyph_folder @ '' Edited image saved to:'' @ nl @
                                 join_with nl (map (\<lambda>f. ''- '' @ f) (written_paths (new_events w w'))) @
                                 nl @ nl @ glyph_bulb @ '' View the edited image by:'' @
                                 nl @ ''1. Opening the file at the path above'' @
                                 nl @ ''2. Clicking on '' @ dq @ ''Called edit_image'' @ dq @
                                   '' in Cursor to expand the MCP call details'' @
                                 nl @ nl @ glyph_cycle @ '' To continue editing, use: continue_editing'' @
                                 nl @ glyph_clipboard @ '' To check current image info, use: get_last_image_info''
                            else nl @ nl @ ''Note: No edited image was generated.'' @
                                 nl @ nl @ glyph_bulb @
                                   '' Tip: Try running the command again - sometimes the first call needs to warm up the model.'')) #
                   map (\<lambda>d. ImageContent (the (inline_data d))
                              (case inline_mimeType d of
                                 None \<Rightarrow> ''image/png''
                               | Some m \<Rightarrow> if m = [] then ''image/png'' else m))
                     (image_datas (answer_parts (last_answer E w'))) \<and>
               new_events w w' =
                 Mkdir (imagesDir E s (relative_save_path a)) #
                 map2 (\<lambda>f d. WriteFile f (base64_decode E (the (inline_data d))))
                   (written_paths (new_events w w'))
                   (image_datas (answer_parts (last_answer E w'))) \<and>
               length (written_paths (new_events w w')) =
                 length (image_datas (answer_parts (last_answer E w'))))) \<and>
         (\<forall>a. params_arguments request = Some a \<and> sent w' \<noteq> sent w \<and>
              (\<exists>response. last_answer E w' = Inr response) \<and>
              image_datas (answer_parts (last_answer E w')) = [] \<and>
              mkdir_fails E (imagesDir E s (relative_save_path a)) = None \<longrightarrow>
            res = Inr [TextContent
                         (if params_name request = ''generate_image''
                          then glyph_art @ '' Image generated with nano-banana (Gemini 2.5 Flash Image)!'' @ nl @ nl @
                               ''Prompt: '' @ dq @ (case prompt a of None \<Rightarrow> ''undefined'' | Some v \<Rightarrow> v) @ dq @
                               (if texts (answer_parts (last_answer E w')) \<noteq> [] then nl @ nl @ ''Description: '' @ texts (answer_parts (last_answer E w')) else []) @
                               nl @ nl @ ''Note: No image was generated. The model may have returned only text.'' @
                               nl @ nl @ glyph_bulb @
                                 '' Tip: Try running the command again - sometimes the first call needs to warm up the model.''
                          else glyph_art @ '' Image edited with nano-banana!'' @ nl @ nl @
                               ''Original: '' @ (case imagePath a of None \<Rightarrow> ''undefined'' | Some v \<Rightarrow> v) @ nl @
                               ''Edit prompt: '' @ dq @ (case prompt a of None \<Rightarrow> ''undefined'' | Some v \<Rightarrow> v) @ dq @
                               (case referenceImages a of
                                  None \<Rightarrow> []
                                | Some rs \<Rightarrow>
                                    if 0 < length rs then nl @ nl @ ''Reference images used:'' @ nl @ join_with nl (map (\<lambda>f. ''- '' @ f) rs) else []) @
                               (if texts (answer_parts (last_answer E w')) \<noteq> [] then nl @ nl @ ''Description: '' @ texts (answer_parts (last_answer E w')) else []) @
                               nl @ nl @ ''Note: No edited image was generated.'' @
                               nl @ nl @ glyph_bulb @
                                 '' Tip: Try running the command again - sometimes the first call needs to warm up the model.'')])"
proof -
  have bullets: "bullet_list fs = join_with nl (map ((@) ''- '') fs)" for fs
    unfolding bullet_list_def by (rule refl)
  have generate_statusText_eq: "generate_statusText p l =
      glyph_art @ '' Image generated with nano-banana (Gemini 2.5 Flash Image)!'' @ nl @ nl @
      ''Prompt: '' @ dq @ (case p of None \<Rightarrow> ''undefined'' | Some v \<Rightarrow> v) @ dq @
      (if textContent l \<noteq> [] then nl @ nl @ ''Description: '' @ textContent l else []) @
      (if savedFiles l \<noteq> []
       then nl @ nl @ glyph_folder @ '' Image saved to:'' @ nl @
            join_with nl (map (\<lambda>f. ''- '' @ f) (savedFiles l)) @
            nl @ nl @ glyph_bulb @ '' View the image by:'' @
            nl @ ''1. Opening the file at the path above'' @
            nl @ ''2. Clicking on '' @ dq @ ''Called generate_image'' @ dq @
              '' in Cursor to expand the MCP call details'' @
            nl @ nl @ glyph_cycle @ '' To modify this image, use: continue_editing'' @
            nl @ glyph_clipboard @ '' To check current image info, use: get_last_image_info''
       else nl @ nl @ ''Note: No image was generated. The model may have returned only text.'' @
            nl @ nl @ glyph_bulb @
              '' Tip: Try running the command again - sometimes the first call needs to warm up the model.'')" for p l
    by (simp add: generate_statusText_def generate_headline_def description_text_def
        generated_saved_text_def no_image_generated_text_def bullets js_string_def)
  have edit_statusText_eq: "edit_statusText a l =
      glyph_art @ '' Image edited with nano-banana!'' @ nl @ nl @
      ''Original: '' @ (case imagePath a of None \<Rightarrow> ''undefined'' | Some v \<Rightarrow> v) @ nl @
      ''Edit prompt: '' @ dq @ (case prompt a of None \<Rightarrow> ''undefined'' | Some v \<Rightarrow> v) @ dq @
      (case referenceImages a of
         None \<Rightarrow> []
       | Some rs \<Rightarrow>
           if 0 < length rs then nl @ nl @ ''Reference images used:'' @ nl @ join_with nl (map (\<lambda>f. ''- '' @ f) rs) else []) @
      (if textContent l \<noteq> [] then nl @ nl @ ''Description: '' @ textContent l else []) @
      (if savedFiles l \<noteq> []
       then nl @ nl @ glyph_folder @ '' Edited image saved to:'' @ nl @
            join_with nl (map (\<lambda>f. ''- '' @ f) (savedFiles l)) @
            nl @ nl @ glyph_bulb @ '' View the edited image by:'' @
            nl @ ''1. Opening the file at the path above'' @
            nl @ ''2. Clicking on '' @ dq @ ''Called edit_image'' @ dq @
              '' in Cursor to expand the MCP call details'' @
            nl @ nl @ glyph_cycle @ '' To continue editing, use: continue_editing'' @
            nl @ glyph_clipboard @ '' To check current image info, use: get_last_image_info''
       else nl @ nl @ ''Note: No edited image was generated.'' @
            nl @ nl @ glyph_bulb @
              '' Tip: Try running the command again - sometimes the first call needs to warm up the model.'')" for a l
    unfolding edit_statusText_def edit_headline_def description_text_def edited_saved_text_def
      no_image_edited_text_def bullets js_string_def
    by simp
  from tool obtain prefix where
    "(params_name request = ''generate_image'' \<and> prefix = ''generated-'') \<or>
     (params_name request = ''edit_image'' \<and> prefix = ''edited-'')"
    by auto
  from this call show ?thesis
  proof (cases rule: image_call_cases)
    case (early c m)
    then show ?thesis by simp
  next
    case (no_answer a' rq c m)
    then show ?thesis by auto
  next
    case (read a' rq response lres fs)
    note eff = saved_as_call [OF read(5)]
    let ?ps = "answer_parts (last_answer E w')"
    have written: "written_paths (new_events w w') = fs"
      by (rule eff(2))
    have "map2 (image_write E) fs (image_datas ?ps) =
        map2 (\<lambda>f d. WriteFile f (base64_decode E (the (inline_data d)))) fs (image_datas ?ps)"
      by (rule map_cong)
        (auto dest!: set_zip_rightD simp: image_write_def image_datas_the)
    with eff(1) have events: "new_events w w' =
        Mkdir (imagesDir E s (relative_save_path a')) #
        map2 (\<lambda>f d. WriteFile f (base64_decode E (the (inline_data d)))) fs (image_datas ?ps)"
      by simp
    have entries: "map image_entry (image_datas ?ps) =
        map (\<lambda>d. ImageContent (the (inline_data d))
                   (case inline_mimeType d of
                      None \<Rightarrow> ''image/png''
                    | Some m \<Rightarrow> if m = [] then ''image/png'' else m))
          (image_datas ?ps)"
      by (rule map_cong)
        (auto simp: image_entry_def mimeType_or_png_def truthy_def js_string_def
          dest!: image_datas_data split: option.splits)
    show ?thesis
    proof (cases lres)
      case (Inl m)
      with read(7) obtain c e where failed: "res = Inl (McpError c e)"
        and short: "length fs < length (image_datas ?ps)"
        by auto
      with read(1) show ?thesis
        by auto
    next
      case (Inr l')
      with read(6) have col: "collected ?ps no_locals l' fs"
        and res: "res = Inr (TextContent (if params_name request = ''generate_image''
                                 then generate_statusText (prompt a') l'
                                 else edit_statusText a' l') # content l')"
        by simp_all
      note l' = collected_locals [OF col]
      have none: "fs = []" if "image_datas ?ps = []"
        using l'(4) that by simp
      from res l'(1-3) have shape: "res = Inr
          (TextContent
             (if params_name request = ''generate_image''
              then glyph_art @ '' Image generated with nano-banana (Gemini 2.5 Flash Image)!'' @ nl @ nl @
                   ''Prompt: '' @ dq @ (case prompt a' of None \<Rightarrow> ''undefined'' | Some v \<Rightarrow> v) @ dq @
                   (if texts ?ps \<noteq> [] then nl @ nl @ ''Description: '' @ texts ?ps else []) @
                   (if fs \<noteq> []
                    then nl @ nl @ glyph_folder @ '' Image saved to:'' @ nl @
                         join_with nl (map (\<lambda>f. ''- '' @ f) fs) @
                         nl @ nl @ glyph_bulb @ '' View the image by:'' @
                         nl @ ''1. Opening the file at the path above'' @
                         nl @ ''2. Clicking on '' @ dq @ ''Called generate_image'' @ dq @
                           '' in Cursor to expand the MCP call details'' @
                         nl @ nl @ glyph_cycle @ '' To modify this image, use: continue_editing'' @
                         nl @ glyph_clipboard @ '' To check current image info, use: get_last_image_info''
                    else nl @ nl @ ''Note: No image was generated. The model may have returned only text.'' @
                         nl @ nl @ glyph_bulb @
                           '' Tip: Try running the command again - sometimes the first call needs to warm up the model.'')
              else glyph_art @ '' Image edited with nano-banana!'' @ nl @ nl @
                   ''Original: '' @ (case imagePath a' of None \<Rightarrow> ''undefined'' | Some v \<Rightarrow> v) @ nl @
                   ''Edit prompt: '' @ dq @ (case prompt a' of None \<Rightarrow> ''undefined'' | Some v \<Rightarrow> v) @ dq @
                   (case referenceImages a' of
                      None \<Rightarrow> []
                    | Some rs \<Rightarrow>
                        if 0 < length rs then nl @ nl @ ''Reference images used:'' @ nl @ join_with nl (map (\<lambda>f. ''- '' @ f) rs) else []) @
                   (if texts ?ps \<noteq> [] then nl @ nl @ ''Description: '' @ texts ?ps else []) @
                   (if fs \<noteq> []
                    then nl @ nl @ glyph_folder @ '' Edited image saved to:'' @ nl @
                         join_with nl (map (\<lambda>f. ''- '' @ f) fs) @
                         nl @ nl @ glyph_bulb @ '' View the edited image by:'' @
                         nl @ ''1. Opening the file at the path above'' @
                         nl @ ''2. Clicking on '' @ dq @ ''Called edit_image'' @ dq @
                           '' in Cursor to expand the MCP call details'' @
                         nl @ nl @ glyph_cycle @ '' To continue editing, use: continue_editing'' @
                         nl @ glyph_clipboard @ '' To check current image info, use: get_last_image_info''
                    else nl @ nl @ ''Note: No edited image was generated.'' @
                         nl @ nl @ glyph_bulb @
                           '' Tip: Try running the command again - sometimes the first call needs to warm up the model.'')) #
           map (\<lambda>d. ImageContent (the (inline_data d))
                      (case inline_mimeType d of
                         None \<Rightarrow> ''image/png''
                       | Some m \<Rightarrow> if m = [] then ''image/png'' else m))
             (image_datas ?ps))"
        by (simp add: generate_statusText_eq edit_statusText_eq entries)
      have first: "\<exists>a. params_arguments request = Some a \<and>
               r = TextContent
                     (if params_name request = ''generate_image''
                      then glyph_art @ '' Image generated with nano-banana (Gemini 2.5 Flash Image)!'' @ nl @ nl @
                           ''Prompt: '' @ dq @ (case prompt a of None \<Rightarrow> ''undefined'' | Some v \<Rightarrow> v) @ dq @
                           (if texts ?ps \<noteq> [] then nl @ nl @ ''Description: '' @ texts ?ps else []) @
                           (if written_paths (new_events w w') \<noteq> []
                            then nl @ nl @ glyph_folder @ '' Image saved to:'' @ nl @
                                 join_with nl (map (\<lambda>f. ''- '' @ f) (written_paths (new_events w w'))) @
                                 nl @ nl @ glyph_bulb @ '' View the image by:'' @
                                 nl @ ''1. Opening the file at the path above'' @
                                 nl @ ''2. Clicking on '' @ dq @ ''Called generate_image'' @ dq @
                                   '' in Cursor to expand the MCP call details'' @
                                 nl @ nl @ glyph_cycle @ '' To modify this image, use: continue_editing'' @
                                 nl @ glyph_clipboard @ '' To check current image info, use: get_last_image_info''
                            else nl @ nl @ ''Note: No image was generated. The model may have returned only text.'' @
                                 nl @ nl @ glyph_bulb @
                                   '' Tip: Try running the command again - sometimes the first call needs to warm up the model.'')
                      else glyph_art @ '' Image edited with nano-banana!'' @ nl @ nl @
                           ''Original: '' @ (case imagePath a of None \<Rightarrow> ''undefined'' | Some v \<Rightarrow> v) @ nl @
                           ''Edit prompt: '' @ dq @ (case prompt a of None \<Rightarrow> ''undefined'' | Some v \<Rightarrow> v) @ dq @
                           (case referenceImages a of
                              None \<Rightarrow> []
                            | Some rs \<Rightarrow>
                                if 0 < length rs then nl @ nl @ ''Reference images used:'' @ nl @ join_with nl (map (\<lambda>f. ''- '' @ f) rs) else []) @
                           (if texts ?ps \<noteq> [] then nl @ nl @ ''Description: '' @ texts ?ps else []) @
                           (if written_paths (new_events w w') \<noteq> []
                            then nl @ nl @ glyph_folder @ '' Edited image saved to:'' @ nl @
                                 join_with nl (map (\<lambda>f. ''- '' @ f) (written_paths (new_events w w'))) @
                                 nl @ nl @ glyph_bulb @ '' View the edited image by:'' @
                                 nl @ ''1. Opening the file at the path above'' @
                                 nl @ ''2. Clicking on '' @ dq @ ''Called edit_image'' @ dq @
                                   '' in Cursor to expand the MCP call details'' @
                                 nl @ nl @ glyph_cycle @ '' To continue editing, use: continue_editing'' @
                                 nl @ glyph_clipboard @ '' To check current image info, use: get_last_image_info''
                            else nl @ nl @ ''Note: No edited image was generated.'' @
                                 nl @ nl @ glyph_bulb @
                                   '' Tip: Try running the command again - sometimes the first call needs to warm up the model.'')) #
                   map (\<lambda>d. ImageContent (the (inline_data d))
                              (case inline_mimeType d of
                                 None \<Rightarrow> ''image/png''
                               | Some m \<Rightarrow> if m = [] then ''image/png'' else m))
                     (image_datas ?ps) \<and>
               new_events w w' =
                 Mkdir (imagesDir E s (relative_save_path a)) #
                 map2 (\<lambda>f d. WriteFile f (base64_decode E (the (inline_data d))))
                   (written_paths (new_events w w')) (image_datas ?ps) \<and>
               length (written_paths (new_events w w')) = length (image_datas ?ps)"
        if "res = Inr r" for r
      proof (intro exI [of _ a'] conjI)
        show "params_arguments request = Some a'"
          by (rule read(1))
        from that shape show "r = TextContent
                     (if params_name request = ''generate_image''
                      then glyph_art @ '' Image generated with nano-banana (Gemini 2.5 Flash Image)!'' @ nl @ nl @
                           ''Prompt: '' @ dq @ (case prompt a' of None \<Rightarrow> ''undefined'' | Some v \<Rightarrow> v) @ dq @
                           (if texts ?ps \<noteq> [] then nl @ nl @ ''Description: '' @ texts ?ps else []) @
                           (if written_paths (new_events w w') \<noteq> []
                            then nl @ nl @ glyph_folder @ '' Image saved to:'' @ nl @
                                 join_with nl (map (\<lambda>f. ''- '' @ f) (written_paths (new_events w w'))) @
                                 nl @ nl @ glyph_bulb @ '' View the image by:'' @
                                 nl @ ''1. Opening the file at the path above'' @
                                 nl @ ''2. Clicking on '' @ dq @ ''Called generate_image'' @ dq @
                                   '' in Cursor to expand the MCP call details'' @
                                 nl @ nl @ glyph_cycle @ '' To modify this image, use: continue_editing'' @
                                 nl @ glyph_clipboard @ '' To check current image info, use: get_last_image_info''
                            else nl @ nl @ ''Note: No image was generated. The model may have returned only text.'' @
                                 nl @ nl @ glyph_bulb @
                                   '' Tip: Try running the command again - sometimes the first call needs to warm up the model.'')
                      else glyph_art @ '' Image edited with nano-banana!'' @ nl @ nl @
                           ''Original: '' @ (case imagePath a' of None \<Rightarrow> ''undefined'' | Some v \<Rightarrow> v) @ nl @
                           ''Edit prompt: '' @ dq @ (case prompt a' of None \<Rightarrow> ''undefined'' | Some v \<Rightarrow> v) @ dq @
                           (case referenceImages a' of
                              None \<Rightarrow> []
                            | Some rs \<Rightarrow>
                                if 0 < length rs then nl @ nl @ ''Reference images used:'' @ nl @ join_with nl (map (\<lambda>f. ''- '' @ f) rs) else []) @
                           (if texts ?ps \<noteq> [] then nl @ nl @ ''Description: '' @ texts ?ps else []) @
                           (if written_paths (new_events w w') \<noteq> []
                            then nl @ nl @ glyph_folder @ '' Edited image saved to:'' @ nl @
                                 join_with nl (map (\<lambda>f. ''- '' @ f) (written_paths (new_events w w'))) @
                                 nl @ nl @ glyph_bulb @ '' View the edited image by:'' @
                                 nl @ ''1. Opening the file at the path above'' @
                                 nl @ ''2. Clicking on '' @ dq @ ''Called edit_image'' @ dq @
                                   '' in Cursor to expand the MCP call details'' @
                                 nl @ nl @ glyph_cycle @ '' To continue editing, use: continue_editing'' @
                                 nl @ glyph_clipboard @ '' To check current image info, use: get_last_image_info''
                            else nl @ nl @ ''Note: No edited image was generated.'' @
                                 nl @ nl @ glyph_bulb @
                                   '' Tip: Try running the command again - sometimes the first call needs to warm up the model.'')) #
                   map (\<lambda>d. ImageContent (the (inline_data d))
                              (case inline_mimeType d of
                                 None \<Rightarrow> ''image/png''
                               | Some m \<Rightarrow> if m = [] then ''image/png'' else m))
                     (image_datas ?ps)"
          unfolding written by simp
        from events show "new_events w w' =
                 Mkdir (imagesDir E s (relative_save_path a')) #
                 map2 (\<lambda>f d. WriteFile f (base64_decode E (the (inline_data d))))
                   (written_paths (new_events w w')) (image_datas ?ps)"
          unfolding written .
        from l'(4) show "length (written_paths (new_events w w')) = length (image_datas ?ps)"
          unfolding written .
      qed
      have second: "res = Inr [TextContent
                         (if params_name request = ''generate_image''
                          then glyph_art @ '' Image generated with nano-banana (Gemini 2.5 Flash Image)!'' @ nl @ nl @
                               ''Prompt: '' @ dq @ (case prompt a of None \<Rightarrow> ''undefined'' | Some v \<Rightarrow> v) @ dq @
                               (if texts ?ps \<noteq> [] then nl @ nl @ ''Description: '' @ texts ?ps else []) @
                               nl @ nl @ ''Note: No image was generated. The model may have returned only text.'' @
                               nl @ nl @ glyph_bulb @
                                 '' Tip: Try running the command again - sometimes the first call needs to warm up the model.''
                          else glyph_art @ '' Image edited with nano-banana!'' @ nl @ nl @
                               ''Original: '' @ (case imagePath a of None \<Rightarrow> ''undefined'' | Some v \<Rightarrow> v) @ nl @
                               ''Edit prompt: '' @ dq @ (case prompt a of None \<Rightarrow> ''undefined'' | Some v \<Rightarrow> v) @ dq @
                               (case referenceImages a of
                                  None \<Rightarrow> []
                                | Some rs \<Rightarrow>
                                    if 0 < length rs then nl @ nl @ ''Reference images used:'' @ nl @ join_with nl (map (\<lambda>f. ''- '' @ f) rs) else []) @
                               (if texts ?ps \<noteq> [] then nl @ nl @ ''Description: '' @ texts ?ps else []) @
                               nl @ nl @ ''Note: No edited image was generated.'' @
                               nl @ nl @ glyph_bulb @
                                 '' Tip: Try running the command again - sometimes the first call needs to warm up the model.'')]"
        if "params_arguments request = Some a" "image_datas ?ps = []" for a
      proof -
        from that(1) read(1) have "a' = a"
          by simp
        with shape none [OF that(2)] that(2) show ?thesis
          by simp
      qed
      from first second show ?thesis
        by blast
    qed
  qed
qed

text \<open>
  Five calls on the example server: a response of text alone; a text and an image, saved
  under the save path; two images, saved under names of their own; an edit with two
  references, the first of which cannot be read; and an edit without a prompt.
\<close>

theorem result_content_witness:
  "call_tool example_env (tool_call ''generate_image'' describe_arguments)
     (example_server, example_world) =
   (Inr [TextContent
           ([CHR 0xEF, CHR 0xA3, CHR 0xBF, CHR 0xC3, CHR 0xBC, CHR 0xC3, CHR 0xA9, CHR 0xC2, CHR 0xAE] @ '' Image generated with nano-banana (Gemini 2.5 Flash Image)!'' @ nl @ nl @
            ''Prompt: '' @ dq @ ''describe a ball'' @ dq @
            nl @ nl @ ''Description: A red ball.'' @
            nl @ nl @ ''Note: No image was generated. The model may have returned only text.'' @
            nl @ nl @ [CHR 0xEF, CHR 0xA3, CHR 0xBF, CHR 0xC3, CHR 0xBC, CHR 0xC3, CHR 0xAD, CHR 0xC2, CHR 0xB0] @
              '' Tip: Try running the command again - sometimes the first call needs to warm up the model.'')],
    example_server, describe_world) \<and>
   sent describe_world \<noteq> sent example_world \<and>
   last_answer example_env describe_world =
     Inr \<lparr>candidates = Some [\<lparr>candidate_content = Some \<lparr>content_parts =
             Some [\<lparr>part_text = Some ''A red ball.'', part_inlineData = None\<rparr>]\<rparr>\<rparr>]\<rparr> \<and>
   image_datas (answer_parts (last_answer example_env describe_world)) = [] \<and>
   mkdir_fails example_env (imagesDir example_env example_server (relative_save_path describe_arguments)) =
     None \<and>
   call_tool example_env (tool_call ''generate_image'' red_ball_arguments)
     (example_server, example_world) =
   (Inr [TextContent
           ([CHR 0xEF, CHR 0xA3, CHR 0xBF, CHR 0xC3, CHR 0xBC, CHR 0xC3, CHR 0xA9, CHR 0xC2, CHR 0xAE] @ '' Image generated with nano-banana (Gemini 2.5 Flash Image)!'' @ nl @ nl @
            ''Prompt: '' @ dq @ ''a red ball'' @ dq @
            nl @ nl @ ''Description: A red ball.'' @
            nl @ nl @ [CHR 0xEF, CHR 0xA3, CHR 0xBF, CHR 0xC3, CHR 0xBC, CHR 0xC3, CHR 0xAC, CHR 0xC3, CHR 0x85] @ '' Image saved to:'' @ nl @
            ''- /work/out/pic.png'' @
            nl @ nl @ [CHR 0xEF, CHR 0xA3, CHR 0xBF, CHR 0xC3, CHR 0xBC, CHR 0xC3, CHR 0xAD, CHR 0xC2, CHR 0xB0] @ '' View the image by:'' @
            nl @ ''1. Opening the file at the path above'' @
            nl @ ''2. Clicking on '' @ dq @ ''Called generate_image'' @ dq @
              '' in Cursor to expand the MCP call details'' @
            nl @ nl @ [CHR 0xEF, CHR 0xA3, CHR 0xBF, CHR 0xC3, CHR 0xBC, CHR 0xC3, CHR 0xAE, CHR 0xC3, CHR 0x91] @ '' To modify this image, use: continue_editing'' @
            nl @ [CHR 0xEF, CHR 0xA3, CHR 0xBF, CHR 0xC3, CHR 0xBC, CHR 0xC3, CHR 0xAC, CHR 0xC3, CHR 0xA3] @ '' To check current image info, use: get_last_image_info''),
         ImageContent ''QUJD'' ''image/png''],
    example_server\<lparr>lastImagePath := Some ''/work/out/pic.png''\<rparr>, red_ball_world) \<and>
   call_tool spacious_env (tool_call ''generate_image'' two_balls_arguments)
     (example_server, example_world) =
   (Inr [TextContent
           ([CHR 0xEF, CHR 0xA3, CHR 0xBF, CHR 0xC3, CHR 0xBC, CHR 0xC3, CHR 0xA9, CHR 0xC2, CHR 0xAE] @ '' Image generated with nano-banana (Gemini 2.5 Flash Image)!'' @ nl @ nl @
            ''Prompt: '' @ dq @ ''two balls'' @ dq @
            nl @ nl @ [CHR 0xEF, CHR 0xA3, CHR 0xBF, CHR 0xC3, CHR 0xBC, CHR 0xC3, CHR 0xAC, CHR 0xC3, CHR 0x85] @ '' Image saved to:'' @ nl @
            ''- /work/generated-2025-01-01T00-00-00-000Z-0k3x9f.png'' @ nl @ ''- /work/generated-2025-01-01T00-00-01-000Z-1k3x9f.png'' @
            nl @ nl @ [CHR 0xEF, CHR 0xA3, CHR 0xBF, CHR 0xC3, CHR 0xBC, CHR 0xC3, CHR 0xAD, CHR 0xC2, CHR 0xB0] @ '' View the image by:'' @
            nl @ ''1. Opening the file at the path above'' @
            nl @ ''2. Clicking on '' @ dq @ ''Called generate_image'' @ dq @
              '' in Cursor to expand the MCP call details'' @
            nl @ nl @ [CHR 0xEF, CHR 0xA3, CHR 0xBF, CHR 0xC3, CHR 0xBC, CHR 0xC3, CHR 0xAE, CHR 0xC3, CHR 0x91] @ '' To modify this image, use: continue_editing'' @
            nl @ [CHR 0xEF, CHR 0xA3, CHR 0xBF, CHR 0xC3, CHR 0xBC, CHR 0xC3, CHR 0xAC, CHR 0xC3, CHR 0xA3] @ '' To check current image info, use: get_last_image_info''),
         ImageContent ''QUJD'' ''image/png'',
         ImageContent ''QUJDREVGRw=='' ''image/png''],
    example_server\<lparr>lastImagePath := Some ''/work/generated-2025-01-01T00-00-01-000Z-1k3x9f.png''\<rparr>,
    example_world\<lparr>files := (files example_world)
        (''/work/generated-2025-01-01T00-00-00-000Z-0k3x9f.png'' \<mapsto> ''ABC'',
         ''/work/generated-2025-01-01T00-00-01-000Z-1k3x9f.png'' \<mapsto> ''ABCDEFG''),
      fs_log := [Mkdir ''/work'',
                 WriteFile ''/work/generated-2025-01-01T00-00-00-000Z-0k3x9f.png'' ''ABC'',
                 WriteFile ''/work/generated-2025-01-01T00-00-01-000Z-1k3x9f.png'' ''ABCDEFG''],
      sent := [(''key-1'', PromptContents (Some ''two balls''))],
      clock_reads := 2\<rparr>) \<and>
   call_tool example_env (tool_call ''edit_image'' blue_edit_arguments)
     (example_server, example_world) =
   (Inr [TextContent
           ([CHR 0xEF, CHR 0xA3, CHR 0xBF, CHR 0xC3, CHR 0xBC, CHR 0xC3, CHR 0xA9, CHR 0xC2, CHR 0xAE] @ '' Image edited with nano-banana!'' @ nl @ nl @
            ''Original: /work/in.jpg'' @ nl @
            ''Edit prompt: '' @ dq @ ''make it blue'' @ dq @ nl @ nl @
            ''Reference images used:'' @ nl @ ''- /nope.png'' @ nl @ ''- /work/style.PNG'' @
            nl @ nl @ ''Description: A red ball.'' @
            nl @ nl @ [CHR 0xEF, CHR 0xA3, CHR 0xBF, CHR 0xC3, CHR 0xBC, CHR 0xC3, CHR 0xAC, CHR 0xC3, CHR 0x85] @ '' Edited image saved to:'' @ nl @
            ''- /work/edited-2025-01-01T00-00-00-000Z-0k3x9f.png'' @
            nl @ nl @ [CHR 0xEF, CHR 0xA3, CHR 0xBF, CHR 0xC3, CHR 0xBC, CHR 0xC3, CHR 0xAD, CHR 0xC2, CHR 0xB0] @ '' View the edited image by:'' @
            nl @ ''1. Opening the file at the path above'' @
            nl @ ''2. Clicking on '' @ dq @ ''Called edit_image'' @ dq @
              '' in Cursor to expand the MCP call details'' @
            nl @ nl @ [CHR 0xEF, CHR 0xA3, CHR 0xBF, CHR 0xC3, CHR 0xBC, CHR 0xC3, CHR 0xAE, CHR 0xC3, CHR 0x91] @ '' To continue editing, use: continue_editing'' @
            nl @ [CHR 0xEF, CHR 0xA3, CHR 0xBF, CHR 0xC3, CHR 0xBC, CHR 0xC3, CHR 0xAC, CHR 0xC3, CHR 0xA3] @ '' To check current image info, use: get_last_image_info''),
         ImageContent ''QUJD'' ''image/png''],
    example_server\<lparr>lastImagePath := Some ''/work/edited-2025-01-01T00-00-00-000Z-0k3x9f.png''\<rparr>,
    blue_edit_world) \<and>
   call_tool example_env (tool_call ''edit_image'' (no_arguments\<lparr>imagePath := Some ''/work/in.jpg''\<rparr>))
     (example_server, example_world) =
   (Inr [TextContent
           ([CHR 0xEF, CHR 0xA3, CHR 0xBF, CHR 0xC3, CHR 0xBC, CHR 0xC3, CHR 0xA9, CHR 0xC2, CHR 0xAE] @ '' Image edited with nano-banana!'' @ nl @ nl @
            ''Original: /work/in.jpg'' @ nl @
            ''Edit prompt: '' @ dq @ ''undefined'' @ dq @
            nl @ nl @ ''Description: A red ball.'' @
            nl @ nl @ [CHR 0xEF, CHR 0xA3, CHR 0xBF, CHR 0xC3, CHR 0xBC, CHR 0xC3, CHR 0xAC, CHR 0xC3, CHR 0x85] @ '' Edited image saved to:'' @ nl @
            ''- /work/edited-2025-01-01T00-00-00-000Z-0k3x9f.png'' @
            nl @ nl @ [CHR 0xEF, CHR 0xA3, CHR 0xBF, CHR 0xC3, CHR 0xBC, CHR 0xC3, CHR 0xAD, CHR 0xC2, CHR 0xB0] @ '' View the edited image by:'' @
            nl @ ''1. Opening the file at the path above'' @
            nl @ ''2. Clicking on '' @ dq @ ''Called edit_image'' @ dq @
              '' in Cursor to expand the MCP call details'' @
            nl @ nl @ [CHR 0xEF, CHR 0xA3, CHR 0xBF, CHR 0xC3, CHR 0xBC, CHR 0xC3, CHR 0xAE, CHR 0xC3, CHR 0x91] @ '' To continue editing, use: continue_editing'' @
            nl @ [CHR 0xEF, CHR 0xA3, CHR 0xBF, CHR 0xC3, CHR 0xBC, CHR 0xC3, CHR 0xAC, CHR 0xC3, CHR 0xA3] @ '' To check current image info, use: get_last_image_info''),
         ImageContent ''QUJD'' ''image/png''],
    example_server\<lparr>lastImagePath := Some ''/work/edited-2025-01-01T00-00-00-000Z-0k3x9f.png''\<rparr>,
    example_world\<lparr>files := (files example_world)
        (''/work/edited-2025-01-01T00-00-00-000Z-0k3x9f.png'' \<mapsto> ''ABC''),
      fs_log := [Mkdir ''/work'',
                 WriteFile ''/work/edited-2025-01-01T00-00-00-000Z-0k3x9f.png'' ''ABC''],
      sent := [(''key-1'', PartsContents [InlineDataPart ''QUJD'' ''image/jpeg'', TextPart None])],
      clock_reads := 1\<rparr>)"
proof -
  have generate: "params_name (tool_call ''generate_image'' a) = ''generate_image'' \<or>
      params_name (tool_call ''generate_image'' a) = ''edit_image''"
    and edit: "params_name (tool_call ''edit_image'' a) = ''generate_image'' \<or>
      params_name (tool_call ''edit_image'' a) = ''edit_image''" for a
    by (simp_all add: tool_call_def)
  have text_only: "call_tool example_env (tool_call ''generate_image'' describe_arguments)
     (example_server, example_world) =
   (Inr [TextContent
           ([CHR 0xEF, CHR 0xA3, CHR 0xBF, CHR 0xC3, CHR 0xBC, CHR 0xC3, CHR 0xA9, CHR 0xC2, CHR 0xAE] @ '' Image generated with nano-banana (Gemini 2.5 Flash Image)!'' @ nl @ nl @
            ''Prompt: '' @ dq @ ''describe a ball'' @ dq @
            nl @ nl @ ''Description: A red ball.'' @
            nl @ nl @ ''Note: No image was generated. The model may have returned only text.'' @
            nl @ nl @ [CHR 0xEF, CHR 0xA3, CHR 0xBF, CHR 0xC3, CHR 0xBC, CHR 0xC3, CHR 0xAD, CHR 0xC2, CHR 0xB0] @
              '' Tip: Try running the command again - sometimes the first call needs to warm up the model.'')],
    example_server, describe_world)"
    by (simp add: run_eval describe_world_def text_eval glyph_eval)
  have one_image: "call_tool example_env (tool_call ''generate_image'' red_ball_arguments)
     (example_server, example_world) =
   (Inr [TextContent
           ([CHR 0xEF, CHR 0xA3, CHR 0xBF, CHR 0xC3, CHR 0xBC, CHR 0xC3, CHR 0xA9, CHR 0xC2, CHR 0xAE] @ '' Image generated with nano-banana (Gemini 2.5 Flash Image)!'' @ nl @ nl @
            ''Prompt: '' @ dq @ ''a red ball'' @ dq @
            nl @ nl @ ''Description: A red ball.'' @
            nl @ nl @ [CHR 0xEF, CHR 0xA3, CHR 0xBF, CHR 0xC3, CHR 0xBC, CHR 0xC3, CHR 0xAC, CHR 0xC3, CHR 0x85] @ '' Image saved to:'' @ nl @
            ''- /work/out/pic.png'' @
            nl @ nl @ [CHR 0xEF, CHR 0xA3, CHR 0xBF, CHR 0xC3, CHR 0xBC, CHR 0xC3, CHR 0xAD, CHR 0xC2, CHR 0xB0] @ '' View the image by:'' @
            nl @ ''1. Opening the file at the path above'' @
            nl @ ''2. Clicking on '' @ dq @ ''Called generate_image'' @ dq @
              '' in Cursor to expand the MCP call details'' @
            nl @ nl @ [CHR 0xEF, CHR 0xA3, CHR 0xBF, CHR 0xC3, CHR 0xBC, CHR 0xC3, CHR 0xAE, CHR 0xC3, CHR 0x91] @ '' To modify this image, use: continue_editing'' @
            nl @ [CHR 0xEF, CHR 0xA3, CHR 0xBF, CHR 0xC3, CHR 0xBC, CHR 0xC3, CHR 0xAC, CHR 0xC3, CHR 0xA3] @ '' To check current image info, use: get_last_image_info''),
         ImageContent ''QUJD'' ''image/png''],
    example_server\<lparr>lastImagePath := Some ''/work/out/pic.png''\<rparr>, red_ball_world)"
    by (simp add: run_eval path_eval red_ball_world_def text_eval glyph_eval)
  have two_images: "call_tool spacious_env (tool_call ''generate_image'' two_balls_arguments)
     (example_server, example_world) =
   (Inr [TextContent
           ([CHR 0xEF, CHR 0xA3, CHR 0xBF, CHR 0xC3, CHR 0xBC, CHR 0xC3, CHR 0xA9, CHR 0xC2, CHR 0xAE] @ '' Image generated with nano-banana (Gemini 2.5 Flash Image)!'' @ nl @ nl @
            ''Prompt: '' @ dq @ ''two balls'' @ dq @
            nl @ nl @ [CHR 0xEF, CHR 0xA3, CHR 0xBF, CHR 0xC3, CHR 0xBC, CHR 0xC3, CHR 0xAC, CHR 0xC3, CHR 0x85] @ '' Image saved to:'' @ nl @
            ''- /work/generated-2025-01-01T00-00-00-000Z-0k3x9f.png'' @ nl @ ''- /work/generated-2025-01-01T00-00-01-000Z-1k3x9f.png'' @
            nl @ nl @ [CHR 0xEF, CHR 0xA3, CHR 0xBF, CHR 0xC3, CHR 0xBC, CHR 0xC3, CHR 0xAD, CHR 0xC2, CHR 0xB0] @ '' View the image by:'' @
            nl @ ''1. Opening the file at the path above'' @
            nl @ ''2. Clicking on '' @ dq @ ''Called generate_image'' @ dq @
              '' in Cursor to expand the MCP call details'' @
            nl @ nl @ [CHR 0xEF, CHR 0xA3, CHR 0xBF, CHR 0xC3, CHR 0xBC, CHR 0xC3, CHR 0xAE, CHR 0xC3, CHR 0x91] @ '' To modify this image, use: continue_editing'' @
            nl @ [CHR 0xEF, CHR 0xA3, CHR 0xBF, CHR 0xC3, CHR 0xBC, CHR 0xC3, CHR 0xAC, CHR 0xC3, CHR 0xA3] @ '' To check current image info, use: get_last_image_info''),
         ImageContent ''QUJD'' ''image/png'',
         ImageContent ''QUJDREVGRw=='' ''image/png''],
    example_server\<lparr>lastImagePath := Some ''/work/generated-2025-01-01T00-00-01-000Z-1k3x9f.png''\<rparr>,
    example_world\<lparr>files := (files example_world)
        (''/work/generated-2025-01-01T00-00-00-000Z-0k3x9f.png'' \<mapsto> ''ABC'',
         ''/work/generated-2025-01-01T00-00-01-000Z-1k3x9f.png'' \<mapsto> ''ABCDEFG''),
      fs_log := [Mkdir ''/work'',
                 WriteFile ''/work/generated-2025-01-01T00-00-00-000Z-0k3x9f.png'' ''ABC'',
                 WriteFile ''/work/generated-2025-01-01T00-00-01-000Z-1k3x9f.png'' ''ABCDEFG''],
      sent := [(''key-1'', PromptContents (Some ''two balls''))],
      clock_reads := 2\<rparr>)"
    by (simp add: run_eval work_names text_eval glyph_eval)
  have edited: "call_tool example_env (tool_call ''edit_image'' blue_edit_arguments)
     (example_server, example_world) =
   (Inr [TextContent
           ([CHR 0xEF, CHR 0xA3, CHR 0xBF, CHR 0xC3, CHR 0xBC, CHR 0xC3, CHR 0xA9, CHR 0xC2, CHR 0xAE] @ '' Image edited with nano-banana!'' @ nl @ nl @
            ''Original: /work/in.jpg'' @ nl @
            ''Edit prompt: '' @ dq @ ''make it blue'' @ dq @ nl @ nl @
            ''Reference images used:'' @ nl @ ''- /nope.png'' @ nl @ ''- /work/style.PNG'' @
            nl @ nl @ ''Description: A red ball.'' @
            nl @ nl @ [CHR 0xEF, CHR 0xA3, CHR 0xBF, CHR 0xC3, CHR 0xBC, CHR 0xC3, CHR 0xAC, CHR 0xC3, CHR 0x85] @ '' Edited image saved to:'' @ nl @
            ''- /work/edited-2025-01-01T00-00-00-000Z-0k3x9f.png'' @
            nl @ nl @ [CHR 0xEF, CHR 0xA3, CHR 0xBF, CHR 0xC3, CHR 0xBC, CHR 0xC3, CHR 0xAD, CHR 0xC2, CHR 0xB0] @ '' View the edited image by:'' @
            nl @ ''1. Opening the file at the path above'' @
            nl @ ''2. Clicking on '' @ dq @ ''Called edit_image'' @ dq @
              '' in Cursor to expand the MCP call details'' @
            nl @ nl @ [CHR 0xEF, CHR 0xA3, CHR 0xBF, CHR 0xC3, CHR 0xBC, CHR 0xC3, CHR 0xAE, CHR 0xC3, CHR 0x91] @ '' To continue editing, use: continue_editing'' @
            nl @ [CHR 0xEF, CHR 0xA3, CHR 0xBF, CHR 0xC3, CHR 0xBC, CHR 0xC3, CHR 0xAC, CHR 0xC3, CHR 0xA3] @ '' To check current image info, use: get_last_image_info''),
         ImageContent ''QUJD'' ''image/png''],
    example_server\<lparr>lastImagePath := Some ''/work/edited-2025-01-01T00-00-00-000Z-0k3x9f.png''\<rparr>,
    blue_edit_world)"
    by (simp add: run_eval work_names blue_edit_world_def text_eval glyph_eval)
  have no_prompt: "call_tool example_env (tool_call ''edit_image'' (no_arguments\<lparr>imagePath := Some ''/work/in.jpg''\<rparr>))
     (example_server, example_world) =
   (Inr [TextContent
           ([CHR 0xEF, CHR 0xA3, CHR 0xBF, CHR 0xC3, CHR 0xBC, CHR 0xC3, CHR 0xA9, CHR 0xC2, CHR 0xAE] @ '' Image edited with nano-banana!'' @ nl @ nl @
            ''Original: /work/in.jpg'' @ nl @
            ''Edit prompt: '' @ dq @ ''undefined'' @ dq @
            nl @ nl @ ''Description: A red ball.'' @
            nl @ nl @ [CHR 0xEF, CHR 0xA3, CHR 0xBF, CHR 0xC3, CHR 0xBC, CHR 0xC3, CHR 0xAC, CHR 0xC3, CHR 0x85] @ '' Edited image saved to:'' @ nl @
            ''- /work/edited-2025-01-01T00-00-00-000Z-0k3x9f.png'' @
            nl @ nl @ [CHR 0xEF, CHR 0xA3, CHR 0xBF, CHR 0xC3, CHR 0xBC, CHR 0xC3, CHR 0xAD, CHR 0xC2, CHR 0xB0] @ '' View the edited image by:'' @
            nl @ ''1. Opening the file at the path above'' @
            nl @ ''2. Clicking on '' @ dq @ ''Called edit_image'' @ dq @
              '' in Cursor to expand the MCP call details'' @
            nl @ nl @ [CHR 0xEF, CHR 0xA3, CHR 0xBF, CHR 0xC3, CHR 0xBC, CHR 0xC3, CHR 0xAE, CHR 0xC3, CHR 0x91] @ '' To continue editing, use: continue_editing'' @
            nl @ [CHR 0xEF, CHR 0xA3, CHR 0xBF, CHR 0xC3, CHR 0xBC, CHR 0xC3, CHR 0xAC, CHR 0xC3, CHR 0xA3] @ '' To check current image info, use: get_last_image_info''),
         ImageContent ''QUJD'' ''image/png''],
    example_server\<lparr>lastImagePath := Some ''/work/edited-2025-01-01T00-00-00-000Z-0k3x9f.png''\<rparr>,
    example_world\<lparr>files := (files example_world)
        (''/work/edited-2025-01-01T00-00-00-000Z-0k3x9f.png'' \<mapsto> ''ABC''),
      fs_log := [Mkdir ''/work'',
                 WriteFile ''/work/edited-2025-01-01T00-00-00-000Z-0k3x9f.png'' ''ABC''],
      sent := [(''key-1'', PartsContents [InlineDataPart ''QUJD'' ''image/jpeg'', TextPart None])],
      clock_reads := 1\<rparr>)"
    by (simp add: run_eval work_names text_eval glyph_eval)
  have answered: "sent describe_world \<noteq> sent example_world"
    "last_answer example_env describe_world =
       Inr \<lparr>candidates = Some [\<lparr>candidate_content = Some \<lparr>content_parts =
               Some [\<lparr>part_text = Some ''A red ball.'', part_inlineData = None\<rparr>]\<rparr>\<rparr>]\<rparr>"
    "mkdir_fails example_env (imagesDir example_env example_server (relative_save_path describe_arguments)) =
       None"
    by (simp_all add: last_answer_def describe_world_def example_world_def example_env_def
        response_with_def caption_def)
  then have no_image: "image_datas (answer_parts (last_answer example_env describe_world)) = []"
    by (simp add: answer_parts_def response_parts_def image_datas_def map_filter_simps)
  note result_content [OF generate text_only] result_content [OF generate one_image]
    result_content [OF generate two_images] result_content [OF edit edited]
    result_content [OF edit no_prompt]
  with text_only one_image two_images edited no_prompt answered no_image show ?thesis
    by (intro conjI)
qed

text \<open>
  The claim as stated has every response without image parts end in a text-only
  success. Here the service answers with text alone, and the save directory cannot be
  made: the call fails with an internal error, because the directory is made before the
  parts of the response are read.
\<close>

theorem no_directory_counterexample:
  "call_tool readonly_env (tool_call ''generate_image'' describe_arguments)
     (example_server, example_world) =
   (Inl (McpError InternalError
           (''Failed to generate image: EACCES: permission denied, mkdir '' @ sq @ ''/work'' @ sq)),
    example_server,
    example_world\<lparr>sent := [(''key-1'', PromptContents (Some ''describe a ball''))]\<rparr>) \<and>
   generateContent readonly_env 0 ''key-1'' (PromptContents (Some ''describe a ball'')) =
     Inr \<lparr>candidates = Some [\<lparr>candidate_content = Some \<lparr>content_parts =
             Some [\<lparr>part_text = Some ''A red ball.'', part_inlineData = None\<rparr>]\<rparr>\<rparr>]\<rparr>"
  by (simp add: run_eval)

section \<open>The round trip of the last image\<close>

text \<open>
  Claim C8, as amended. If an image call has written a file, the last image path is the
  path of the file written last; that file exists, and \<^verbatim>\<open>get_last_image_info\<close> then
  answers with this path, the size of the file and the time of its last change. The path
  is absolute if the workplace directory is (it is not made absolute: see the
  counterexample). In particular, after a call with the save path \<^verbatim>\<open>out/pic.png\<close>
  whose response has exactly one image part, which has been written, the only file
  written is the workplace directory joined with \<^verbatim>\<open>out\<close> and \<^verbatim>\<open>pic.png\<close>; it holds
  the image, it is the last image path, and \<^verbatim>\<open>get_last_image_info\<close> reports it. That
  path is the workplace directory followed by \<^verbatim>\<open>/out/pic.png\<close> when the workplace
  directory is absolute, in normal form and without a slash at its end.
\<close>

theorem last_image_round_trip:
  assumes tool: "params_name request = ''generate_image'' \<or> params_name request = ''edit_image''"
    and call: "call_tool E request (s, w) = (res, s', w')"
    and query: "params_name query = ''get_last_image_info''"
  shows "(written_paths (new_events w w') \<noteq> [] \<longrightarrow>
            lastImagePath s' = Some (last (written_paths (new_events w w'))) \<and>
            (\<exists>b. files w' (last (written_paths (new_events w w'))) = Some b \<and>
                 call_tool E query (s', w') =
                   (Inr [TextContent
                           (glyph_camera @ '' Last Image Information:'' @ nl @ nl @
                            ''Path: '' @ last (written_paths (new_events w w')) @ nl @
                            ''File Size: '' @ decimal ((length b + 512) div 1024) @ '' KB'' @ nl @
                            ''Last Modified: '' @ mtime_toLocaleString E (last (written_paths (new_events w w'))) @ nl @ nl @
                            glyph_bulb @ '' Use continue_editing to make further changes to this image.'')],
                    s', w')) \<and>
            (take 1 (workplaceDir E s) = ''/'' \<longrightarrow>
               take 1 (last (written_paths (new_events w w'))) = ''/'')) \<and>
         (\<forall>a d. params_arguments request = Some a \<and>
                relative_save_path a = Some ''out/pic.png'' \<and>
                image_datas (answer_parts (last_answer E w')) = [d] \<and>
                written_paths (new_events w w') \<noteq> [] \<longrightarrow>
            written_paths (new_events w w') =
              [path_join (path_join (workplaceDir E s) ''out'') ''pic.png''] \<and>
            files w' (path_join (path_join (workplaceDir E s) ''out'') ''pic.png'') =
              Some (base64_decode E (the (inline_data d))) \<and>
            lastImagePath s' = Some (path_join (path_join (workplaceDir E s) ''out'') ''pic.png'') \<and>
            call_tool E query (s', w') =
              (Inr [TextContent
                      (glyph_camera @ '' Last Image Information:'' @ nl @ nl @
                       ''Path: '' @ path_join (path_join (workplaceDir E s) ''out'') ''pic.png'' @ nl @
                       ''File Size: '' @ decimal ((length (base64_decode E (the (inline_data d))) + 512) div 1024) @ '' KB'' @ nl @
                       ''Last Modified: '' @ mtime_toLocaleString E (path_join (path_join (workplaceDir E s) ''out'') ''pic.png'') @ nl @ nl @
                       glyph_bulb @ '' Use continue_editing to make further changes to this image.'')],
               s', w') \<and>
            (take 1 (workplaceDir E s) = ''/'' \<and>
             path_normalize (workplaceDir E s) = workplaceDir E s \<and>
             last (workplaceDir E s) \<noteq> CHR ''/'' \<longrightarrow>
               path_join (path_join (workplaceDir E s) ''out'') ''pic.png'' =
                 workplaceDir E s @ ''/out/pic.png''))"
proof -
  from tool obtain prefix where
    "(params_name request = ''generate_image'' \<and> prefix = ''generated-'') \<or>
     (params_name request = ''edit_image'' \<and> prefix = ''edited-'')"
    by auto
  from this call show ?thesis
  proof (cases rule: image_call_cases)
    case (early c m)
    then show ?thesis by simp
  next
    case (no_answer a' rq c m)
    then show ?thesis by simp
  next
    case (read a' rq response lres fs)
    note saved = read(5)
    note eff = saved_as_call [OF saved]
    let ?W = "written_paths (new_events w w')"
    let ?P = "path_join (path_join (workplaceDir E s) ''out'') ''pic.png''"
    have report: "call_tool E query (s', w') =
        (Inr [TextContent
                (glyph_camera @ '' Last Image Information:'' @ nl @ nl @
                 ''Path: '' @ f @ nl @
                 ''File Size: '' @ decimal ((length b + 512) div 1024) @ '' KB'' @ nl @
                 ''Last Modified: '' @ mtime_toLocaleString E f @ nl @ nl @
                 glyph_bulb @ '' Use continue_editing to make further changes to this image.'')],
         s', w')"
      if "lastImagePath s' = Some f" "f \<noteq> []" "files w' f = Some b" for f b
    proof -
      from that have "getLastImageInfo E (s', w') = (Inr [TextContent (last_image_text E f (length b))], s', w')"
        by (simp add: getLastImageInfo_def truthy_def js_string_def fs_stat_size_def)
      with query show ?thesis
        by (simp add: call_tool_def dispatch_info last_image_text_def round_kb_def)
    qed
    have general: "lastImagePath s' = Some (last ?W) \<and>
        (\<exists>b. files w' (last ?W) = Some b \<and>
             call_tool E query (s', w') =
               (Inr [TextContent
                       (glyph_camera @ '' Last Image Information:'' @ nl @ nl @
                        ''Path: '' @ last ?W @ nl @
                        ''File Size: '' @ decimal ((length b + 512) div 1024) @ '' KB'' @ nl @
                        ''Last Modified: '' @ mtime_toLocaleString E (last ?W) @ nl @ nl @
                        glyph_bulb @ '' Use continue_editing to make further changes to this image.'')],
                s', w')) \<and>
        (take 1 (workplaceDir E s) = ''/'' \<longrightarrow> take 1 (last ?W) = ''/'')"
      if wrote: "?W \<noteq> []"
    proof -
      from wrote eff(2) have fs: "fs \<noteq> []" and f: "last ?W = last fs"
        by simp_all
      then have "last ?W \<in> set fs"
        by simp
      from saved_as_joined [OF saved this] obtain n where
        joined: "last ?W = path_join (imagesDir E s (relative_save_path a')) n"
        by blast
      then have nonempty: "last ?W \<noteq> []"
        by (simp add: path_join_nonempty)
      from eff(4) fs f have lastImage: "lastImagePath s' = Some (last ?W)"
        by simp
      from eff(6) [OF fs] f obtain b where b: "files w' (last ?W) = Some b"
        by simp
      have "take 1 (last ?W) = ''/''" if "take 1 (workplaceDir E s) = ''/''"
      proof -
        from that have "path_isAbsolute (workplaceDir E s)"
          by (simp add: path_isAbsolute_take)
        then have "path_isAbsolute (path_join (imagesDir E s (relative_save_path a')) n)"
          by (intro path_join_absolute imagesDir_absolute)
        with joined show ?thesis
          by (simp add: path_isAbsolute_take)
      qed
      with lastImage b report [OF lastImage nonempty b] show ?thesis
        by blast
    qed
    have particular: "?W = [?P] \<and>
        files w' ?P = Some (base64_decode E (the (inline_data d))) \<and>
        lastImagePath s' = Some ?P \<and>
        call_tool E query (s', w') =
          (Inr [TextContent
                  (glyph_camera @ '' Last Image Information:'' @ nl @ nl @
                   ''Path: '' @ ?P @ nl @
                   ''File Size: '' @ decimal ((length (base64_decode E (the (inline_data d))) + 512) div 1024) @ '' KB'' @ nl @
                   ''Last Modified: '' @ mtime_toLocaleString E ?P @ nl @ nl @
                   glyph_bulb @ '' Use continue_editing to make further changes to this image.'')],
           s', w') \<and>
        (take 1 (workplaceDir E s) = ''/'' \<and>
         path_normalize (workplaceDir E s) = workplaceDir E s \<and>
         last (workplaceDir E s) \<noteq> CHR ''/'' \<longrightarrow>
           ?P = workplaceDir E s @ ''/out/pic.png'')"
      if args: "params_arguments request = Some a"
        and path: "relative_save_path a = Some ''out/pic.png''"
        and one: "image_datas (answer_parts (last_answer E w')) = [d]"
        and wrote: "?W \<noteq> []" for a d
    proof -
      from args read(1) have a': "a' = a"
        by simp
      from wrote eff(2) have fs: "fs \<noteq> []"
        by simp
      with eff(3) one obtain f where single: "fs = [f]"
        by (cases fs) auto
      from eff(8) path a' single have f: "f = ?P"
        by (simp add: truthy_def js_string_def imagesDir_def out_pic_dirname out_pic_basename)
      from one have "d \<in> set (image_datas (answer_parts (last_answer E w')))"
        by simp
      from image_datas_the [OF this] eff(6) [OF fs] single one f
      have content: "files w' ?P = Some (base64_decode E (the (inline_data d)))"
        by simp
      from eff(4) single f have lastImage: "lastImagePath s' = Some ?P"
        by simp
      have literal: "?P = workplaceDir E s @ ''/out/pic.png''"
        if "take 1 (workplaceDir E s) = ''/''" "path_normalize (workplaceDir E s) = workplaceDir E s"
          "last (workplaceDir E s) \<noteq> CHR ''/''"
        using path_join_out_pic [of "workplaceDir E s"] that
        by (simp add: path_isAbsolute_take slash_def)
      from eff(2) single f content lastImage literal
        report [OF lastImage path_join_nonempty content]
      show ?thesis
        by simp
    qed
    from general particular show ?thesis
      by blast
  qed
qed

text \<open>
  The round trip on the example server, whose workplace directory is \<^verbatim>\<open>/work\<close>: the
  response to the prompt has one image part, of three bytes. And a call that writes two
  images leaves the path of the second.
\<close>

theorem last_image_round_trip_witness:
  "relative_save_path red_ball_arguments = Some ''out/pic.png'' \<and>
   image_datas (answer_parts (last_answer example_env red_ball_world)) =
     [\<lparr>inline_data = Some ''QUJD'', inline_mimeType = Some ''image/png''\<rparr>] \<and>
   base64_decode example_env ''QUJD'' = ''ABC'' \<and>
   snd (call_tool example_env (tool_call ''generate_image'' red_ball_arguments)
          (example_server, example_world)) =
     (example_server\<lparr>lastImagePath := Some ''/work/out/pic.png''\<rparr>, red_ball_world) \<and>
   fs_log red_ball_world = [Mkdir ''/work/out'', WriteFile ''/work/out/pic.png'' ''ABC''] \<and>
   files red_ball_world ''/work/out/pic.png'' = Some ''ABC'' \<and>
   call_tool example_env (tool_call ''get_last_image_info'' no_arguments)
     (example_server\<lparr>lastImagePath := Some ''/work/out/pic.png''\<rparr>, red_ball_world) =
     (Inr [TextContent
             ([CHR 0xEF, CHR 0xA3, CHR 0xBF, CHR 0xC3, CHR 0xBC, CHR 0xC3, CHR 0xAC, CHR 0xE2, CHR 0x88, CHR 0x91] @ '' Last Image Information:'' @ nl @ nl @
              ''Path: '' @ ''/work/out/pic.png'' @ nl @
              ''File Size: '' @ ''0'' @ '' KB'' @ nl @
              ''Last Modified: '' @ ''1/1/2025, 12:00:00 AM'' @ nl @ nl @
              [CHR 0xEF, CHR 0xA3, CHR 0xBF, CHR 0xC3, CHR 0xBC, CHR 0xC3, CHR 0xAD, CHR 0xC2, CHR 0xB0] @ '' Use continue_editing to make further changes to this image.'')],
      example_server\<lparr>lastImagePath := Some ''/work/out/pic.png''\<rparr>, red_ball_world) \<and>
   lastImagePath (fst (snd (call_tool spacious_env (tool_call ''generate_image'' two_balls_arguments)
                              (example_server, example_world)))) =
     Some ''/work/generated-2025-01-01T00-00-01-000Z-1k3x9f.png''"
proof -
  have tool: "params_name (tool_call ''generate_image'' a) = ''generate_image'' \<or>
      params_name (tool_call ''generate_image'' a) = ''edit_image''" for a
    by (simp add: tool_call_def)
  have query: "params_name (tool_call ''get_last_image_info'' no_arguments) = ''get_last_image_info''"
    and args: "params_arguments (tool_call ''generate_image'' red_ball_arguments) = Some red_ball_arguments"
    and path: "relative_save_path red_ball_arguments = Some ''out/pic.png''"
    by (simp_all add: tool_call_def red_ball_arguments_def no_arguments_def)
  have run: "call_tool example_env (tool_call ''generate_image'' red_ball_arguments)
      (example_server, example_world) =
    (Inr (red_ball_result ''/work/out/pic.png''),
     example_server\<lparr>lastImagePath := Some ''/work/out/pic.png''\<rparr>, red_ball_world)"
    by (simp add: run_eval path_eval red_ball_result_def red_ball_world_def)
  have report: "call_tool example_env (tool_call ''get_last_image_info'' no_arguments)
     (example_server\<lparr>lastImagePath := Some ''/work/out/pic.png''\<rparr>, red_ball_world) =
     (Inr [TextContent
             ([CHR 0xEF, CHR 0xA3, CHR 0xBF, CHR 0xC3, CHR 0xBC, CHR 0xC3, CHR 0xAC, CHR 0xE2, CHR 0x88, CHR 0x91] @ '' Last Image Information:'' @ nl @ nl @
              ''Path: '' @ ''/work/out/pic.png'' @ nl @
              ''File Size: '' @ ''0'' @ '' KB'' @ nl @
              ''Last Modified: '' @ ''1/1/2025, 12:00:00 AM'' @ nl @ nl @
              [CHR 0xEF, CHR 0xA3, CHR 0xBF, CHR 0xC3, CHR 0xBC, CHR 0xC3, CHR 0xAD, CHR 0xC2, CHR 0xB0] @ '' Use continue_editing to make further changes to this image.'')],
      example_server\<lparr>lastImagePath := Some ''/work/out/pic.png''\<rparr>, red_ball_world)"
    by (simp add: call_tool_def dispatch_def tool_call_def getLastImageInfo_def truthy_def
        js_string_def fs_stat_size_def red_ball_world_def last_image_text_def round_kb_def
        decimal.simps digit_chars example_env_def glyph_eval)
  have two: "call_tool spacious_env (tool_call ''generate_image'' two_balls_arguments)
      (example_server, example_world) =
    (Inr [TextContent
            (generate_statusText (Some ''two balls'')
               \<lparr>content = [ImageContent ''QUJD'' ''image/png'',
                            ImageContent ''QUJDREVGRw=='' ''image/png''],
                savedFiles = [''/work/generated-2025-01-01T00-00-00-000Z-0k3x9f.png'',
                              ''/work/generated-2025-01-01T00-00-01-000Z-1k3x9f.png''],
                textContent = []\<rparr>),
          ImageContent ''QUJD'' ''image/png'', ImageContent ''QUJDREVGRw=='' ''image/png''],
     example_server\<lparr>lastImagePath := Some ''/work/generated-2025-01-01T00-00-01-000Z-1k3x9f.png''\<rparr>,
     example_world\<lparr>files := (files example_world)
         (''/work/generated-2025-01-01T00-00-00-000Z-0k3x9f.png'' \<mapsto> ''ABC'',
          ''/work/generated-2025-01-01T00-00-01-000Z-1k3x9f.png'' \<mapsto> ''ABCDEFG''),
       fs_log := [Mkdir ''/work'',
                  WriteFile ''/work/generated-2025-01-01T00-00-00-000Z-0k3x9f.png'' ''ABC'',
                  WriteFile ''/work/generated-2025-01-01T00-00-01-000Z-1k3x9f.png'' ''ABCDEFG''],
       sent := [(''key-1'', PromptContents (Some ''two balls''))],
       clock_reads := 2\<rparr>)"
    by (simp add: run_eval work_names)
  have one: "image_datas (answer_parts (last_answer example_env red_ball_world)) =
      [\<lparr>inline_data = Some ''QUJD'', inline_mimeType = Some ''image/png''\<rparr>]"
    by (simp add: last_answer_def red_ball_world_def example_env_def answer_parts_def
        response_parts_def response_with_def image_datas_def map_filter_simps caption_def
        small_image_def truthy_def)
  have log: "fs_log red_ball_world = [Mkdir ''/work/out'', WriteFile ''/work/out/pic.png'' ''ABC'']"
    and content: "files red_ball_world ''/work/out/pic.png'' = Some ''ABC''"
    by (simp_all add: red_ball_world_def)
  have decoded: "base64_decode example_env ''QUJD'' = ''ABC''"
    by (simp add: example_env_def example_decode_def)
  note last_image_round_trip [OF tool run query] last_image_round_trip [OF tool two query]
  with path one decoded log content report show ?thesis
    by (simp add: run two)
qed

text \<open>
  The claim as stated has the last image path absolute, and the file at the workplace
  directory followed by \<^verbatim>\<open>/out/pic.png\<close>. With the workplace path \<^verbatim>\<open>./images\<close> in the
  environment, the file is written to, and the last image path is, the relative path
  \<^verbatim>\<open>images/out/pic.png\<close>.
\<close>

theorem relative_workplace_counterexample:
  "call_tool relative_env (tool_call ''generate_image'' red_ball_arguments)
     (relative_server, example_world) =
     (Inr (red_ball_result ''images/out/pic.png''),
      relative_server\<lparr>lastImagePath := Some ''images/out/pic.png''\<rparr>, relative_world) \<and>
   fs_log relative_world = [Mkdir ''images/out'', WriteFile ''images/out/pic.png'' ''ABC''] \<and>
   take 1 ''images/out/pic.png'' \<noteq> ''/'' \<and>
   workplaceDir relative_env relative_server @ ''/out/pic.png'' = ''./images/out/pic.png''"
  by (simp add: relative_server_eq relative_env_def relative_world_def red_ball_result_def run_eval
      path_eval)

section \<open>The status after setting the key\<close>




end
